theory Spec2Isabelle
  imports Complex_Main
begin

section \<open>The outside world: console, clock, provider, filesystem\<close>

text \<open>
  winaws is a sequence of calls into the cloud provider's SDK, the local filesystem, the
  clock and the console. The embedding threads one explicit \<open>world\<close> through every
  function: the wall clock, the lines printed so far, the trace of external calls issued so
  far, the local files and the provider-side registrations. Whatever the code cannot
  predict (what the provider answers on the k-th poll, how long a call takes, what the
  cryptography library computes, which call fails) is read from an \<open>env\<close>.
\<close>

datatype exn =
    ClientError string    \<comment> \<open>botocore's ClientError, with \<open>str(e)\<close>\<close>
  | OtherError string     \<comment> \<open>any other subclass of Exception, with \<open>str(e)\<close>\<close>

fun str_exn :: "exn \<Rightarrow> string" where
  "str_exn (ClientError m) = m"
| "str_exn (OtherError m) = m"

datatype level = Success | Error | Warning | Info | Header | Plain

type_synonym message = "level \<times> string"

datatype request =
    GetPasswordData string string            \<comment> \<open>region, instance id\<close>
  | DescribeKeyPairs string string           \<comment> \<open>region, key name\<close>
  | DeleteKeyPair string string
  | CreateKeyPair string string
  | DescribeInstances string "string list" "(string \<times> string list) list"
      \<comment> \<open>region, \<open>InstanceIds\<close>, \<open>Filters\<close>\<close>
  | StartInstances string string
  | StopInstances string string
  | DescribeStacks string string             \<comment> \<open>region, stack name\<close>
  | DescribeStackEvents string string
  | DeleteStack string string
  | ReadBytes string                         \<comment> \<open>\<open>Path.read_bytes\<close>\<close>
  | Unlink string
  | WriteText string
  | Chmod string
  | Sleep int

record key_file =
  content :: string
  mode :: nat

record ec2_instance =
  InstanceId :: string
  InstanceType :: string
  StateName :: string
  PublicIpAddress :: "string option"
  PrivateIpAddress :: "string option"
  LaunchTime :: string
  AvailabilityZone :: string
  VpcId :: "string option"
  SubnetId :: "string option"
  KeyName :: "string option"
  Tags :: "(string \<times> string) list"

record world =
  clock :: real                                  \<comment> \<open>\<open>time.time()\<close>, in seconds\<close>
  console :: "message list"                      \<comment> \<open>oldest first\<close>
  trace :: "request list"                        \<comment> \<open>external calls issued, oldest first\<close>
  files :: "string \<rightharpoonup> key_file"               \<comment> \<open>the local key directory\<close>
  key_pairs :: "(string \<times> string) set"           \<comment> \<open>provider side: (region, key name)\<close>
  reservations :: "string \<Rightarrow> ec2_instance list list" \<comment> \<open>provider side, per region\<close>
  pw_polls :: nat                                \<comment> \<open>\<open>ec2_get_password_data\<close> calls so far\<close>
  stack_polls :: nat                             \<comment> \<open>\<open>describe_stacks\<close> calls so far\<close>

record stack_event =
  ResourceStatus :: string
  LogicalResourceId :: string
  ResourceStatusReason :: "string option"

record env =
  home :: string                                       \<comment> \<open>\<open>Path.home()\<close>\<close>
  password_data :: "nat \<Rightarrow> exn + string"               \<comment> \<open>answer to the k-th password query\<close>
  stack_status :: "nat \<Rightarrow> exn + string list"           \<comment> \<open>k-th \<open>describe_stacks\<close>: the statuses of \<open>Stacks\<close>\<close>
  stack_events :: "exn + stack_event list"             \<comment> \<open>\<open>describe_stack_events\<close>, newest first\<close>
  call_duration :: "nat \<Rightarrow> real"                      \<comment> \<open>seconds the k-th polled call takes\<close>
  oversleep :: "nat \<Rightarrow> real"                          \<comment> \<open>seconds the k-th sleep overshoots\<close>
  fault :: "request \<Rightarrow> exn option"                    \<comment> \<open>an injected failure of a call\<close>
  key_material :: string                               \<comment> \<open>\<open>KeyMaterial\<close> of a created pair\<close>
  load_pem_private_key :: "string \<Rightarrow> exn + string"
  b64decode :: "string \<Rightarrow> exn + string"
  rsa_decrypt_pkcs1v15 :: "string \<Rightarrow> string \<Rightarrow> exn + string"  \<comment> \<open>key, ciphertext\<close>
  utf8_decode :: "string \<Rightarrow> exn + string"
  ask :: "string list \<Rightarrow> nat option"
      \<comment> \<open>the prompt: the instance ids offered, and the index picked (\<open>None\<close>: cancelled)\<close>
  confirm :: "string \<Rightarrow> bool option"
      \<comment> \<open>\<open>questionary.confirm(message).ask()\<close>: the answer (\<open>None\<close>: cancelled)\<close>

subsection \<open>utils/console.py\<close>

definition emit :: "level \<Rightarrow> string \<Rightarrow> world \<Rightarrow> world" where
  "emit l m w = w\<lparr>console := console w @ [(l, m)]\<rparr>"

definition print_success :: "string \<Rightarrow> world \<Rightarrow> world" where
  "print_success = emit Success"

definition print_error :: "string \<Rightarrow> world \<Rightarrow> world" where
  "print_error = emit Error"

definition print_warning :: "string \<Rightarrow> world \<Rightarrow> world" where
  "print_warning = emit Warning"

definition print_info :: "string \<Rightarrow> world \<Rightarrow> world" where
  "print_info = emit Info"

definition print_header :: "string \<Rightarrow> world \<Rightarrow> world" where
  "print_header = emit Header"

definition print_plain :: "string \<Rightarrow> world \<Rightarrow> world" where
  "print_plain = emit Plain"

subsection \<open>Python's \<open>str\<close> of an integer, for the f-strings\<close>

definition digit_char :: "nat \<Rightarrow> char" where
  "digit_char d = char_of (48 + d)"

function str_nat :: "nat \<Rightarrow> string" where
  "str_nat n = (if n < 10 then [digit_char n] else str_nat (n div 10) @ [digit_char (n mod 10)])"
  by pat_completeness auto
termination
  by (relation "measure id") auto

declare str_nat.simps [simp del]

definition str_int :: "int \<Rightarrow> string" where
  "str_int i = (if i < 0 then CHR ''-'' # str_nat (nat (- i)) else str_nat (nat i))"

subsection \<open>Calls that leave the process\<close>

definition record_call :: "request \<Rightarrow> world \<Rightarrow> world" where
  "record_call r w = w\<lparr>trace := trace w @ [r]\<rparr>"

text \<open>
  \<open>time.sleep(d)\<close> raises ValueError on a negative length and otherwise returns after at
  least \<open>d\<close> seconds.
\<close>

definition sleep :: "env \<Rightarrow> nat \<Rightarrow> int \<Rightarrow> world \<Rightarrow> exn + world" where
  "sleep E k d w =
     (if d < 0 then Inl (OtherError ''sleep length must be non-negative'')
      else Inr ((record_call (Sleep d) w)\<lparr>clock := clock w + of_int d + oversleep E k\<rparr>))"

text \<open>\<open>ec2.get_password_data(InstanceId=...)\<close> followed by \<open>response.get('PasswordData', '')\<close>.\<close>

definition ec2_get_password_data :: "env \<Rightarrow> string \<Rightarrow> string \<Rightarrow> world \<Rightarrow> (exn + string) \<times> world" where
  "ec2_get_password_data E region instance_id w =
     (password_data E (pw_polls w),
      (record_call (GetPasswordData region instance_id) w)
        \<lparr>clock := clock w + call_duration E (pw_polls w), pw_polls := Suc (pw_polls w)\<rparr>)"

definition read_bytes :: "env \<Rightarrow> string \<Rightarrow> world \<Rightarrow> (exn + string) \<times> world" where
  "read_bytes E path w =
     (case fault E (ReadBytes path) of
        Some e \<Rightarrow> (Inl e, record_call (ReadBytes path) w)
      | None \<Rightarrow>
          (case files w path of
             None \<Rightarrow> (Inl (OtherError (''[Errno 2] No such file or directory: '' @ path)),
                      record_call (ReadBytes path) w)
           | Some f \<Rightarrow> (Inr (content f), record_call (ReadBytes path) w)))"

section \<open>core/password.py\<close>

text \<open>
  The body of the \<open>try\<close> of \<open>decrypt_password\<close>, after the key file has been read: load the
  PEM key, base64-decode the ciphertext, RSA-decrypt with PKCS#1 v1.5 padding, decode as
  UTF-8. Each library call either raises or returns.
\<close>

definition decrypt_steps :: "env \<Rightarrow> string \<Rightarrow> string \<Rightarrow> exn + string" where
  "decrypt_steps E encrypted_password private_key_pem =
     (case load_pem_private_key E private_key_pem of
        Inl e \<Rightarrow> Inl e
      | Inr private_key \<Rightarrow>
          (case b64decode E encrypted_password of
             Inl e \<Rightarrow> Inl e
           | Inr encrypted_bytes \<Rightarrow>
               (case rsa_decrypt_pkcs1v15 E private_key encrypted_bytes of
                  Inl e \<Rightarrow> Inl e
                | Inr decrypted_bytes \<Rightarrow> utf8_decode E decrypted_bytes)))"

definition decrypt_password :: "env \<Rightarrow> string \<Rightarrow> string \<Rightarrow> world \<Rightarrow> string option \<times> world" where
  "decrypt_password E encrypted_password private_key_path w =
     (case read_bytes E private_key_path w of
        (Inl e, w1) \<Rightarrow> (None, print_error (''Failed to decrypt password: '' @ str_exn e) w1)
      | (Inr private_key_pem, w1) \<Rightarrow>
          (case decrypt_steps E encrypted_password private_key_pem of
             Inl e \<Rightarrow> (None, print_error (''Failed to decrypt password: '' @ str_exn e) w1)
           | Inr password \<Rightarrow> (Some password, w1)))"

text \<open>
  The \<open>while\<close> loop of \<open>get_instance_password\<close>. Nothing bounds the number of iterations
  but the clock, so the loop is a partial function: \<open>None\<close> is a run that never returns.
  The spinner of \<open>create_progress\<close> is transient and leaves nothing on the console.
\<close>

partial_function (option) password_loop ::
  "env \<Rightarrow> string \<Rightarrow> string \<Rightarrow> string \<Rightarrow> int \<Rightarrow> int \<Rightarrow> real \<Rightarrow> world \<Rightarrow> (string option \<times> world) option"
where
  "password_loop E region instance_id private_key_path max_wait poll_interval start_time w =
     (if clock w - start_time < of_int max_wait then
        (case ec2_get_password_data E region instance_id w of
           (Inl e, w1) \<Rightarrow>
             Some (None, print_error (''Error retrieving password: '' @ str_exn e) w1)
         | (Inr pwd_data, w1) \<Rightarrow>
             if pwd_data \<noteq> [] then
               (case decrypt_password E pwd_data private_key_path
                       (print_info ''Password data retrieved, decrypting...'' w1) of
                  (Some password, w2) \<Rightarrow>
                    if password \<noteq> [] then Some (Some password, w2)
                    else Some (None, print_error ''Failed to decrypt password'' w2)
                | (None, w2) \<Rightarrow> Some (None, print_error ''Failed to decrypt password'' w2))
             else
               (case sleep E (pw_polls w) poll_interval w1 of
                  Inl e \<Rightarrow>
                    Some (None, print_error (''Error retrieving password: '' @ str_exn e) w1)
                | Inr w2 \<Rightarrow>
                    password_loop E region instance_id private_key_path max_wait poll_interval
                      start_time w2))
      else
        Some (None,
          print_info ''You can try running 'winaws password <instance-id>' again later''
            (print_error (''Timeout waiting for password data after '' @ str_int max_wait
                            @ '' seconds'') w)))"

definition get_instance_password ::
  "env \<Rightarrow> string \<Rightarrow> string \<Rightarrow> string \<Rightarrow> int \<Rightarrow> int \<Rightarrow> world \<Rightarrow> (string option \<times> world) option"
where
  "get_instance_password E region instance_id private_key_path max_wait poll_interval w =
     password_loop E region instance_id private_key_path max_wait poll_interval (clock w)
       (print_warning ''This usually takes 4-5 minutes after instance launch''
          (print_info ''Waiting for password data to become available...'' w))"

declare password_loop.simps [code]

section \<open>core/keypair.py\<close>

definition quoted :: "string \<Rightarrow> string" where
  "quoted s = CHR 0x27 # s @ [CHR 0x27]"

text \<open>
  \<open>get_key_path\<close>: \<open>~/.winaws/keys/<name>.pem\<close>. (\<open>get_keys_directory\<close> also creates the
  directory; the model takes it to exist.)
\<close>

definition get_key_path :: "env \<Rightarrow> string \<Rightarrow> string" where
  "get_key_path E key_name = home E @ ''/.winaws/keys/'' @ key_name @ ''.pem''"

text \<open>
  The provider's key-pair calls, as the code relies on them: describing a name that is not
  registered raises ClientError, deleting is idempotent, creating registers the name and
  returns the private key material. Any call may also fail for a reason of its own
  (\<open>fault\<close>).
\<close>

definition ec2_describe_key_pairs :: "env \<Rightarrow> string \<Rightarrow> string \<Rightarrow> world \<Rightarrow> (exn + unit) \<times> world" where
  "ec2_describe_key_pairs E region key_name w =
     (case fault E (DescribeKeyPairs region key_name) of
        Some e \<Rightarrow> Inl e
      | None \<Rightarrow>
          if (region, key_name) \<in> key_pairs w then Inr ()
          else Inl (ClientError (''The key pair '' @ quoted key_name @ '' does not exist'')),
      record_call (DescribeKeyPairs region key_name) w)"

definition ec2_delete_key_pair :: "env \<Rightarrow> string \<Rightarrow> string \<Rightarrow> world \<Rightarrow> (exn + unit) \<times> world" where
  "ec2_delete_key_pair E region key_name w =
     (case fault E (DeleteKeyPair region key_name) of
        Some e \<Rightarrow> (Inl e, record_call (DeleteKeyPair region key_name) w)
      | None \<Rightarrow>
          (Inr (), (record_call (DeleteKeyPair region key_name) w)
                     \<lparr>key_pairs := key_pairs w - {(region, key_name)}\<rparr>))"

definition ec2_create_key_pair :: "env \<Rightarrow> string \<Rightarrow> string \<Rightarrow> world \<Rightarrow> (exn + string) \<times> world" where
  "ec2_create_key_pair E region key_name w =
     (case fault E (CreateKeyPair region key_name) of
        Some e \<Rightarrow> (Inl e, record_call (CreateKeyPair region key_name) w)
      | None \<Rightarrow>
          if (region, key_name) \<in> key_pairs w then
            (Inl (ClientError (''The keypair '' @ quoted key_name @ '' already exists'')),
             record_call (CreateKeyPair region key_name) w)
          else
            (Inr (key_material E),
             (record_call (CreateKeyPair region key_name) w)
               \<lparr>key_pairs := insert (region, key_name) (key_pairs w)\<rparr>))"

definition path_exists :: "string \<Rightarrow> world \<Rightarrow> bool" where
  "path_exists path w \<longleftrightarrow> files w path \<noteq> None"

definition unlink :: "env \<Rightarrow> string \<Rightarrow> world \<Rightarrow> (exn + unit) \<times> world" where
  "unlink E path w =
     (case fault E (Unlink path) of
        Some e \<Rightarrow> (Inl e, record_call (Unlink path) w)
      | None \<Rightarrow>
          if path_exists path w then
            (Inr (), (record_call (Unlink path) w)\<lparr>files := (files w)(path := None)\<rparr>)
          else (Inl (OtherError (''[Errno 2] No such file or directory: '' @ path)),
                record_call (Unlink path) w))"

definition write_text :: "env \<Rightarrow> string \<Rightarrow> string \<Rightarrow> world \<Rightarrow> (exn + unit) \<times> world" where
  "write_text E path text w =
     (case fault E (WriteText path) of
        Some e \<Rightarrow> (Inl e, record_call (WriteText path) w)
      | None \<Rightarrow>
          (Inr (),
           (record_call (WriteText path) w)
             \<lparr>files := (files w)(path \<mapsto>
                 \<lparr>content = text,
                  mode = (case files w path of None \<Rightarrow> 420 | Some f \<Rightarrow> mode f)\<rparr>)\<rparr>))"

definition chmod :: "env \<Rightarrow> string \<Rightarrow> nat \<Rightarrow> world \<Rightarrow> (exn + unit) \<times> world" where
  "chmod E path m w =
     (case fault E (Chmod path) of
        Some e \<Rightarrow> (Inl e, record_call (Chmod path) w)
      | None \<Rightarrow>
          (case files w path of
             None \<Rightarrow> (Inl (OtherError (''[Errno 2] No such file or directory: '' @ path)),
                      record_call (Chmod path) w)
           | Some f \<Rightarrow>
               (Inr (), (record_call (Chmod path) w)
                          \<lparr>files := (files w)(path \<mapsto> f\<lparr>mode := m\<rparr>)\<rparr>)))"

text \<open>The handler of the outer \<open>try\<close> of \<open>create_key_pair\<close>.\<close>

definition create_failed :: "exn \<Rightarrow> world \<Rightarrow> string option \<times> world" where
  "create_failed e w = (None, print_error (''Failed to create key pair: '' @ str_exn e) w)"

text \<open>
  Lines 51 to 69 of \<open>create_key_pair\<close>: delete whatever the provider has under the name
  (a ClientError is passed over), create the pair, store the private key with mode
  \<open>0o600\<close> (384). Both the fresh start and the stale-file branch end here.
\<close>

definition create_fresh :: "env \<Rightarrow> string \<Rightarrow> string \<Rightarrow> string \<Rightarrow> world \<Rightarrow> string option \<times> world" where
  "create_fresh E region key_name key_path w =
     (case ec2_delete_key_pair E region key_name w of
        (Inl (OtherError m), w1) \<Rightarrow> create_failed (OtherError m) w1
      | (r, w1) \<Rightarrow>
          (case ec2_create_key_pair E region key_name
                  (case r of
                     Inr u \<Rightarrow> print_info (''Deleted existing key pair '' @ quoted key_name
                                              @ '' from AWS'') w1
                   | Inl e \<Rightarrow> w1) of
             (Inl e, w2) \<Rightarrow> create_failed e w2
           | (Inr private_key, w2) \<Rightarrow>
               (case write_text E key_path private_key w2 of
                  (Inl e, w3) \<Rightarrow> create_failed e w3
                | (Inr u, w3) \<Rightarrow>
                    (case chmod E key_path 384 w3 of
                       (Inl e, w4) \<Rightarrow> create_failed e w4
                     | (Inr u, w4) \<Rightarrow>
                         (Some key_path,
                          print_info (''Private key saved to: '' @ key_path)
                            (print_success (''Created key pair: '' @ key_name) w4))))))"

definition create_key_pair :: "env \<Rightarrow> string \<Rightarrow> string \<Rightarrow> world \<Rightarrow> string option \<times> world" where
  "create_key_pair E region key_name w =
     (let key_path = get_key_path E key_name in
      if path_exists key_path w then
        (case ec2_describe_key_pairs E region key_name
                (print_info (''Key pair file already exists: '' @ key_path) w) of
           (Inr u, w1) \<Rightarrow>
             (Some key_path, print_info (''Key pair '' @ quoted key_name @ '' exists in AWS'') w1)
         | (Inl (ClientError m), w1) \<Rightarrow>
             (case unlink E key_path
                     (print_info ''Key pair not found in AWS, recreating...'' w1) of
                (Inl e, w2) \<Rightarrow> create_failed e w2
              | (Inr u, w2) \<Rightarrow> create_fresh E region key_name key_path w2)
         | (Inl (OtherError m), w1) \<Rightarrow> create_failed (OtherError m) w1)
      else create_fresh E region key_name key_path w)"

text \<open>
  \<open>delete_key_pair\<close>: the provider's registration and the local file are deleted
  independently; a failure of either is printed and makes the result \<open>False\<close>.
\<close>

definition delete_key_pair :: "env \<Rightarrow> string \<Rightarrow> string \<Rightarrow> world \<Rightarrow> bool \<times> world" where
  "delete_key_pair E region key_name w =
     (case ec2_delete_key_pair E region key_name w of
        (r, w1) \<Rightarrow>
          (let success = (case r of Inr u \<Rightarrow> True | Inl e \<Rightarrow> False);
               w2 = (case r of
                       Inr u \<Rightarrow> print_success (''Deleted key pair '' @ quoted key_name
                                                 @ '' from AWS'') w1
                     | Inl e \<Rightarrow> print_error (''Failed to delete key pair from AWS: ''
                                               @ str_exn e) w1);
               key_path = get_key_path E key_name
           in if path_exists key_path w2 then
                (case unlink E key_path w2 of
                   (Inr u, w3) \<Rightarrow>
                     (success, print_success (''Deleted local key file: '' @ key_path) w3)
                 | (Inl e, w3) \<Rightarrow>
                     (False, print_error (''Failed to delete local key file: '' @ str_exn e) w3))
              else (success, w2)))"

section \<open>core/ec2.py\<close>

text \<open>
  The provider's \<open>describe_instances\<close>: a filter \<open>tag:K\<close> keeps an instance with a tag
  \<open>K\<close> whose value is listed, \<open>instance-state-name\<close> keeps one whose state is listed;
  \<open>InstanceIds\<close>, when given, keeps the listed ids and raises ClientError when none exists.
  A reservation left without instances is not returned.
\<close>

definition matches_filter :: "ec2_instance \<Rightarrow> string \<times> string list \<Rightarrow> bool" where
  "matches_filter inst flt =
     (if take 4 (fst flt) = ''tag:'' then
        (\<exists>t \<in> set (Tags inst). fst t = drop 4 (fst flt) \<and> snd t \<in> set (snd flt))
      else if fst flt = ''instance-state-name'' then StateName inst \<in> set (snd flt)
      else False)"

definition selected :: "string list \<Rightarrow> (string \<times> string list) list \<Rightarrow> ec2_instance \<Rightarrow> bool" where
  "selected ids flts inst \<longleftrightarrow>
     (ids = [] \<or> InstanceId inst \<in> set ids) \<and> (\<forall>flt \<in> set flts. matches_filter inst flt)"

definition ec2_describe_instances ::
  "env \<Rightarrow> string \<Rightarrow> string list \<Rightarrow> (string \<times> string list) list \<Rightarrow> world
     \<Rightarrow> (exn + ec2_instance list list) \<times> world" where
  "ec2_describe_instances E region ids flts w =
     (case fault E (DescribeInstances region ids flts) of
        Some e \<Rightarrow> Inl e
      | None \<Rightarrow>
          (let found = filter (\<lambda>r. r \<noteq> []) (map (filter (selected ids flts)) (reservations w region))
           in if ids \<noteq> [] \<and> found = []
              then Inl (ClientError (''The instance ID '' @ quoted (hd ids) @ '' does not exist''))
              else Inr found),
      record_call (DescribeInstances region ids flts) w)"

text \<open>\<open>{tag['Key']: tag['Value'] for tag in ...}.get(key, default)\<close>: the last entry wins.\<close>

definition tag_or :: "(string \<times> string) list \<Rightarrow> string \<Rightarrow> string \<Rightarrow> string" where
  "tag_or tgs key dflt = (case map_of (rev tgs) key of None \<Rightarrow> dflt | Some v \<Rightarrow> v)"

definition or_na :: "string option \<Rightarrow> string" where
  "or_na v = (case v of None \<Rightarrow> ''N/A'' | Some s \<Rightarrow> s)"

record instance_info =
  i_instance_id :: string
  i_instance_type :: string
  i_state :: string
  i_public_ip :: string
  i_private_ip :: string
  i_launch_time :: string
  i_availability_zone :: string
  i_vpc_id :: string
  i_subnet_id :: string
  i_key_name :: string
  i_name :: string
  i_managed_by :: string
  i_tags :: "(string \<times> string) list"

definition get_instance_info :: "env \<Rightarrow> string \<Rightarrow> string \<Rightarrow> world \<Rightarrow> instance_info option \<times> world" where
  "get_instance_info E region iid w =
     (case ec2_describe_instances E region [iid] [] w of
        (Inl e, w1) \<Rightarrow> (None, print_error (''Failed to get instance info: '' @ str_exn e) w1)
      | (Inr [], w1) \<Rightarrow> (None, w1)
      | (Inr ([] # rs), w1) \<Rightarrow>
          (None, print_error ''Failed to get instance info: list index out of range'' w1)
      | (Inr ((inst # insts) # rs), w1) \<Rightarrow>
          (Some \<lparr>i_instance_id = InstanceId inst,
                 i_instance_type = InstanceType inst,
                 i_state = StateName inst,
                 i_public_ip = or_na (PublicIpAddress inst),
                 i_private_ip = or_na (PrivateIpAddress inst),
                 i_launch_time = LaunchTime inst,
                 i_availability_zone = AvailabilityZone inst,
                 i_vpc_id = or_na (VpcId inst),
                 i_subnet_id = or_na (SubnetId inst),
                 i_key_name = or_na (KeyName inst),
                 i_name = tag_or (Tags inst) ''Name'' ''N/A'',
                 i_managed_by = tag_or (Tags inst) ''ManagedBy'' ''N/A'',
                 i_tags = Tags inst\<rparr>, w1))"

record instance_summary =
  s_instance_id :: string
  s_instance_type :: string
  s_state :: string
  s_public_ip :: string
  s_private_ip :: string
  s_launch_time :: string
  s_name :: string

definition summary :: "ec2_instance \<Rightarrow> instance_summary" where
  "summary inst =
     \<lparr>s_instance_id = InstanceId inst,
      s_instance_type = InstanceType inst,
      s_state = StateName inst,
      s_public_ip = or_na (PublicIpAddress inst),
      s_private_ip = or_na (PrivateIpAddress inst),
      s_launch_time = LaunchTime inst,
      s_name = tag_or (Tags inst) ''Name'' ''N/A''\<rparr>"

definition managed_filters :: "(string \<times> string list) list" where
  "managed_filters =
     [(''tag:ManagedBy'', [''winaws'']),
      (''instance-state-name'', [''pending'', ''running'', ''stopping'', ''stopped''])]"

definition list_managed_instances :: "env \<Rightarrow> string \<Rightarrow> world \<Rightarrow> instance_summary list \<times> world" where
  "list_managed_instances E region w =
     (case ec2_describe_instances E region [] managed_filters w of
        (Inl e, w1) \<Rightarrow> ([], print_error (''Failed to list instances: '' @ str_exn e) w1)
      | (Inr rs, w1) \<Rightarrow> (map summary (concat rs), w1))"

text \<open>
  \<open>start_instances\<close> and \<open>stop_instances\<close> are requests: the provider acknowledges them or
  raises, and the instance changes state later. The commands read the state before the
  request only, so the model leaves \<open>reservations\<close> as it is.
\<close>

definition start_instance :: "env \<Rightarrow> string \<Rightarrow> string \<Rightarrow> world \<Rightarrow> bool \<times> world" where
  "start_instance E region iid w =
     (case fault E (StartInstances region iid) of
        None \<Rightarrow> (True, print_success (''Starting instance '' @ iid)
                          (record_call (StartInstances region iid) w))
      | Some e \<Rightarrow> (False, print_error (''Failed to start instance: '' @ str_exn e)
                            (record_call (StartInstances region iid) w)))"

definition stop_instance :: "env \<Rightarrow> string \<Rightarrow> string \<Rightarrow> world \<Rightarrow> bool \<times> world" where
  "stop_instance E region iid w =
     (case fault E (StopInstances region iid) of
        None \<Rightarrow> (True, print_success (''Stopping instance '' @ iid)
                          (record_call (StopInstances region iid) w))
      | Some e \<Rightarrow> (False, print_error (''Failed to stop instance: '' @ str_exn e)
                            (record_call (StopInstances region iid) w)))"

section \<open>core/cloudformation.py\<close>

text \<open>Python's \<open>needle in haystack\<close> on strings.\<close>

fun starts_with :: "string \<Rightarrow> string \<Rightarrow> bool" where
  "starts_with [] s = True"
| "starts_with (c # cs) [] = False"
| "starts_with (c # cs) (d # ds) = (c = d \<and> starts_with cs ds)"

fun contains :: "string \<Rightarrow> string \<Rightarrow> bool" where
  "contains needle [] = (needle = [])"
| "contains needle (c # cs) = (starts_with needle (c # cs) \<or> contains needle cs)"

definition cfn_describe_stacks ::
  "env \<Rightarrow> string \<Rightarrow> string \<Rightarrow> world \<Rightarrow> (exn + string list) \<times> world" where
  "cfn_describe_stacks E region stack_name w =
     (stack_status E (stack_polls w),
      (record_call (DescribeStacks region stack_name) w)
        \<lparr>clock := clock w + call_duration E (stack_polls w), stack_polls := Suc (stack_polls w)\<rparr>)"

definition cfn_describe_stack_events ::
  "env \<Rightarrow> string \<Rightarrow> string \<Rightarrow> world \<Rightarrow> (exn + stack_event list) \<times> world" where
  "cfn_describe_stack_events E region stack_name w =
     (case fault E (DescribeStackEvents region stack_name) of
        Some e \<Rightarrow> Inl e
      | None \<Rightarrow> stack_events E,
      record_call (DescribeStackEvents region stack_name) w)"

definition print_event :: "stack_event \<Rightarrow> world \<Rightarrow> world" where
  "print_event event w =
     (if contains ''FAILED'' (ResourceStatus event) then
        print_error (ResourceStatus event @ '': '' @ LogicalResourceId event @ '' - ''
                       @ (case ResourceStatusReason event of None \<Rightarrow> [] | Some r \<Rightarrow> r)) w
      else if contains ''COMPLETE'' (ResourceStatus event) then
        print_success (ResourceStatus event @ '': '' @ LogicalResourceId event) w
      else print_info (ResourceStatus event @ '': '' @ LogicalResourceId event) w)"

definition print_stack_events :: "env \<Rightarrow> string \<Rightarrow> string \<Rightarrow> nat \<Rightarrow> world \<Rightarrow> world" where
  "print_stack_events E region stack_name limit w =
     (case cfn_describe_stack_events E region stack_name w of
        (Inl e, w1) \<Rightarrow> print_error (''Failed to get stack events: '' @ str_exn e) w1
      | (Inr events, w1) \<Rightarrow>
          foldl (\<lambda>w' event. print_event event w')
            (print_info (''Recent events for stack '' @ quoted stack_name @ '':'') w1)
            (take limit events))"

text \<open>
  The \<open>while\<close> loop of \<open>wait_for_stack_deletion\<close>. Its \<open>except\<close> clause catches
  ClientError only, so any other exception leaves the function: the result is \<open>Inl\<close> the
  exception, or \<open>Inr\<close> the returned boolean.
\<close>

partial_function (option) deletion_loop ::
  "env \<Rightarrow> string \<Rightarrow> string \<Rightarrow> int \<Rightarrow> real \<Rightarrow> world \<Rightarrow> ((exn + bool) \<times> world) option"
where
  "deletion_loop E region stack_name timeout start_time w =
     (if clock w - start_time < of_int timeout then
        (case cfn_describe_stacks E region stack_name w of
           (Inl (ClientError m), w1) \<Rightarrow>
             if contains ''does not exist'' m
             then Some (Inr True, print_success ''Stack deleted successfully!'' w1)
             else Some (Inr False, print_error (''Error checking stack status: '' @ m) w1)
         | (Inl (OtherError m), w1) \<Rightarrow> Some (Inl (OtherError m), w1)
         | (Inr [], w1) \<Rightarrow> Some (Inl (OtherError ''list index out of range''), w1)
         | (Inr (status # stacks), w1) \<Rightarrow>
             if status = ''DELETE_FAILED'' then
               Some (Inr False,
                     print_stack_events E region stack_name 10
                       (print_error ''Stack deletion failed'' w1))
             else
               (case sleep E (stack_polls w) 10 w1 of
                  Inl e \<Rightarrow> Some (Inl e, w1)
                | Inr w2 \<Rightarrow> deletion_loop E region stack_name timeout start_time w2))
      else
        Some (Inr False,
              print_error (''Timeout waiting for stack deletion after '' @ str_int timeout
                             @ '' seconds'') w))"

declare deletion_loop.simps [code]

definition wait_for_stack_deletion ::
  "env \<Rightarrow> string \<Rightarrow> string \<Rightarrow> int \<Rightarrow> world \<Rightarrow> ((exn + bool) \<times> world) option" where
  "wait_for_stack_deletion E region stack_name timeout w =
     deletion_loop E region stack_name timeout (clock w)
       (print_info ''Waiting for stack deletion to complete...'' w)"

text \<open>
  \<open>cfn.delete_stack\<close> is a request: the provider acknowledges it or raises; what the stack
  does afterwards is what \<open>stack_status\<close> answers to the polls.
\<close>

definition cfn_delete_stack :: "env \<Rightarrow> string \<Rightarrow> string \<Rightarrow> world \<Rightarrow> (exn + unit) \<times> world" where
  "cfn_delete_stack E region stack_name w =
     (case fault E (DeleteStack region stack_name) of
        Some e \<Rightarrow> Inl e
      | None \<Rightarrow> Inr (),
      record_call (DeleteStack region stack_name) w)"

text \<open>
  \<open>delete_stack\<close>: the result of \<open>wait_for_stack_deletion\<close> is not used, so the function
  returns \<open>True\<close> unless a call raised (the \<open>except Exception\<close> also catches what the wait
  lets through).
\<close>

definition delete_stack :: "env \<Rightarrow> string \<Rightarrow> string \<Rightarrow> bool \<Rightarrow> world \<Rightarrow> (bool \<times> world) option" where
  "delete_stack E region stack_name wait w =
     (case cfn_delete_stack E region stack_name w of
        (Inl e, w1) \<Rightarrow> Some (False, print_error (''Failed to delete stack: '' @ str_exn e) w1)
      | (Inr u, w1) \<Rightarrow>
          if wait then
            (case wait_for_stack_deletion E region stack_name 600
                    (print_success (''Deleting CloudFormation stack: '' @ stack_name) w1) of
               None \<Rightarrow> None
             | Some (Inl e, w2) \<Rightarrow>
                 Some (False, print_error (''Failed to delete stack: '' @ str_exn e) w2)
             | Some (Inr finished, w2) \<Rightarrow> Some (True, w2))
          else Some (True, print_success (''Deleting CloudFormation stack: '' @ stack_name) w1))"

text \<open>
  \<open>stack_exists\<close> catches ClientError only: any other exception of \<open>describe_stacks\<close>
  leaves the function.
\<close>

definition stack_exists :: "env \<Rightarrow> string \<Rightarrow> string \<Rightarrow> world \<Rightarrow> (exn + bool) \<times> world" where
  "stack_exists E region stack_name w =
     (case cfn_describe_stacks E region stack_name w of
        (Inr stacks, w1) \<Rightarrow> (Inr True, w1)
      | (Inl (ClientError m), w1) \<Rightarrow> (Inr False, w1)
      | (Inl (OtherError m), w1) \<Rightarrow> (Inl (OtherError m), w1))"

section \<open>commands\<close>

text \<open>Python's truth value of an \<open>Optional[str]\<close>: \<open>None\<close> and \<open>''\<close> are false.\<close>

definition truthy :: "string option \<Rightarrow> bool" where
  "truthy s \<longleftrightarrow> s \<noteq> None \<and> s \<noteq> Some []"

text \<open>
  \<open>prompts/interactive.py\<close>, \<open>select_instance\<close>: nothing to offer is \<open>None\<close>; otherwise the
  user picks one of the offered instances or cancels.
\<close>

definition select_instance :: "env \<Rightarrow> instance_summary list \<Rightarrow> string option" where
  "select_instance E instances =
     (if instances = [] then None
      else (case ask E (map s_instance_id instances) of
              None \<Rightarrow> None
            | Some n \<Rightarrow> if n < length instances then Some (s_instance_id (instances ! n))
                        else None))"

text \<open>
  The opening of \<open>start\<close>, \<open>stop\<close>, \<open>status\<close>, \<open>terminate\<close> and \<open>password\<close> (lines 27 to
  46 of start.py): without an instance id the user picks from the managed instances of the
  region, which must then be given. \<open>start\<close> offers the instances in the states \<open>wanted\<close>
  and \<open>stop\<close> likewise; the other three offer all (\<open>wanted = None\<close>). \<open>Inl\<close> is
  \<open>raise typer.Exit(1)\<close>.
\<close>

definition choose_instance ::
  "env \<Rightarrow> (string list \<times> string) option \<Rightarrow> string option \<Rightarrow> string option \<Rightarrow> world
     \<Rightarrow> (int + string) \<times> world" where
  "choose_instance E wanted iid region w =
     (if truthy iid then (Inr (the iid), w)
      else if \<not> truthy region then
        (Inl 1, print_error ''Region required when selecting from list'' w)
      else
        (case list_managed_instances E (the region) w of
           (instances, w1) \<Rightarrow>
             if instances = [] then
               (Inl 1, print_error (''No managed instances found in region '' @ the region) w1)
             else
               (case wanted of
                  Some (states, none_msg) \<Rightarrow>
                    if filter (\<lambda>i. s_state i \<in> set states) instances = [] then
                      (Inl 1, print_error none_msg w1)
                    else
                      (if truthy (select_instance E
                                    (filter (\<lambda>i. s_state i \<in> set states) instances))
                       then (Inr (the (select_instance E
                                    (filter (\<lambda>i. s_state i \<in> set states) instances))), w1)
                       else (Inl 1, print_error ''No instance selected'' w1))
                | None \<Rightarrow>
                    (if truthy (select_instance E instances)
                     then (Inr (the (select_instance E instances)), w1)
                     else (Inl 1, print_error ''No instance selected'' w1)))))"

definition default_regions :: "string list" where
  "default_regions = [''us-east-1'', ''us-west-2'', ''eu-west-1'', ''ap-southeast-1'']"

text \<open>The \<open>for test_region in [...]\<close> loop: the first region that knows the instance.\<close>

fun probe_regions :: "env \<Rightarrow> string list \<Rightarrow> string \<Rightarrow> world \<Rightarrow> string option \<times> world" where
  "probe_regions E [] iid w = (None, w)"
| "probe_regions E (test_region # rest) iid w =
     (case get_instance_info E test_region iid w of
        (Some info, w1) \<Rightarrow> (Some test_region, w1)
      | (None, w1) \<Rightarrow> probe_regions E rest iid w1)"

text \<open>
  Lines 48 to 59 of start.py, the same in \<open>stop\<close>, \<open>status\<close>, \<open>terminate\<close> and
  \<open>password\<close>.
\<close>

definition resolve_region ::
  "env \<Rightarrow> string \<Rightarrow> string option \<Rightarrow> world \<Rightarrow> (int + string) \<times> world" where
  "resolve_region E iid region w =
     (if truthy region then (Inr (the region), w)
      else
        (case probe_regions E default_regions iid w of
           (Some r, w1) \<Rightarrow>
             if r \<noteq> [] then (Inr r, w1)
             else (Inl 1, print_error
                     ''Could not determine instance region. Please specify with --region'' w1)
         | (None, w1) \<Rightarrow>
             (Inl 1, print_error
                ''Could not determine instance region. Please specify with --region'' w1)))"

text \<open>The commands return the exit status of the process: 0, or 1 for \<open>typer.Exit(1)\<close>.\<close>

definition start :: "env \<Rightarrow> string option \<Rightarrow> string option \<Rightarrow> world \<Rightarrow> int \<times> world" where
  "start E iid0 region0 w =
     (case choose_instance E (Some ([''stopped'', ''stopping''], ''No stopped instances found''))
             iid0 region0 (print_header ''WinAWS - Start Instance'' w) of
        (Inl code, w1) \<Rightarrow> (code, w1)
      | (Inr iid, w1) \<Rightarrow>
          (case resolve_region E iid region0 w1 of
             (Inl code, w2) \<Rightarrow> (code, w2)
           | (Inr region, w2) \<Rightarrow>
               (case get_instance_info E region iid w2 of
                  (None, w3) \<Rightarrow>
                    (1, print_error (''Instance '' @ iid @ '' not found in region '' @ region) w3)
                | (Some info, w3) \<Rightarrow>
                    if i_state info = ''running'' then
                      (0, print_success (''Instance '' @ iid @ '' is already running'') w3)
                    else if i_state info \<notin> set [''stopped'', ''stopping''] then
                      (1, print_error (''Cannot start instance in state: '' @ i_state info) w3)
                    else
                      (case start_instance E region iid w3 of
                         (True, w4) \<Rightarrow>
                           (0, print_plain (''Check status with: winaws status '' @ iid
                                              @ '' --region '' @ region)
                                 (print_success (''Instance '' @ i_name info
                                                   @ '' will be running shortly'') w4))
                       | (False, w4) \<Rightarrow> (1, w4)))))"

definition stop :: "env \<Rightarrow> string option \<Rightarrow> string option \<Rightarrow> world \<Rightarrow> int \<times> world" where
  "stop E iid0 region0 w =
     (case choose_instance E (Some ([''running'', ''pending''], ''No running instances found''))
             iid0 region0 (print_header ''WinAWS - Stop Instance'' w) of
        (Inl code, w1) \<Rightarrow> (code, w1)
      | (Inr iid, w1) \<Rightarrow>
          (case resolve_region E iid region0 w1 of
             (Inl code, w2) \<Rightarrow> (code, w2)
           | (Inr region, w2) \<Rightarrow>
               (case get_instance_info E region iid w2 of
                  (None, w3) \<Rightarrow>
                    (1, print_error (''Instance '' @ iid @ '' not found in region '' @ region) w3)
                | (Some info, w3) \<Rightarrow>
                    if i_state info = ''stopped'' then
                      (0, print_success (''Instance '' @ iid @ '' is already stopped'') w3)
                    else if i_state info \<notin> set [''running'', ''pending''] then
                      (1, print_error (''Cannot stop instance in state: '' @ i_state info) w3)
                    else
                      (case stop_instance E region iid
                              (print_warning
                                 ''Stopping instance will shut down Windows gracefully'' w3) of
                         (True, w4) \<Rightarrow>
                           (0, print_plain (''Check status with: winaws status '' @ iid
                                              @ '' --region '' @ region)
                                 (print_success (''Instance '' @ i_name info @ '' is stopping'') w4))
                       | (False, w4) \<Rightarrow> (1, w4)))))"

text \<open>
  Lines 66 to 74 of commands/password.py: the key file named after the instance, else the
  one named after the instance's key pair, else the command fails.
\<close>

definition find_key_file :: "env \<Rightarrow> string \<Rightarrow> instance_info \<Rightarrow> world \<Rightarrow> (int + string) \<times> world" where
  "find_key_file E iid info w =
     (if path_exists (get_key_path E (''winaws-'' @ i_name info)) w
      then (Inr (get_key_path E (''winaws-'' @ i_name info)), w)
      else if path_exists (get_key_path E (i_key_name info)) w
      then (Inr (get_key_path E (i_key_name info)), w)
      else (Inl 1,
            print_error (''Expected key file: '' @ get_key_path E (i_key_name info))
              (print_error (''Private key not found for instance '' @ iid) w)))"

definition show_password :: "string \<Rightarrow> instance_info \<Rightarrow> string \<Rightarrow> world \<Rightarrow> world" where
  "show_password iid info pwd w =
     print_plain (''  mstsc /v:'' @ i_public_ip info @ '':3389'')
       (print_plain ''RDP Command:''
         (print_plain []
           (print_plain (''Password: '' @ pwd)
             (print_plain ''Username: Administrator''
               (print_plain (''Public IP: '' @ i_public_ip info)
                 (print_plain (''Instance: '' @ i_name info @ '' ('' @ iid @ '')'')
                   (print_plain []
                     (print_success ''Password retrieved successfully!'' w))))))))"

definition password :: "env \<Rightarrow> string option \<Rightarrow> string option \<Rightarrow> world \<Rightarrow> (int \<times> world) option" where
  "password E iid0 region0 w =
     (case choose_instance E None iid0 region0
             (print_header ''WinAWS - Get Instance Password'' w) of
        (Inl code, w1) \<Rightarrow> Some (code, w1)
      | (Inr iid, w1) \<Rightarrow>
          (case resolve_region E iid region0 w1 of
             (Inl code, w2) \<Rightarrow> Some (code, w2)
           | (Inr region, w2) \<Rightarrow>
               (case get_instance_info E region iid w2 of
                  (None, w3) \<Rightarrow>
                    Some (1, print_error (''Instance '' @ iid @ '' not found in region ''
                                            @ region) w3)
                | (Some info, w3) \<Rightarrow>
                    (case find_key_file E iid info w3 of
                       (Inl code, w4) \<Rightarrow> Some (code, w4)
                     | (Inr key_path, w4) \<Rightarrow>
                         (case get_instance_password E region iid key_path 300 10 w4 of
                            None \<Rightarrow> None
                          | Some (Some pwd, w5) \<Rightarrow>
                              if pwd \<noteq> [] then Some (0, show_password iid info pwd w5)
                              else Some (1, print_error ''Failed to retrieve password'' w5)
                          | Some (None, w5) \<Rightarrow>
                              Some (1, print_error ''Failed to retrieve password'' w5))))))"

text \<open>
  commands/status.py. \<open>print_summary\<close> prints a table of keys and values, here one line a
  row; Rich markup (the colour of the state, bold) is style and is left out, as in the
  other commands. \<open>info['tags']\<close> is a dict: its items are the keys in the order they first
  occur, each with its last value. The launch time is held as the text that
  \<open>strftime\<close> or \<open>str\<close> gives for it.
\<close>

definition print_summary :: "(string \<times> string) list \<Rightarrow> world \<Rightarrow> world" where
  "print_summary items w = foldl (\<lambda>w' item. print_plain (fst item @ '': '' @ snd item) w') w items"

definition dict_items :: "(string \<times> string) list \<Rightarrow> (string \<times> string) list" where
  "dict_items tgs = map (\<lambda>k. (k, tag_or tgs k [])) (rev (remdups (rev (map fst tgs))))"

text \<open>Lines 63 to 122 of status.py: what \<open>status\<close> prints for the instance it has found.\<close>

definition show_status :: "string \<Rightarrow> string \<Rightarrow> instance_info \<Rightarrow> world \<Rightarrow> world" where
  "show_status iid region info w =
     (let w1 = print_summary
                 [(''Name'', i_name info), (''Instance ID'', i_instance_id info),
                  (''Instance Type'', i_instance_type info), (''State'', i_state info),
                  (''Region'', region), (''Availability Zone'', i_availability_zone info)]
                 (print_plain [] w);
          w2 = print_summary
                 [(''Public IP'', i_public_ip info), (''Private IP'', i_private_ip info),
                  (''VPC ID'', i_vpc_id info), (''Subnet ID'', i_subnet_id info)]
                 (print_plain ''Network:'' (print_plain [] w1));
          w3 = print_summary
                 [(''Key Name'', i_key_name info),
                  (''Launch Time'', if i_launch_time info \<noteq> [] then i_launch_time info
                                    else ''N/A''),
                  (''Managed By'', i_managed_by info)]
                 (print_plain ''Configuration:'' (print_plain [] w2));
          tag_summary = filter (\<lambda>item. fst item \<notin> set [''Name'', ''ManagedBy''])
                          (dict_items (i_tags info));
          w4 = (if i_tags info \<noteq> [] then
                  (if tag_summary \<noteq> []
                   then print_summary tag_summary (print_plain ''Tags:'' (print_plain [] w3))
                   else print_plain ''Tags:'' (print_plain [] w3))
                else w3);
          w5 = (if i_state info = ''running'' \<and> i_public_ip info \<noteq> ''N/A'' then
                  print_plain (''Get password with: winaws password '' @ iid @ '' --region ''
                                 @ region)
                    (print_plain []
                      (print_plain (''  mstsc /v:'' @ i_public_ip info @ '':3389'')
                        (print_plain ''RDP Connection:'' (print_plain [] w4))))
                else w4)
      in print_plain [] w5)"

definition status :: "env \<Rightarrow> string option \<Rightarrow> string option \<Rightarrow> world \<Rightarrow> int \<times> world" where
  "status E iid0 region0 w =
     (case choose_instance E None iid0 region0 (print_header ''WinAWS - Instance Status'' w) of
        (Inl code, w1) \<Rightarrow> (code, w1)
      | (Inr iid, w1) \<Rightarrow>
          (case resolve_region E iid region0 w1 of
             (Inl code, w2) \<Rightarrow> (code, w2)
           | (Inr region, w2) \<Rightarrow>
               (case get_instance_info E region iid w2 of
                  (None, w3) \<Rightarrow>
                    (1, print_error (''Instance '' @ iid @ '' not found in region '' @ region) w3)
                | (Some info, w3) \<Rightarrow> (0, show_status iid region info w3))))"

text \<open>
  commands/terminate.py. \<open>confirm_action\<close> of prompts/interactive.py takes a cancelled
  prompt for a no.
\<close>

definition confirm_action :: "env \<Rightarrow> string \<Rightarrow> bool" where
  "confirm_action E message = (case confirm E message of None \<Rightarrow> False | Some answer \<Rightarrow> answer)"

text \<open>Lines 72 to 77 of terminate.py: what is about to be deleted.\<close>

definition warn_termination :: "string \<Rightarrow> instance_info \<Rightarrow> world \<Rightarrow> world" where
  "warn_termination iid info w =
     print_plain []
       (print_plain ''  - All associated VPC resources''
         (print_plain (''  - Key pair: winaws-'' @ i_name info)
           (print_plain (''  - Stack: winaws-'' @ i_name info)
             (print_plain (''  - Instance: '' @ i_name info @ '' ('' @ iid @ '')'')
               (print_warning ''This will permanently delete:'' w)))))"

text \<open>Lines 93 to 97 of terminate.py; the result of \<open>delete_key_pair\<close> is not used.\<close>

definition remove_key_pair :: "env \<Rightarrow> string \<Rightarrow> instance_info \<Rightarrow> world \<Rightarrow> world" where
  "remove_key_pair E region info w =
     print_success (''Instance '' @ i_name info @ '' terminated successfully!'')
       (snd (delete_key_pair E region (''winaws-'' @ i_name info)
               (print_header ''Deleting Key Pair'' w)))"

text \<open>
  Lines 83 to 97 of terminate.py. An exception that \<open>stack_exists\<close> lets through is not
  caught by the command either: the process ends with status 1.
\<close>

definition remove_resources :: "env \<Rightarrow> string \<Rightarrow> instance_info \<Rightarrow> world \<Rightarrow> (int \<times> world) option" where
  "remove_resources E region info w =
     (case stack_exists E region (''winaws-'' @ i_name info)
             (print_header ''Deleting CloudFormation Stack'' w) of
        (Inl e, w1) \<Rightarrow> Some (1, w1)
      | (Inr True, w1) \<Rightarrow>
          (case delete_stack E region (''winaws-'' @ i_name info) True w1 of
             None \<Rightarrow> None
           | Some (True, w2) \<Rightarrow> Some (0, remove_key_pair E region info w2)
           | Some (False, w2) \<Rightarrow>
               Some (1, print_warning
                          ''You may need to manually cleanup resources in the AWS console''
                          (print_error ''Failed to delete CloudFormation stack'' w2)))
      | (Inr False, w1) \<Rightarrow>
          Some (0, remove_key_pair E region info
                     (print_warning (''Stack winaws-'' @ i_name info
                                       @ '' not found, may have been deleted already'') w1)))"

definition terminate ::
  "env \<Rightarrow> string option \<Rightarrow> string option \<Rightarrow> bool \<Rightarrow> world \<Rightarrow> (int \<times> world) option" where
  "terminate E iid0 region0 yes w =
     (case choose_instance E None iid0 region0 (print_header ''WinAWS - Terminate Instance'' w) of
        (Inl code, w1) \<Rightarrow> Some (code, w1)
      | (Inr iid, w1) \<Rightarrow>
          (case resolve_region E iid region0 w1 of
             (Inl code, w2) \<Rightarrow> Some (code, w2)
           | (Inr region, w2) \<Rightarrow>
               (case get_instance_info E region iid w2 of
                  (None, w3) \<Rightarrow>
                    Some (1, print_error (''Instance '' @ iid @ '' not found in region ''
                                            @ region) w3)
                | (Some info, w3) \<Rightarrow>
                    if yes then remove_resources E region info w3
                    else if confirm_action E ''Are you sure you want to terminate this instance?''
                    then remove_resources E region info (warn_termination iid info w3)
                    else Some (1, print_error ''Termination cancelled''
                                    (warn_termination iid info w3)))))"

section \<open>Vocabulary of the properties\<close>

text \<open>
  The decryption the specification describes, for a private key already loaded:
  base64-decode the ciphertext, RSA-decrypt it under PKCS#1 v1.5 with the key, read the
  bytes as UTF-8; a failure of any step is \<open>None\<close>.
\<close>

definition spec_decrypt :: "env \<Rightarrow> string \<Rightarrow> string \<Rightarrow> string option" where
  "spec_decrypt E private_key ciphertext =
     (case b64decode E ciphertext of
        Inl e \<Rightarrow> None
      | Inr bytes \<Rightarrow>
          (case rsa_decrypt_pkcs1v15 E private_key bytes of
             Inl e \<Rightarrow> None
           | Inr plain \<Rightarrow> (case utf8_decode E plain of Inl e \<Rightarrow> None | Inr s \<Rightarrow> Some s)))"

text \<open>The key file at the path can be read and the ciphertext decrypts to the string.\<close>

definition decrypts_to :: "env \<Rightarrow> (string \<rightharpoonup> key_file) \<Rightarrow> string \<Rightarrow> string \<Rightarrow> string \<Rightarrow> bool" where
  "decrypts_to E fs private_key_path c s \<longleftrightarrow>
     fault E (ReadBytes private_key_path) = None \<and>
     (case fs private_key_path of None \<Rightarrow> False
      | Some f \<Rightarrow> decrypt_steps E c (content f) = Inr s)"

text \<open>The world in which the loop of \<open>get_instance_password\<close> starts.\<close>

definition announced :: "world \<Rightarrow> world" where
  "announced w = print_warning ''This usually takes 4-5 minutes after instance launch''
                   (print_info ''Waiting for password data to become available...'' w)"

definition timeout_lines :: "int \<Rightarrow> message list" where
  "timeout_lines max_wait =
     [(Error, ''Timeout waiting for password data after '' @ str_int max_wait @ '' seconds''),
      (Info, ''You can try running 'winaws password <instance-id>' again later'')]"

text \<open>
  The four ways a run of the password loop from \<open>w\<close> can end in \<open>w'\<close>, each with what the
  provider answered and what the console shows: the last answer was material that
  decrypted to a non-empty password; every answer was empty until the deadline; the last
  answer was material that did not decrypt to a non-empty password; a query (or the sleep
  after it) raised.
\<close>

definition decrypted :: "env \<Rightarrow> string \<Rightarrow> world \<Rightarrow> string \<Rightarrow> world \<Rightarrow> bool" where
  "decrypted E private_key_path w s w' \<longleftrightarrow>
     s \<noteq> [] \<and> pw_polls w < pw_polls w' \<and>
     (\<exists>c. c \<noteq> [] \<and> password_data E (pw_polls w' - 1) = Inr c \<and>
          decrypts_to E (files w) private_key_path c s) \<and>
     console w' = console w @ [(Info, ''Password data retrieved, decrypting...'')]"

definition timed_out :: "env \<Rightarrow> int \<Rightarrow> real \<Rightarrow> world \<Rightarrow> world \<Rightarrow> bool" where
  "timed_out E max_wait start_time w w' \<longleftrightarrow>
     console w' = console w @ timeout_lines max_wait \<and>
     (\<forall>k. pw_polls w \<le> k \<and> k < pw_polls w' \<longrightarrow> password_data E k = Inr []) \<and>
     of_int max_wait \<le> clock w' - start_time"

definition decrypt_failed :: "env \<Rightarrow> string \<Rightarrow> world \<Rightarrow> world \<Rightarrow> bool" where
  "decrypt_failed E private_key_path w w' \<longleftrightarrow>
     pw_polls w < pw_polls w' \<and>
     (\<exists>c. c \<noteq> [] \<and> password_data E (pw_polls w' - 1) = Inr c \<and>
          (\<forall>s. decrypts_to E (files w) private_key_path c s \<longrightarrow> s = [])) \<and>
     (\<exists>ms. console w' = console w @ (Info, ''Password data retrieved, decrypting...'') # ms
             @ [(Error, ''Failed to decrypt password'')])"

definition query_failed :: "env \<Rightarrow> int \<Rightarrow> world \<Rightarrow> world \<Rightarrow> bool" where
  "query_failed E poll_interval w w' \<longleftrightarrow>
     pw_polls w < pw_polls w' \<and>
     (\<exists>e. console w' = console w @ [(Error, ''Error retrieving password: '' @ e)]) \<and>
     ((\<exists>e. password_data E (pw_polls w' - 1) = Inl e) \<or> poll_interval < 0)"

definition loop_post ::
  "env \<Rightarrow> string \<Rightarrow> int \<Rightarrow> int \<Rightarrow> real \<Rightarrow> world \<Rightarrow> string option \<times> world \<Rightarrow> bool" where
  "loop_post E p max_wait poll start_time w y \<longleftrightarrow>
     files (snd y) = files w \<and>
     (case fst y of
        Some s \<Rightarrow> decrypted E p w s (snd y)
      | None \<Rightarrow> timed_out E max_wait start_time w (snd y) \<or> decrypt_failed E p w (snd y)
                \<or> query_failed E poll w (snd y))"

text \<open>The region answers \<open>get_instance_info\<close> for the instance.\<close>

definition knows :: "env \<Rightarrow> world \<Rightarrow> string \<Rightarrow> string \<Rightarrow> bool" where
  "knows E w iid region \<longleftrightarrow> fst (get_instance_info E region iid w) \<noteq> None"

text \<open>The regions a probe in list order asks: all up to and including the first that knows.\<close>

definition probed :: "(string \<Rightarrow> bool) \<Rightarrow> string list \<Rightarrow> string list" where
  "probed P rs = takeWhile (\<lambda>r. \<not> P r) rs @ take 1 (dropWhile (\<lambda>r. \<not> P r) rs)"

text \<open>
  The region a command works in, for an instance id and the \<open>--region\<close> option: the
  region given, or else the first default region that knows the instance; and the regions
  asked to find it.
\<close>

definition resolved :: "env \<Rightarrow> world \<Rightarrow> string \<Rightarrow> string option \<Rightarrow> string option" where
  "resolved E w iid region0 =
     (if truthy region0 then region0 else find (knows E w iid) default_regions)"

definition asked :: "env \<Rightarrow> world \<Rightarrow> string \<Rightarrow> string option \<Rightarrow> string list" where
  "asked E w iid region0 =
     (if truthy region0 then [] else probed (knows E w iid) default_regions)"

text \<open>
  Between \<open>w\<close> and \<open>w'\<close> a \<open>describe_stacks\<close> call was made, and the last one raised a
  ClientError whose text says the stack does not exist.
\<close>

definition not_found_seen :: "env \<Rightarrow> world \<Rightarrow> world \<Rightarrow> bool" where
  "not_found_seen E w w' \<longleftrightarrow>
     stack_polls w < stack_polls w' \<and>
     (\<exists>m. stack_status E (stack_polls w' - 1) = Inl (ClientError m) \<and>
          contains ''does not exist'' m)"

text \<open>The console line \<open>print_stack_events\<close> prints for an event.\<close>

definition event_line :: "stack_event \<Rightarrow> message" where
  "event_line event =
     (if contains ''FAILED'' (ResourceStatus event) then
        (Error, ResourceStatus event @ '': '' @ LogicalResourceId event @ '' - ''
                  @ (case ResourceStatusReason event of None \<Rightarrow> [] | Some r \<Rightarrow> r))
      else if contains ''COMPLETE'' (ResourceStatus event) then
        (Success, ResourceStatus event @ '': '' @ LogicalResourceId event)
      else (Info, ResourceStatus event @ '': '' @ LogicalResourceId event))"

text \<open>
  What a command has logged does not matter to what it does next. \<open>relog T C w\<close> is the
  world \<open>w\<close> with the calls \<open>T\<close> and the console lines \<open>C\<close> in front of its own;
  \<open>unlog w\<close> is the world without its logs: the clock, the files, the provider's
  registrations and instances, the polls made.
\<close>

definition relog :: "request list \<Rightarrow> message list \<Rightarrow> world \<Rightarrow> world" where
  "relog T C w = w\<lparr>console := C @ console w, trace := T @ trace w\<rparr>"

definition unlog :: "world \<Rightarrow> world" where
  "unlog w = w\<lparr>console := [], trace := []\<rparr>"

text \<open>
  One round of the loop of \<open>get_instance_password\<close> and one of the loop of
  \<open>wait_for_stack_deletion\<close>: \<open>Inl\<close> what the loop returns in this round, or \<open>Inr\<close> the
  world in which the next round starts.
\<close>

definition password_round ::
  "env \<Rightarrow> string \<Rightarrow> string \<Rightarrow> string \<Rightarrow> int \<Rightarrow> int \<Rightarrow> real \<Rightarrow> world
     \<Rightarrow> (string option \<times> world) + world" where
  "password_round E region instance_id private_key_path max_wait poll_interval start_time w =
     (if clock w - start_time < of_int max_wait then
        (case ec2_get_password_data E region instance_id w of
           (Inl e, w1) \<Rightarrow>
             Inl (None, print_error (''Error retrieving password: '' @ str_exn e) w1)
         | (Inr pwd_data, w1) \<Rightarrow>
             if pwd_data \<noteq> [] then
               (case decrypt_password E pwd_data private_key_path
                       (print_info ''Password data retrieved, decrypting...'' w1) of
                  (Some pwd, w2) \<Rightarrow>
                    if pwd \<noteq> [] then Inl (Some pwd, w2)
                    else Inl (None, print_error ''Failed to decrypt password'' w2)
                | (None, w2) \<Rightarrow> Inl (None, print_error ''Failed to decrypt password'' w2))
             else
               (case sleep E (pw_polls w) poll_interval w1 of
                  Inl e \<Rightarrow>
                    Inl (None, print_error (''Error retrieving password: '' @ str_exn e) w1)
                | Inr w2 \<Rightarrow> Inr w2))
      else
        Inl (None,
          print_info ''You can try running 'winaws password <instance-id>' again later''
            (print_error (''Timeout waiting for password data after '' @ str_int max_wait
                            @ '' seconds'') w)))"

definition deletion_round ::
  "env \<Rightarrow> string \<Rightarrow> string \<Rightarrow> int \<Rightarrow> real \<Rightarrow> world \<Rightarrow> ((exn + bool) \<times> world) + world" where
  "deletion_round E region stack_name timeout start_time w =
     (if clock w - start_time < of_int timeout then
        (case cfn_describe_stacks E region stack_name w of
           (Inl (ClientError m), w1) \<Rightarrow>
             if contains ''does not exist'' m
             then Inl (Inr True, print_success ''Stack deleted successfully!'' w1)
             else Inl (Inr False, print_error (''Error checking stack status: '' @ m) w1)
         | (Inl (OtherError m), w1) \<Rightarrow> Inl (Inl (OtherError m), w1)
         | (Inr [], w1) \<Rightarrow> Inl (Inl (OtherError ''list index out of range''), w1)
         | (Inr (st # stacks), w1) \<Rightarrow>
             if st = ''DELETE_FAILED'' then
               Inl (Inr False,
                    print_stack_events E region stack_name 10
                      (print_error ''Stack deletion failed'' w1))
             else
               (case sleep E (stack_polls w) 10 w1 of
                  Inl e \<Rightarrow> Inl (Inl e, w1)
                | Inr w2 \<Rightarrow> Inr w2))
      else
        Inl (Inr False,
             print_error (''Timeout waiting for stack deletion after '' @ str_int timeout
                            @ '' seconds'') w))"

text \<open>
  What \<open>password\<close> and \<open>terminate\<close> do for the instance they have found, from the world
  in which they have found it: lines 63 to 97 of commands/password.py and lines 66 to 97
  of commands/terminate.py.
\<close>

definition password_for ::
  "env \<Rightarrow> string \<Rightarrow> string \<Rightarrow> instance_info \<Rightarrow> world \<Rightarrow> (int \<times> world) option" where
  "password_for E iid region info w =
     (case find_key_file E iid info w of
        (Inl code, w4) \<Rightarrow> Some (code, w4)
      | (Inr key_path, w4) \<Rightarrow>
          (case get_instance_password E region iid key_path 300 10 w4 of
             None \<Rightarrow> None
           | Some (Some pwd, w5) \<Rightarrow>
               if pwd \<noteq> [] then Some (0, show_password iid info pwd w5)
               else Some (1, print_error ''Failed to retrieve password'' w5)
           | Some (None, w5) \<Rightarrow> Some (1, print_error ''Failed to retrieve password'' w5)))"

definition terminate_for ::
  "env \<Rightarrow> string \<Rightarrow> string \<Rightarrow> instance_info \<Rightarrow> bool \<Rightarrow> world \<Rightarrow> (int \<times> world) option" where
  "terminate_for E iid region info yes w =
     (if yes then remove_resources E region info w
      else if confirm_action E ''Are you sure you want to terminate this instance?''
      then remove_resources E region info (warn_termination iid info w)
      else Some (1, print_error ''Termination cancelled'' (warn_termination iid info w)))"

section \<open>A small account to run the code on\<close>

text \<open>
  One region, \<open>us-west-2\<close>, with a running, a stopped and a shutting-down managed instance
  and a running instance of somebody else; the key pair \<open>winaws-demo\<close> registered and its
  private key on disk. The cryptography is a toy: a ciphertext is the key's name followed
  by the plaintext.
\<close>

definition demo_key_path :: string where
  "demo_key_path = ''/home/op/.winaws/keys/winaws-demo.pem''"

definition i_running :: ec2_instance where
  "i_running = \<lparr>InstanceId = ''i-0a'', InstanceType = ''t3.large'', StateName = ''running'',
     PublicIpAddress = Some ''1.2.3.4'', PrivateIpAddress = Some ''10.0.0.4'',
     LaunchTime = ''2024-01-01'', AvailabilityZone = ''us-west-2a'', VpcId = Some ''vpc-1'',
     SubnetId = Some ''subnet-1'', KeyName = Some ''winaws-demo'',
     Tags = [(''Name'', ''demo''), (''ManagedBy'', ''winaws'')]\<rparr>"

definition i_stopped :: ec2_instance where
  "i_stopped = i_running\<lparr>InstanceId := ''i-0b'', StateName := ''stopped'',
     PublicIpAddress := None, Tags := [(''Name'', ''idle''), (''ManagedBy'', ''winaws'')]\<rparr>"

definition i_dying :: ec2_instance where
  "i_dying = i_running\<lparr>InstanceId := ''i-0c'', StateName := ''shutting-down'',
     Tags := [(''ManagedBy'', ''winaws''), (''Name'', ''old'')]\<rparr>"

definition i_foreign :: ec2_instance where
  "i_foreign = i_running\<lparr>InstanceId := ''i-0d'', Tags := [(''Name'', ''db'')]\<rparr>"

definition demo_env :: env where
  "demo_env = \<lparr>home = ''/home/op'',
     password_data = (\<lambda>k. if k < 2 then Inr [] else Inr ''k1:s3cret''),
     stack_status = (\<lambda>k. if k < 1 then Inr [''DELETE_IN_PROGRESS'']
                          else Inl (ClientError ''Stack with id winaws-demo does not exist'')),
     stack_events = Inr [],
     call_duration = (\<lambda>k. 1 / 2),
     oversleep = (\<lambda>k. 0),
     fault = (\<lambda>r. None),
     key_material = ''PEM:k2:'',
     load_pem_private_key = (\<lambda>pem. if take 4 pem = ''PEM:'' then Inr (drop 4 pem)
                                    else Inl (OtherError ''Could not deserialize key data'')),
     b64decode = (\<lambda>s. if CHR ''!'' \<in> set s then Inl (OtherError ''Incorrect padding'') else Inr s),
     rsa_decrypt_pkcs1v15 = (\<lambda>k c. if take (length k) c = k then Inr (drop (length k) c)
                                    else Inl (OtherError ''Decryption failed'')),
     utf8_decode = (\<lambda>b. if CHR 0xFF \<in> set b then Inl (OtherError ''invalid start byte'') else Inr b),
     ask = (\<lambda>ids. None),
     confirm = (\<lambda>message. Some True)\<rparr>"

definition never_ready_env :: env where
  "never_ready_env = demo_env\<lparr>password_data := (\<lambda>k. Inr [])\<rparr>"

definition wrong_key_env :: env where
  "wrong_key_env = demo_env\<lparr>password_data := (\<lambda>k. Inr ''k9:s3cret'')\<rparr>"

text \<open>
  An RSA library that does not raise on a PKCS#1 v1.5 padding error but answers with bytes
  of its own (implicit rejection): under a key that is not the ciphertext's it returns
  \<open>nY?e\<close>.
\<close>

definition implicit_rejection_env :: env where
  "implicit_rejection_env = wrong_key_env\<lparr>
     rsa_decrypt_pkcs1v15 := (\<lambda>k c. if take (length k) c = k then Inr (drop (length k) c)
                                     else Inr ''nY?e'')\<rparr>"

definition outage_env :: env where
  "outage_env = demo_env\<lparr>password_data := (\<lambda>k. Inl (ClientError ''RequestLimitExceeded''))\<rparr>"

definition failed_delete_env :: env where
  "failed_delete_env = demo_env\<lparr>
     stack_status := (\<lambda>k. if k < 1 then Inr [''DELETE_IN_PROGRESS''] else Inr [''DELETE_FAILED'']),
     stack_events := Inr (replicate 12 \<lparr>ResourceStatus = ''DELETE_FAILED'',
                           LogicalResourceId = ''VPC'',
                           ResourceStatusReason = Some ''has dependencies''\<rparr>)\<rparr>"

definition demo_world :: world where
  "demo_world = \<lparr>clock = 1000, console = [], trace = [],
     files = [demo_key_path \<mapsto> \<lparr>content = ''PEM:k1:'', mode = 384\<rparr>],
     key_pairs = {(''us-west-2'', ''winaws-demo'')},
     reservations = (\<lambda>r. if r = ''us-west-2''
                          then [[i_running, i_foreign], [i_stopped], [i_dying]] else []),
     pw_polls = 0, stack_polls = 0\<rparr>"

definition stale_world :: world where
  "stale_world = demo_world\<lparr>key_pairs := {}\<rparr>"

definition keyless_world :: world where
  "keyless_world = demo_world\<lparr>files := Map.empty\<rparr>"

section \<open>Properties\<close>

lemmas print_defs = print_success_def print_error_def print_warning_def print_info_def
  print_header_def print_plain_def emit_def

lemmas demo_defs = demo_env_def never_ready_env_def wrong_key_env_def outage_env_def
  implicit_rejection_env_def demo_world_def demo_key_path_def stale_world_def keyless_world_def

lemmas instance_defs = i_running_def i_stopped_def i_dying_def i_foreign_def

lemmas describe_defs = get_instance_info_def ec2_describe_instances_def Let_def selected_def
  record_call_def

lemmas run_defs = get_instance_password_def ec2_get_password_data_def sleep_def record_call_def
  decrypt_password_def read_bytes_def decrypt_steps_def print_defs

lemma ec2_get_password_data_effect:
  assumes "ec2_get_password_data E region i w = (x, w1)"
  shows "x = password_data E (pw_polls w)"
    "clock w1 = clock w + call_duration E (pw_polls w)"
    "console w1 = console w"
    "trace w1 = trace w @ [GetPasswordData region i]"
    "files w1 = files w"
    "pw_polls w1 = Suc (pw_polls w)"
  using assms by (auto simp: ec2_get_password_data_def record_call_def)

lemma sleep_effect:
  assumes "sleep E k d w = Inr w2"
  shows "0 \<le> d" "clock w2 = clock w + of_int d + oversleep E k" "console w2 = console w"
    "trace w2 = trace w @ [Sleep d]" "files w2 = files w" "pw_polls w2 = pw_polls w"
  using assms by (auto simp: sleep_def record_call_def split: if_splits)

lemma decrypt_password_effect:
  assumes "decrypt_password E c p w = (x, w2)"
  shows "clock w2 = clock w"
    "trace w2 = trace w @ [ReadBytes p]"
    "files w2 = files w"
    "pw_polls w2 = pw_polls w"
    "\<forall>s. x = Some s \<longleftrightarrow> decrypts_to E (files w) p c s"
    "x \<noteq> None \<Longrightarrow> console w2 = console w"
    "x = None \<Longrightarrow> \<exists>e. console w2 = console w @ [(Error, ''Failed to decrypt password: '' @ e)]"
  using assms
  by (auto simp: decrypt_password_def read_bytes_def record_call_def print_defs decrypts_to_def
           split: prod.splits sum.splits option.splits)

lemma outcome_shift:
  assumes "files w2 = files w" "console w2 = console w" "pw_polls w2 = Suc (pw_polls w)"
    and here: "password_data E (pw_polls w) = Inr []"
  shows "decrypted E p w2 s w' \<Longrightarrow> decrypted E p w s w'"
    and "timed_out E max_wait t0 w2 w' \<Longrightarrow> timed_out E max_wait t0 w w'"
    and "decrypt_failed E p w2 w' \<Longrightarrow> decrypt_failed E p w w'"
    and "query_failed E poll w2 w' \<Longrightarrow> query_failed E poll w w'"
proof -
  show "decrypted E p w2 s w' \<Longrightarrow> decrypted E p w s w'"
    unfolding decrypted_def assms(1-3) by (simp add: Suc_lessD)
  show "decrypt_failed E p w2 w' \<Longrightarrow> decrypt_failed E p w w'"
    unfolding decrypt_failed_def assms(1-3) by (simp add: Suc_lessD)
  show "query_failed E poll w2 w' \<Longrightarrow> query_failed E poll w w'"
    unfolding query_failed_def assms(1-3) by (simp add: Suc_lessD)
  show "timed_out E max_wait t0 w2 w' \<Longrightarrow> timed_out E max_wait t0 w w'"
    unfolding timed_out_def assms(1-3) using here
    by (metis Suc_leI le_neq_implies_less)
qed

lemma password_loop_sound:
  assumes "password_loop E region i p max_wait poll t0 w = Some y"
  shows "loop_post E p max_wait poll t0 w y"
proof (rule password_loop.raw_induct
    [where P = "\<lambda>E region i p max_wait poll t0 w y. loop_post E p max_wait poll t0 w y",
     OF _ assms], goal_cases)
  case (1 loop E region i p max_wait poll t0 w y)
  note IH = 1(1) and step = 1(2)
  show ?case
  proof (cases "clock w - t0 < of_int max_wait")
    case False
    with step show ?thesis by (auto simp: loop_post_def timed_out_def print_defs timeout_lines_def)
  next
    case guard: True
    obtain w1 where g: "ec2_get_password_data E region i w = (password_data E (pw_polls w), w1)"
      by (simp add: ec2_get_password_data_def)
    note ge = ec2_get_password_data_effect(2-6) [OF g]
    show ?thesis
    proof (cases "password_data E (pw_polls w)")
      case (Inl e)
      with step guard g ge show ?thesis by (auto simp: loop_post_def query_failed_def print_defs)
    next
      case (Inr c)
      show ?thesis
      proof (cases "c = []")
        case False
        obtain r w2 where d: "decrypt_password E c p
            (print_info ''Password data retrieved, decrypting...'' w1) = (r, w2)" by force
        note de = decrypt_password_effect [OF d]
        have fw: "files (print_info ''Password data retrieved, decrypting...'' w1) = files w"
          and pw: "pw_polls (print_info ''Password data retrieved, decrypting...'' w1) = Suc (pw_polls w)"
          and cw: "console (print_info ''Password data retrieved, decrypting...'' w1) =
                     console w @ [(Info, ''Password data retrieved, decrypting...'')]"
          using ge by (simp_all add: print_defs)
        have de5: "(r = Some s) = decrypts_to E (files w) p c s" for s
          using de(5) fw by simp
        have f2: "files w2 = files w" and p2: "pw_polls w2 = Suc (pw_polls w)"
          using de(3,4) fw pw by simp_all
        show ?thesis
        proof (cases r)
          case None
          from de(7) [OF None] obtain e where
            c2: "console w2 = console w @ [(Info, ''Password data retrieved, decrypting...''),
                   (Error, ''Failed to decrypt password: '' @ e)]"
            using cw by auto
          from step guard g Inr False d None
          have y: "y = (None, print_error ''Failed to decrypt password'' w2)" by simp
          have nd: "\<forall>s. decrypts_to E (files w) p c s \<longrightarrow> s = []"
            using de5 None by simp
          have "console (snd y) = console w @ (Info, ''Password data retrieved, decrypting...'')
                  # [(Error, ''Failed to decrypt password: '' @ e)]
                  @ [(Error, ''Failed to decrypt password'')]"
            using y c2 by (simp add: print_defs)
          then have ex: "\<exists>ms. console (snd y) = console w @ (Info, ''Password data retrieved, decrypting...'')
                  # ms @ [(Error, ''Failed to decrypt password'')]" by blast
          show ?thesis
            unfolding loop_post_def decrypt_failed_def
            using y f2 p2 Inr False nd ex by (simp add: print_defs)
        next
          case (Some s)
          have c2: "console w2 = console w @ [(Info, ''Password data retrieved, decrypting...'')]"
            using de(6) Some cw by simp
          have dt: "decrypts_to E (files w) p c s"
            using de5 [of s] Some by simp
          show ?thesis
          proof (cases "s = []")
            case True
            from step guard g Inr False d Some True
            have y: "y = (None, print_error ''Failed to decrypt password'' w2)" by simp
            have nd: "\<forall>s. decrypts_to E (files w) p c s \<longrightarrow> s = []"
              using de5 [symmetric] Some True by simp
            have "console (snd y) = console w @ (Info, ''Password data retrieved, decrypting...'')
                  # [] @ [(Error, ''Failed to decrypt password'')]"
              using y c2 by (simp add: print_defs)
            then have ex: "\<exists>ms. console (snd y) = console w @ (Info, ''Password data retrieved, decrypting...'')
                  # ms @ [(Error, ''Failed to decrypt password'')]" by blast
            show ?thesis
              unfolding loop_post_def decrypt_failed_def
              using y f2 p2 Inr False nd ex by (simp add: print_defs)
          next
            case nonempty: False
            from step guard g Inr False d Some nonempty
            have y: "y = (Some s, w2)" by simp
            show ?thesis
              unfolding loop_post_def decrypted_def
              using y f2 p2 Inr False nonempty dt c2 by simp
          qed
        qed
      next
        case True
        show ?thesis
        proof (cases "sleep E (pw_polls w) poll w1")
          case (Inl e)
          with step guard g ge Inr True show ?thesis
            by (auto simp: loop_post_def query_failed_def print_defs sleep_def split: if_splits)
        next
          case w2: (Inr w2)
          note se = sleep_effect [OF w2]
          from step guard g Inr True w2
          have "loop E region i p max_wait poll t0 w2 = Some y" by simp
          from IH [OF this] have post: "loop_post E p max_wait poll t0 w2 y" .
          have f2: "files w2 = files w" and p2: "pw_polls w2 = Suc (pw_polls w)"
            and c2: "console w2 = console w"
            using se ge by simp_all
          have here: "password_data E (pw_polls w) = Inr []"
            using Inr True by simp
          note sh = outcome_shift [OF f2 c2 p2 here]
          show ?thesis
            using post sh unfolding loop_post_def f2
            by (auto split: option.splits)
        qed
      qed
    qed
  qed
qed


lemma password_loop_step:
  assumes "clock w - t0 < of_int max_wait" "password_data E (pw_polls w) = Inr []" "0 \<le> poll"
  shows "password_loop E region i p max_wait poll t0 w =
         password_loop E region i p max_wait poll t0
           (w\<lparr>pw_polls := Suc (pw_polls w),
              trace := trace w @ [GetPasswordData region i, Sleep poll],
              clock := clock w + call_duration E (pw_polls w) + of_int poll + oversleep E (pw_polls w)\<rparr>)"
  using assms
  by (subst password_loop.simps) (simp add: ec2_get_password_data_def sleep_def record_call_def)

lemma measure_decreases:
  fixes x d :: real
  assumes "0 < x" "1 \<le> d"
  shows "nat \<lceil>x - d\<rceil> < nat \<lceil>x\<rceil>"
proof -
  have "\<lceil>x - d\<rceil> \<le> \<lceil>x - 1\<rceil>" using assms by (intro ceiling_mono) simp
  also have "\<dots> = \<lceil>x\<rceil> - 1" by simp
  finally have "\<lceil>x - d\<rceil> < \<lceil>x\<rceil>" by simp
  moreover have "0 < \<lceil>x\<rceil>" using assms by simp
  ultimately show ?thesis by simp
qed

lemma password_loop_times_out:
  assumes empty: "\<forall>k. password_data E k = Inr []"
    and poll: "0 \<le> poll" and eps: "0 < eps"
    and progress: "\<forall>k. eps \<le> call_duration E k + of_int poll + oversleep E k"
  shows "\<exists>w'. password_loop E region i p max_wait poll t0 w = Some (None, w') \<and>
           console w' = console w @ timeout_lines max_wait \<and>
           of_int max_wait \<le> clock w' - t0 \<and> clock w \<le> clock w' \<and>
           files w' = files w \<and> ReadBytes p \<notin> set (trace w') - set (trace w)"
proof (induction "nat \<lceil>(of_int max_wait - (clock w - t0)) / eps\<rceil>" arbitrary: w rule: less_induct)
  case less
  show ?case
  proof (cases "clock w - t0 < of_int max_wait")
    case False
    then show ?thesis
      by (subst password_loop.simps) (simp add: print_defs timeout_lines_def)
  next
    case True
    define d where "d = call_duration E (pw_polls w) + of_int poll + oversleep E (pw_polls w)"
    define w2 where "w2 = w\<lparr>pw_polls := Suc (pw_polls w),
              trace := trace w @ [GetPasswordData region i, Sleep poll],
              clock := clock w + call_duration E (pw_polls w) + of_int poll + oversleep E (pw_polls w)\<rparr>"
    have step: "password_loop E region i p max_wait poll t0 w =
                password_loop E region i p max_wait poll t0 w2"
      unfolding w2_def using True empty poll by (intro password_loop_step) simp_all
    have adv: "eps \<le> d"
      using progress [rule_format, of "pw_polls w"] by (simp add: d_def)
    then have adv1: "1 \<le> d / eps" using eps by simp
    have left: "0 < (of_int max_wait - (clock w - t0)) / eps" using True eps by simp
    have n: "of_int max_wait - (clock w2 - t0) = (of_int max_wait - (clock w - t0)) - d"
      by (simp add: w2_def d_def)
    have m: "(of_int max_wait - (clock w2 - t0)) / eps
               = (of_int max_wait - (clock w - t0)) / eps - d / eps"
      unfolding n by (rule diff_divide_distrib)
    have "nat \<lceil>(of_int max_wait - (clock w2 - t0)) / eps\<rceil>
            < nat \<lceil>(of_int max_wait - (clock w - t0)) / eps\<rceil>"
      unfolding m by (rule measure_decreases [OF left adv1])
    from less [OF this] obtain w' where
      "password_loop E region i p max_wait poll t0 w2 = Some (None, w')"
      "console w' = console w2 @ timeout_lines max_wait"
      "of_int max_wait \<le> clock w' - t0" "clock w2 \<le> clock w'"
      "files w' = files w2" "ReadBytes p \<notin> set (trace w') - set (trace w2)"
      by blast
    moreover have "clock w \<le> clock w2" using adv eps by (simp add: w2_def d_def)
    moreover have "console w2 = console w" "files w2 = files w"
      "set (trace w2) = set (trace w) \<union> {GetPasswordData region i, Sleep poll}"
      by (auto simp: w2_def)
    ultimately show ?thesis using step by auto
  qed
qed

lemma demo_run:
  "map_option fst (get_instance_password demo_env ''us-west-2'' ''i-0a'' demo_key_path 300 10 demo_world) = Some (Some ''s3cret'')"
  by (simp add: password_loop.simps run_defs demo_defs)


lemma decrypt_password_result:
  "fst (decrypt_password E c p w) =
     (case fault E (ReadBytes p) of
        Some e \<Rightarrow> None
      | None \<Rightarrow> (case files w p of None \<Rightarrow> None
          | Some f \<Rightarrow> (case decrypt_steps E c (content f) of Inl e \<Rightarrow> None | Inr s \<Rightarrow> Some s)))"
  by (simp add: decrypt_password_def read_bytes_def split: option.splits sum.splits)

lemma decrypt_password_same_files:
  "files w1 = files w \<Longrightarrow> fst (decrypt_password E c p w1) = fst (decrypt_password E c p w)"
  by (auto simp: decrypt_password_result split: option.splits)

lemma decrypt_steps_spec:
  assumes "load_pem_private_key E pem = Inr key"
  shows "(case decrypt_steps E c pem of Inl e \<Rightarrow> None | Inr s \<Rightarrow> Some s) = spec_decrypt E key c"
  using assms by (simp add: decrypt_steps_def spec_decrypt_def split: sum.splits)

lemma password_loop_decrypt_failure:
  assumes guard: "clock w - t0 < of_int max_wait"
    and material: "password_data E (pw_polls w) = Inr c" "c \<noteq> []"
    and fails: "fst (decrypt_password E c p w) = None"
  shows "\<exists>w'. password_loop E region i p max_wait poll t0 w = Some (None, w') \<and>
           trace w' = trace w @ [GetPasswordData region i, ReadBytes p] \<and>
           pw_polls w' = Suc (pw_polls w) \<and>
           last (console w') = (Error, ''Failed to decrypt password'')"
proof -
  obtain w1 where g: "ec2_get_password_data E region i w = (Inr c, w1)"
    using material by (simp add: ec2_get_password_data_def)
  note ge = ec2_get_password_data_effect(2-6) [OF g]
  let ?w1 = "print_info ''Password data retrieved, decrypting...'' w1"
  obtain r w2 where d: "decrypt_password E c p ?w1 = (r, w2)" by force
  note de = decrypt_password_effect [OF d]
  have "files ?w1 = files w" using ge by (simp add: print_defs)
  then have "fst (decrypt_password E c p ?w1) = fst (decrypt_password E c p w)"
    by (rule decrypt_password_same_files)
  with fails d have r: "r = None" by simp
  have "password_loop E region i p max_wait poll t0 w =
          Some (None, print_error ''Failed to decrypt password'' w2)"
    using guard g material d r by (subst password_loop.simps) simp
  moreover have "trace w2 = trace w @ [GetPasswordData region i, ReadBytes p]"
    using de(2) ge by (simp add: print_defs)
  moreover have "pw_polls w2 = Suc (pw_polls w)"
    using de(4) ge by (simp add: print_defs)
  ultimately show ?thesis by (simp add: print_defs)
qed

subsection \<open>Decryption\<close>

lemma spec_decrypt_fails_iff:
  "spec_decrypt E key c = None \<longleftrightarrow>
     (\<exists>e. b64decode E c = Inl e) \<or>
     (\<exists>bytes. b64decode E c = Inr bytes \<and>
        ((\<exists>e. rsa_decrypt_pkcs1v15 E key bytes = Inl e) \<or>
         (\<exists>plain e. rsa_decrypt_pkcs1v15 E key bytes = Inr plain \<and> utf8_decode E plain = Inl e)))"
  by (auto simp: spec_decrypt_def split: sum.splits)

lemma password_loop_decrypt_success:
  assumes guard: "clock w - t0 < of_int max_wait"
    and material: "password_data E (pw_polls w) = Inr c" "c \<noteq> []"
    and works: "fst (decrypt_password E c p w) = Some s" "s \<noteq> []"
  shows "\<exists>w'. password_loop E region i p max_wait poll t0 w = Some (Some s, w') \<and>
           trace w' = trace w @ [GetPasswordData region i, ReadBytes p] \<and>
           pw_polls w' = Suc (pw_polls w)"
proof -
  obtain w1 where g: "ec2_get_password_data E region i w = (Inr c, w1)"
    using material by (simp add: ec2_get_password_data_def)
  note ge = ec2_get_password_data_effect(2-6) [OF g]
  let ?w1 = "print_info ''Password data retrieved, decrypting...'' w1"
  obtain r w2 where d: "decrypt_password E c p ?w1 = (r, w2)" by force
  note de = decrypt_password_effect [OF d]
  have "files ?w1 = files w" using ge by (simp add: print_defs)
  then have "fst (decrypt_password E c p ?w1) = fst (decrypt_password E c p w)"
    by (rule decrypt_password_same_files)
  with works d have r: "r = Some s" by simp
  have "password_loop E region i p max_wait poll t0 w = Some (Some s, w2)"
    using guard g material d r works(2) by (subst password_loop.simps) simp
  moreover have "trace w2 = trace w @ [GetPasswordData region i, ReadBytes p]"
    using de(2) ge by (simp add: print_defs)
  moreover have "pw_polls w2 = Suc (pw_polls w)"
    using de(4) ge by (simp add: print_defs)
  ultimately show ?thesis by simp
qed

lemma password_loop_decrypt_empty:
  assumes guard: "clock w - t0 < of_int max_wait"
    and material: "password_data E (pw_polls w) = Inr c" "c \<noteq> []"
    and works: "fst (decrypt_password E c p w) = Some []"
  shows "\<exists>w'. password_loop E region i p max_wait poll t0 w = Some (None, w') \<and>
           trace w' = trace w @ [GetPasswordData region i, ReadBytes p] \<and>
           pw_polls w' = Suc (pw_polls w) \<and>
           last (console w') = (Error, ''Failed to decrypt password'')"
proof -
  obtain w1 where g: "ec2_get_password_data E region i w = (Inr c, w1)"
    using material by (simp add: ec2_get_password_data_def)
  note ge = ec2_get_password_data_effect(2-6) [OF g]
  let ?w1 = "print_info ''Password data retrieved, decrypting...'' w1"
  obtain r w2 where d: "decrypt_password E c p ?w1 = (r, w2)" by force
  note de = decrypt_password_effect [OF d]
  have "files ?w1 = files w" using ge by (simp add: print_defs)
  then have "fst (decrypt_password E c p ?w1) = fst (decrypt_password E c p w)"
    by (rule decrypt_password_same_files)
  with works d have r: "r = Some []" by simp
  have "password_loop E region i p max_wait poll t0 w =
          Some (None, print_error ''Failed to decrypt password'' w2)"
    using guard g material d r by (subst password_loop.simps) simp
  moreover have "trace w2 = trace w @ [GetPasswordData region i, ReadBytes p]"
    using de(2) ge by (simp add: print_defs)
  moreover have "pw_polls w2 = Suc (pw_polls w)"
    using de(4) ge by (simp add: print_defs)
  ultimately show ?thesis by (simp add: print_defs)
qed

text \<open>
  C2, as stated, fails for a wrong key: nothing in \<open>decrypt_password\<close> compares the key
  with the ciphertext, so a wrong key is a failure only if the library makes it one. The
  ciphertext \<open>k9:s3cret\<close> was made for the key \<open>k9:\<close> (which decrypts it to \<open>s3cret\<close>), the
  key file holds the key \<open>k1:\<close>, and the RSA library answers a padding error with bytes
  instead of raising: \<open>get_instance_password\<close> reports no failure and returns those bytes
  as the password.
\<close>

theorem wrong_key_is_returned_as_password:
  "files demo_world demo_key_path = Some \<lparr>content = ''PEM:k1:'', mode = 384\<rparr> \<and>
   load_pem_private_key implicit_rejection_env ''PEM:k1:'' = Inr ''k1:'' \<and>
   password_data implicit_rejection_env 0 = Inr ''k9:s3cret'' \<and>
   rsa_decrypt_pkcs1v15 implicit_rejection_env ''k9:'' ''k9:s3cret'' = Inr ''s3cret'' \<and>
   rsa_decrypt_pkcs1v15 implicit_rejection_env ''k1:'' ''k9:s3cret'' = Inr ''nY?e'' \<and>
   map_option fst (get_instance_password implicit_rejection_env ''us-west-2'' ''i-0a''
                     demo_key_path 300 10 demo_world) = Some (Some ''nY?e'')"
  by (simp add: password_loop.simps run_defs demo_defs)

text \<open>
  C2, amended. On the material \<open>c\<close> that a poll has retrieved, \<open>get_instance_password\<close>'s
  loop returns at once. With the key file readable and its PEM contents loading as a key,
  it returns what the pipeline of the specification gives for that key: base64-decode the
  ciphertext, RSA-decrypt it under PKCS#1 v1.5 with the key, read the bytes as UTF-8. It
  returns the text when every step returns and the text is not empty. It reports failure
  (\<open>None\<close>, the console ending with \<open>Failed to decrypt password\<close>) exactly when a step
  raises (the base64 decoding, the RSA decryption, the UTF-8 decoding) or the text is
  empty; so a wrong key is reported as a failure when the RSA decryption raises on it or
  its bytes are not UTF-8, and not otherwise. It reports failure as well when the key file
  cannot be read or does not load as a key. In every case the loop has made the one query
  and read the one key file it was given: it neither polls again nor decrypts under
  another key.
\<close>

theorem decrypt_pipeline_fails_closed:
  assumes guard: "clock w - t0 < of_int max_wait"
    and material: "password_data E (pw_polls w) = Inr c" "c \<noteq> []"
  shows "(\<forall>f key. fault E (ReadBytes p) = None \<and> files w p = Some f \<and>
                  load_pem_private_key E (content f) = Inr key \<longrightarrow>
            fst (decrypt_password E c p w) = spec_decrypt E key c \<and>
            (\<exists>w'. password_loop E region i p max_wait poll t0 w =
                     Some (if spec_decrypt E key c = Some [] then None
                           else spec_decrypt E key c, w') \<and>
                  trace w' = trace w @ [GetPasswordData region i, ReadBytes p] \<and>
                  pw_polls w' = Suc (pw_polls w) \<and>
                  (spec_decrypt E key c = None \<or> spec_decrypt E key c = Some [] \<longrightarrow>
                     last (console w') = (Error, ''Failed to decrypt password''))) \<and>
            (spec_decrypt E key c = None \<longleftrightarrow>
               (\<exists>e. b64decode E c = Inl e) \<or>
               (\<exists>bytes. b64decode E c = Inr bytes \<and>
                  ((\<exists>e. rsa_decrypt_pkcs1v15 E key bytes = Inl e) \<or>
                   (\<exists>plain e. rsa_decrypt_pkcs1v15 E key bytes = Inr plain \<and>
                               utf8_decode E plain = Inl e))))) \<and>
         (fault E (ReadBytes p) \<noteq> None \<or> files w p = None \<or>
            (\<exists>f e. files w p = Some f \<and> load_pem_private_key E (content f) = Inl e) \<longrightarrow>
            fst (decrypt_password E c p w) = None \<and>
            (\<exists>w'. password_loop E region i p max_wait poll t0 w = Some (None, w') \<and>
                  trace w' = trace w @ [GetPasswordData region i, ReadBytes p] \<and>
                  pw_polls w' = Suc (pw_polls w) \<and>
                  last (console w') = (Error, ''Failed to decrypt password'')))"
proof -
  have one: "fst (decrypt_password E c p w) = spec_decrypt E key c \<and>
            (\<exists>w'. password_loop E region i p max_wait poll t0 w =
                     Some (if spec_decrypt E key c = Some [] then None
                           else spec_decrypt E key c, w') \<and>
                  trace w' = trace w @ [GetPasswordData region i, ReadBytes p] \<and>
                  pw_polls w' = Suc (pw_polls w) \<and>
                  (spec_decrypt E key c = None \<or> spec_decrypt E key c = Some [] \<longrightarrow>
                     last (console w') = (Error, ''Failed to decrypt password''))) \<and>
            (spec_decrypt E key c = None \<longleftrightarrow>
               (\<exists>e. b64decode E c = Inl e) \<or>
               (\<exists>bytes. b64decode E c = Inr bytes \<and>
                  ((\<exists>e. rsa_decrypt_pkcs1v15 E key bytes = Inl e) \<or>
                   (\<exists>plain e. rsa_decrypt_pkcs1v15 E key bytes = Inr plain \<and>
                               utf8_decode E plain = Inl e))))"
    if readable: "fault E (ReadBytes p) = None \<and> files w p = Some f \<and>
                  load_pem_private_key E (content f) = Inr key" for f key
  proof -
    from readable have key: "load_pem_private_key E (content f) = Inr key" by simp
    have eq: "fst (decrypt_password E c p w) = spec_decrypt E key c"
      using readable decrypt_steps_spec [OF key, of c] by (simp add: decrypt_password_result)
    have run: "\<exists>w'. password_loop E region i p max_wait poll t0 w =
                     Some (if spec_decrypt E key c = Some [] then None
                           else spec_decrypt E key c, w') \<and>
                  trace w' = trace w @ [GetPasswordData region i, ReadBytes p] \<and>
                  pw_polls w' = Suc (pw_polls w) \<and>
                  (spec_decrypt E key c = None \<or> spec_decrypt E key c = Some [] \<longrightarrow>
                     last (console w') = (Error, ''Failed to decrypt password''))"
    proof (cases "spec_decrypt E key c")
      case None
      with eq password_loop_decrypt_failure [OF guard material, of p region i poll]
      show ?thesis by simp
    next
      case (Some s)
      show ?thesis
      proof (cases "s = []")
        case True
        with Some eq password_loop_decrypt_empty [OF guard material, of p region i poll]
        show ?thesis by simp
      next
        case False
        with Some eq password_loop_decrypt_success [OF guard material, of p s region i poll]
        show ?thesis by auto
      qed
    qed
    from eq run spec_decrypt_fails_iff [of E key c] show ?thesis by blast
  qed
  have two: "fst (decrypt_password E c p w) = None \<and>
            (\<exists>w'. password_loop E region i p max_wait poll t0 w = Some (None, w') \<and>
                  trace w' = trace w @ [GetPasswordData region i, ReadBytes p] \<and>
                  pw_polls w' = Suc (pw_polls w) \<and>
                  last (console w') = (Error, ''Failed to decrypt password''))"
    if bad: "fault E (ReadBytes p) \<noteq> None \<or> files w p = None \<or>
            (\<exists>f e. files w p = Some f \<and> load_pem_private_key E (content f) = Inl e)"
  proof -
    have n: "fst (decrypt_password E c p w) = None"
      using bad
      by (auto simp: decrypt_password_result decrypt_steps_def split: option.splits sum.splits)
    with password_loop_decrypt_failure [OF guard material n, of region i poll]
    show ?thesis by simp
  qed
  show ?thesis
  proof (intro conjI allI impI)
    fix f key
    assume r: "fault E (ReadBytes p) = None \<and> files w p = Some f \<and>
               load_pem_private_key E (content f) = Inr key"
    from one [OF r] show "fst (decrypt_password E c p w) = spec_decrypt E key c"
      and "\<exists>w'. password_loop E region i p max_wait poll t0 w =
                     Some (if spec_decrypt E key c = Some [] then None
                           else spec_decrypt E key c, w') \<and>
                  trace w' = trace w @ [GetPasswordData region i, ReadBytes p] \<and>
                  pw_polls w' = Suc (pw_polls w) \<and>
                  (spec_decrypt E key c = None \<or> spec_decrypt E key c = Some [] \<longrightarrow>
                     last (console w') = (Error, ''Failed to decrypt password''))"
      and "spec_decrypt E key c = None \<longleftrightarrow>
               (\<exists>e. b64decode E c = Inl e) \<or>
               (\<exists>bytes. b64decode E c = Inr bytes \<and>
                  ((\<exists>e. rsa_decrypt_pkcs1v15 E key bytes = Inl e) \<or>
                   (\<exists>plain e. rsa_decrypt_pkcs1v15 E key bytes = Inr plain \<and>
                               utf8_decode E plain = Inl e)))"
      by blast+
  next
    assume b: "fault E (ReadBytes p) \<noteq> None \<or> files w p = None \<or>
            (\<exists>f e. files w p = Some f \<and> load_pem_private_key E (content f) = Inl e)"
    from two [OF b] show "fst (decrypt_password E c p w) = None"
      and "\<exists>w'. password_loop E region i p max_wait poll t0 w = Some (None, w') \<and>
                  trace w' = trace w @ [GetPasswordData region i, ReadBytes p] \<and>
                  pw_polls w' = Suc (pw_polls w) \<and>
                  last (console w') = (Error, ''Failed to decrypt password'')"
      by blast+
  qed
qed

theorem decrypt_pipeline_fails_closed_witness:
  "spec_decrypt wrong_key_env ''k1:'' ''k9:s3cret'' = None \<and>
   rsa_decrypt_pkcs1v15 wrong_key_env ''k1:'' ''k9:s3cret'' = Inl (OtherError ''Decryption failed'') \<and>
   (\<exists>w'. password_loop wrong_key_env ''us-west-2'' ''i-0a'' demo_key_path 300 10 1000 demo_world
            = Some (None, w') \<and>
         trace w' = [GetPasswordData ''us-west-2'' ''i-0a'', ReadBytes demo_key_path] \<and>
         last (console w') = (Error, ''Failed to decrypt password'')) \<and>
   spec_decrypt implicit_rejection_env ''k1:'' ''k9:s3cret'' = Some ''nY?e'' \<and>
   (\<exists>w'. password_loop implicit_rejection_env ''us-west-2'' ''i-0a'' demo_key_path 300 10 1000
            demo_world = Some (Some ''nY?e'', w') \<and>
         trace w' = [GetPasswordData ''us-west-2'' ''i-0a'', ReadBytes demo_key_path]) \<and>
   spec_decrypt demo_env ''k1:'' ''k1:s3cret'' = Some ''s3cret'' \<and>
   fst (decrypt_password demo_env ''k1:s3cret'' demo_key_path demo_world) = Some ''s3cret'' \<and>
   files keyless_world demo_key_path = None \<and>
   (\<exists>w'. password_loop wrong_key_env ''us-west-2'' ''i-0a'' demo_key_path 300 10 1000 keyless_world
            = Some (None, w') \<and>
         trace w' = [GetPasswordData ''us-west-2'' ''i-0a'', ReadBytes demo_key_path])"
proof -
  have a: "clock demo_world - 1000 < of_int 300"
    "password_data wrong_key_env (pw_polls demo_world) = Inr ''k9:s3cret''" "''k9:s3cret'' \<noteq> []"
    and ak: "fault wrong_key_env (ReadBytes demo_key_path) = None \<and>
      files demo_world demo_key_path = Some \<lparr>content = ''PEM:k1:'', mode = 384\<rparr> \<and>
      load_pem_private_key wrong_key_env (content \<lparr>content = ''PEM:k1:'', mode = 384\<rparr>) = Inr ''k1:''"
    by (simp_all add: demo_defs)
  have i: "clock demo_world - 1000 < of_int 300"
    "password_data implicit_rejection_env (pw_polls demo_world) = Inr ''k9:s3cret''"
    "''k9:s3cret'' \<noteq> []"
    and ik: "fault implicit_rejection_env (ReadBytes demo_key_path) = None \<and>
      files demo_world demo_key_path = Some \<lparr>content = ''PEM:k1:'', mode = 384\<rparr> \<and>
      load_pem_private_key implicit_rejection_env (content \<lparr>content = ''PEM:k1:'', mode = 384\<rparr>)
        = Inr ''k1:''"
    by (simp_all add: demo_defs)
  have b: "clock (demo_world\<lparr>pw_polls := 2\<rparr>) - 1000 < of_int 300"
    "password_data demo_env (pw_polls (demo_world\<lparr>pw_polls := 2\<rparr>)) = Inr ''k1:s3cret''"
    "''k1:s3cret'' \<noteq> []"
    and bk: "fault demo_env (ReadBytes demo_key_path) = None \<and>
      files (demo_world\<lparr>pw_polls := 2\<rparr>) demo_key_path = Some \<lparr>content = ''PEM:k1:'', mode = 384\<rparr> \<and>
      load_pem_private_key demo_env (content \<lparr>content = ''PEM:k1:'', mode = 384\<rparr>) = Inr ''k1:''"
    by (simp_all add: demo_defs)
  have k: "clock keyless_world - 1000 < of_int 300"
    "password_data wrong_key_env (pw_polls keyless_world) = Inr ''k9:s3cret''" "''k9:s3cret'' \<noteq> []"
    and kk: "files keyless_world demo_key_path = None"
    by (simp_all add: demo_defs)
  have n: "spec_decrypt wrong_key_env ''k1:'' ''k9:s3cret'' = None"
    and g: "spec_decrypt implicit_rejection_env ''k1:'' ''k9:s3cret'' = Some ''nY?e''"
    and s: "spec_decrypt demo_env ''k1:'' ''k1:s3cret'' = Some ''s3cret''"
    and r: "rsa_decrypt_pkcs1v15 wrong_key_env ''k1:'' ''k9:s3cret''
              = Inl (OtherError ''Decryption failed'')"
    by (simp_all add: spec_decrypt_def demo_defs)
  have f: "fst (decrypt_password demo_env ''k1:s3cret'' demo_key_path demo_world)
         = fst (decrypt_password demo_env ''k1:s3cret'' demo_key_path (demo_world\<lparr>pw_polls := 2\<rparr>))"
    by (rule decrypt_password_same_files) simp
  have t: "trace demo_world = []" "trace keyless_world = []" by (simp_all add: demo_defs)
  note wrong = decrypt_pipeline_fails_closed [OF a, where p = demo_key_path
      and region = "''us-west-2''" and i = "''i-0a''" and poll = 10,
      THEN conjunct1, rule_format, OF ak]
  note lenient = decrypt_pipeline_fails_closed [OF i, where p = demo_key_path
      and region = "''us-west-2''" and i = "''i-0a''" and poll = 10,
      THEN conjunct1, rule_format, OF ik]
  note right = decrypt_pipeline_fails_closed [OF b, where p = demo_key_path
      and region = "''us-west-2''" and i = "''i-0a''" and poll = 10,
      THEN conjunct1, rule_format, OF bk]
  note nofile = decrypt_pipeline_fails_closed [OF k, where p = demo_key_path
      and region = "''us-west-2''" and i = "''i-0a''" and poll = 10,
      THEN conjunct2, rule_format, OF disjI2, OF disjI1, OF kk]
  from wrong
  have 1: "\<exists>w'. password_loop wrong_key_env ''us-west-2'' ''i-0a'' demo_key_path 300 10 1000 demo_world
            = Some (None, w') \<and>
         trace w' = [GetPasswordData ''us-west-2'' ''i-0a'', ReadBytes demo_key_path] \<and>
         last (console w') = (Error, ''Failed to decrypt password'')"
    unfolding n t by auto
  from lenient
  have 2: "\<exists>w'. password_loop implicit_rejection_env ''us-west-2'' ''i-0a'' demo_key_path 300 10 1000
            demo_world = Some (Some ''nY?e'', w') \<and>
         trace w' = [GetPasswordData ''us-west-2'' ''i-0a'', ReadBytes demo_key_path]"
    unfolding g t by auto
  from right
  have 3: "fst (decrypt_password demo_env ''k1:s3cret'' demo_key_path demo_world) = Some ''s3cret''"
    unfolding s f by simp
  from nofile
  have 4: "\<exists>w'. password_loop wrong_key_env ''us-west-2'' ''i-0a'' demo_key_path 300 10 1000 keyless_world
            = Some (None, w') \<and>
         trace w' = [GetPasswordData ''us-west-2'' ''i-0a'', ReadBytes demo_key_path]"
    unfolding t by auto
  from n r 1 g 2 s 3 kk 4 show ?thesis by blast
qed

subsection \<open>A failing password query\<close>

text \<open>
  C9. When the provider's password query raises on a poll that the loop makes (the deadline
  not yet reached), \<open>get_instance_password\<close>'s loop returns \<open>None\<close> on that poll: it
  prints the error, issues no further call, does not sleep, and does not wait for the
  deadline.
\<close>

theorem provider_exception_aborts_poll:
  assumes "clock w - t0 < of_int max_wait" and "password_data E (pw_polls w) = Inl e"
  shows "\<exists>w'. password_loop E region i p max_wait poll t0 w = Some (None, w') \<and>
           console w' = console w @ [(Error, ''Error retrieving password: '' @ str_exn e)] \<and>
           trace w' = trace w @ [GetPasswordData region i] \<and>
           pw_polls w' = Suc (pw_polls w) \<and>
           clock w' = clock w + call_duration E (pw_polls w)"
  using assms
  by (subst password_loop.simps) (simp add: ec2_get_password_data_def record_call_def print_defs)

theorem provider_exception_aborts_poll_witness:
  "clock demo_world - 1000 < of_int 300 \<and>
   password_data outage_env (pw_polls demo_world) = Inl (ClientError ''RequestLimitExceeded'') \<and>
   (\<exists>w'. password_loop outage_env ''us-west-2'' ''i-0a'' demo_key_path 300 10 1000 demo_world
            = Some (None, w') \<and>
         console w' = [(Error, ''Error retrieving password: RequestLimitExceeded'')] \<and>
         trace w' = [GetPasswordData ''us-west-2'' ''i-0a''] \<and> pw_polls w' = 1)"
proof -
  have a: "clock demo_world - 1000 < of_int 300"
    "password_data outage_env (pw_polls demo_world) = Inl (ClientError ''RequestLimitExceeded'')"
    by (simp_all add: demo_defs)
  show ?thesis
    using a provider_exception_aborts_poll [OF a, of "''us-west-2''" "''i-0a''" demo_key_path 10]
    by (auto simp: demo_world_def)
qed


subsection \<open>What a run of the password retrieval reports\<close>

text \<open>
  C1, as stated, fails: \<open>get_instance_password\<close> returns an \<open>Optional[str]\<close>, and a run
  that never saw password material returns the same \<open>None\<close> as a run that retrieved
  material its key could not decrypt.
\<close>

theorem password_failures_return_the_same_value:
  "map_option fst (get_instance_password never_ready_env ''us-west-2'' ''i-0a'' demo_key_path 20 10 demo_world)
     = Some None \<and>
   map_option fst (get_instance_password wrong_key_env ''us-west-2'' ''i-0a'' demo_key_path 20 10 demo_world)
     = Some None"
  by (simp add: password_loop.simps run_defs demo_defs)

text \<open>
  C1, amended. A run of \<open>get_instance_password\<close> that returns, returns the decrypted,
  non-empty password or \<open>None\<close>; the value \<open>None\<close> carries no reason. The reason is on
  the console only: after a run in which every answer was empty until the deadline the
  console ends with the error line \<open>Timeout waiting for password data after N seconds\<close> and
  the hint to try again; after a run whose last answer was material that did not decrypt to
  a non-empty password it ends with the error line \<open>Failed to decrypt password\<close>; after a
  query that raised it ends with \<open>Error retrieving password: ...\<close>. The first two endings
  exclude each other.
\<close>

theorem password_outcome_is_on_the_console:
  assumes "get_instance_password E region i p max_wait poll w = Some (r, w')"
  shows "(case r of
            Some s \<Rightarrow> decrypted E p (announced w) s w'
          | None \<Rightarrow> timed_out E max_wait (clock w) (announced w) w'
                    \<or> decrypt_failed E p (announced w) w'
                    \<or> query_failed E poll (announced w) w') \<and>
         \<not> (timed_out E max_wait (clock w) (announced w) w' \<and> decrypt_failed E p (announced w) w')"
proof -
  have "loop_post E p max_wait poll (clock w) (announced w) (r, w')"
    using assms unfolding get_instance_password_def announced_def by (rule password_loop_sound)
  then have "case r of
            Some s \<Rightarrow> decrypted E p (announced w) s w'
          | None \<Rightarrow> timed_out E max_wait (clock w) (announced w) w'
                    \<or> decrypt_failed E p (announced w) w'
                    \<or> query_failed E poll (announced w) w'"
    by (cases r) (simp_all add: loop_post_def)
  moreover have "\<not> (timed_out E max_wait (clock w) (announced w) w' \<and> decrypt_failed E p (announced w) w')"
    by (auto simp: timed_out_def decrypt_failed_def timeout_lines_def)
  ultimately show ?thesis by simp
qed

theorem password_outcome_is_on_the_console_witness:
  "(\<exists>w'. get_instance_password never_ready_env ''us-west-2'' ''i-0a'' demo_key_path 20 10 demo_world
           = Some (None, w') \<and>
        timed_out never_ready_env 20 (clock demo_world) (announced demo_world) w' \<and>
        \<not> decrypt_failed never_ready_env demo_key_path (announced demo_world) w') \<and>
   (\<exists>w'. get_instance_password wrong_key_env ''us-west-2'' ''i-0a'' demo_key_path 20 10 demo_world
           = Some (None, w') \<and>
        decrypt_failed wrong_key_env demo_key_path (announced demo_world) w' \<and>
        \<not> timed_out wrong_key_env 20 (clock demo_world) (announced demo_world) w') \<and>
   (\<exists>w'. get_instance_password demo_env ''us-west-2'' ''i-0a'' demo_key_path 300 10 demo_world
           = Some (Some ''s3cret'', w') \<and>
        decrypted demo_env demo_key_path (announced demo_world) ''s3cret'' w')"
proof -
  have "map_option fst (get_instance_password never_ready_env ''us-west-2'' ''i-0a'' demo_key_path 20 10 demo_world)
     = Some None"
    by (simp add: password_loop.simps run_defs demo_defs)
  then obtain w1 where run1:
    "get_instance_password never_ready_env ''us-west-2'' ''i-0a'' demo_key_path 20 10 demo_world
       = Some (None, w1)"
    by auto
  have n1: "\<not> decrypt_failed never_ready_env demo_key_path (announced demo_world) w1"
    "\<not> query_failed never_ready_env 10 (announced demo_world) w1"
    by (simp_all add: decrypt_failed_def query_failed_def never_ready_env_def)
  have "map_option (\<lambda>y. (fst y, pw_polls (snd y)))
          (get_instance_password wrong_key_env ''us-west-2'' ''i-0a'' demo_key_path 20 10 demo_world)
     = Some (None, 1)"
    by (simp add: password_loop.simps run_defs demo_defs)
  then obtain w2 where run2:
    "get_instance_password wrong_key_env ''us-west-2'' ''i-0a'' demo_key_path 20 10 demo_world
       = Some (None, w2)" and p2: "pw_polls w2 = 1"
    by auto
  have n2: "\<not> query_failed wrong_key_env 10 (announced demo_world) w2"
    by (simp add: query_failed_def wrong_key_env_def)
  have t2: "\<not> timed_out wrong_key_env 20 (clock demo_world) (announced demo_world) w2"
    unfolding timed_out_def using p2
    by (auto simp: wrong_key_env_def announced_def print_defs demo_world_def)
  have "map_option fst (get_instance_password demo_env ''us-west-2'' ''i-0a'' demo_key_path 300 10 demo_world)
     = Some (Some ''s3cret'')"
    by (simp add: password_loop.simps run_defs demo_defs)
  then obtain w3 where run3:
    "get_instance_password demo_env ''us-west-2'' ''i-0a'' demo_key_path 300 10 demo_world
       = Some (Some ''s3cret'', w3)"
    by auto
  from password_outcome_is_on_the_console [OF run1] password_outcome_is_on_the_console [OF run2]
    password_outcome_is_on_the_console [OF run3] run1 run2 run3 n1 n2 t2
  show ?thesis by auto
qed

subsection \<open>A provider that never has the password\<close>

text \<open>
  C3. Against a provider that answers every poll with empty password material
  \<open>get_instance_password\<close> returns \<open>None\<close> with the timeout lines on the console, and at
  its return at least \<open>max_wait\<close> seconds have passed since it was called. (The poll
  interval is not negative, for \<open>time.sleep\<close> raises on a negative length, and a round of
  query and sleep takes at least some fixed positive time \<open>eps\<close>, for otherwise the clock
  need not reach the deadline.) While less than \<open>max_wait\<close> seconds
  have passed the loop goes on: it queries, sleeps for the poll interval and continues from
  there.
\<close>

theorem empty_provider_times_out_at_max_wait:
  assumes empty: "\<forall>k. password_data E k = Inr []"
    and poll: "0 \<le> poll" and eps: "0 < eps"
    and progress: "\<forall>k. eps \<le> call_duration E k + of_int poll + oversleep E k"
  shows "(\<exists>w'. get_instance_password E region i p max_wait poll w = Some (None, w') \<and>
            console w' = console (announced w) @ timeout_lines max_wait \<and>
            of_int max_wait \<le> clock w' - clock w) \<and>
         (\<forall>w1. clock w1 - clock w < of_int max_wait \<longrightarrow>
            password_loop E region i p max_wait poll (clock w) w1 =
            password_loop E region i p max_wait poll (clock w)
              (w1\<lparr>pw_polls := Suc (pw_polls w1),
                  trace := trace w1 @ [GetPasswordData region i, Sleep poll],
                  clock := clock w1 + call_duration E (pw_polls w1) + of_int poll
                             + oversleep E (pw_polls w1)\<rparr>))"
proof -
  from password_loop_times_out [OF empty poll eps progress, of region i p max_wait "clock w" "announced w"]
  have "\<exists>w'. get_instance_password E region i p max_wait poll w = Some (None, w') \<and>
            console w' = console (announced w) @ timeout_lines max_wait \<and>
            of_int max_wait \<le> clock w' - clock w"
    unfolding get_instance_password_def announced_def by blast
  moreover have "password_loop E region i p max_wait poll (clock w) w1 =
            password_loop E region i p max_wait poll (clock w)
              (w1\<lparr>pw_polls := Suc (pw_polls w1),
                  trace := trace w1 @ [GetPasswordData region i, Sleep poll],
                  clock := clock w1 + call_duration E (pw_polls w1) + of_int poll
                             + oversleep E (pw_polls w1)\<rparr>)"
    if "clock w1 - clock w < of_int max_wait" for w1
    using that empty poll by (intro password_loop_step) simp_all
  ultimately show ?thesis by blast
qed

theorem empty_provider_times_out_at_max_wait_witness:
  "(\<forall>k. password_data never_ready_env k = Inr []) \<and>
   (0::int) \<le> 10 \<and> (0::real) < 10 \<and>
   (\<forall>k. 10 \<le> call_duration never_ready_env k + of_int 10 + oversleep never_ready_env k) \<and>
   (\<exists>w'. get_instance_password never_ready_env ''us-west-2'' ''i-0a'' demo_key_path 20 10 demo_world
            = Some (None, w') \<and>
         console w' = console (announced demo_world) @ timeout_lines 20 \<and>
         of_int 20 \<le> clock w' - clock demo_world)"
proof -
  have a: "\<forall>k. password_data never_ready_env k = Inr []"
    "(0::int) \<le> 10" "(0::real) < 10"
    "\<forall>k. 10 \<le> call_duration never_ready_env k + of_int 10 + oversleep never_ready_env k"
    by (simp_all add: demo_defs)
  from empty_provider_times_out_at_max_wait [OF a, of "''us-west-2''" "''i-0a''" demo_key_path 20 demo_world]
    a show ?thesis by blast
qed

subsection \<open>Key pairs\<close>

lemmas key_call_defs = ec2_describe_key_pairs_def ec2_delete_key_pair_def ec2_create_key_pair_def
  unlink_def write_text_def chmod_def record_call_def path_exists_def create_failed_def

lemma create_fresh_success:
  assumes "create_fresh E region k key_path w = (Some p, w')"
  shows "p = key_path \<and> (region, k) \<in> key_pairs w' \<and>
         files w' key_path = Some \<lparr>content = key_material E, mode = 384\<rparr> \<and>
         trace w' = trace w @ [DeleteKeyPair region k, CreateKeyPair region k,
                     WriteText key_path, Chmod key_path]"
  using assms
  by (auto simp: create_fresh_def key_call_defs print_defs
           split: option.splits if_splits sum.splits exn.splits prod.splits)

lemma create_fresh_no_fault:
  assumes "fault E (DeleteKeyPair region k) = None" "fault E (CreateKeyPair region k) = None"
    "fault E (WriteText key_path) = None" "fault E (Chmod key_path) = None"
  shows "fst (create_fresh E region k key_path w) = Some key_path"
  using assms
  by (simp add: create_fresh_def key_call_defs print_defs)

lemma create_key_pair_success:
  assumes "create_key_pair E region k w = (Some p, w')"
  shows "p = get_key_path E k \<and> path_exists p w' \<and> (region, k) \<in> key_pairs w' \<and>
         (path_exists p w \<and> (region, k) \<notin> key_pairs w \<longrightarrow>
            files w' p = Some \<lparr>content = key_material E, mode = 384\<rparr> \<and>
            trace w' = trace w @ [DescribeKeyPairs region k, Unlink p, DeleteKeyPair region k,
                                  CreateKeyPair region k, WriteText p, Chmod p])"
proof (cases "path_exists (get_key_path E k) w")
  case False
  with assms have "create_fresh E region k (get_key_path E k) w = (Some p, w')"
    by (simp add: create_key_pair_def)
  from create_fresh_success [OF this] False show ?thesis
    by (simp add: path_exists_def)
next
  case True
  let ?kp = "get_key_path E k"
  let ?w0 = "print_info (''Key pair file already exists: '' @ ?kp) w"
  obtain r w1 where d: "ec2_describe_key_pairs E region k ?w0 = (r, w1)" by force
  then have w1: "w1 = record_call (DescribeKeyPairs region k) ?w0"
    by (simp add: ec2_describe_key_pairs_def)
  show ?thesis
  proof (cases r)
    case (Inr u)
    with assms True d have "p = ?kp" "w' = print_info (''Key pair '' @ quoted k @ '' exists in AWS'') w1"
      by (simp_all add: create_key_pair_def)
    moreover from d Inr have "(region, k) \<in> key_pairs w"
      by (auto simp: ec2_describe_key_pairs_def print_defs split: option.splits if_splits)
    ultimately show ?thesis using True w1
      by (simp add: print_defs record_call_def path_exists_def)
  next
    case (Inl e)
    show ?thesis
    proof (cases e)
      case (OtherError m)
      with assms True d Inl show ?thesis
        by (simp add: create_key_pair_def create_failed_def)
    next
      case (ClientError m)
      let ?w2 = "print_info ''Key pair not found in AWS, recreating...'' w1"
      obtain u w3 where ul: "unlink E ?kp ?w2 = (u, w3)" by force
      show ?thesis
      proof (cases u)
        case (Inl e')
        with assms True d \<open>r = Inl e\<close> ClientError ul show ?thesis
          by (simp add: create_key_pair_def create_failed_def)
      next
        case (Inr x)
        with assms True d \<open>r = Inl e\<close> ClientError ul
        have cf: "create_fresh E region k ?kp w3 = (Some p, w')"
          by (simp add: create_key_pair_def)
        have "trace w3 = trace w @ [DescribeKeyPairs region k, Unlink ?kp]"
          using ul Inr w1
          by (auto simp: unlink_def record_call_def print_defs split: option.splits if_splits)
        with create_fresh_success [OF cf] show ?thesis
          by (simp add: path_exists_def)
      qed
    qed
  qed
qed


text \<open>
  C4. Whenever \<open>create_key_pair\<close> returns a path, it is the path of the key name, the file
  is there and the name is registered with the provider: the path is returned either after
  \<open>describe_key_pairs\<close> has answered for the name or after \<open>create_key_pair\<close> has. When
  the local file existed and the registration did not, the successful call has asked the
  provider, deleted the stale file, created a fresh pair and stored its private key with
  mode \<open>0o600\<close>.
\<close>

theorem create_key_pair_returns_consistent_pair:
  assumes "create_key_pair E region k w = (Some p, w')"
  shows "p = get_key_path E k \<and> path_exists p w' \<and> (region, k) \<in> key_pairs w' \<and>
         (path_exists p w \<and> (region, k) \<notin> key_pairs w \<longrightarrow>
            files w' p = Some \<lparr>content = key_material E, mode = 384\<rparr> \<and>
            trace w' = trace w @ [DescribeKeyPairs region k, Unlink p, DeleteKeyPair region k,
                                  CreateKeyPair region k, WriteText p, Chmod p])"
  using assms by (rule create_key_pair_success)

theorem create_key_pair_returns_consistent_pair_witness:
  "path_exists demo_key_path stale_world \<and> (''us-west-2'', ''winaws-demo'') \<notin> key_pairs stale_world \<and>
   (\<exists>w'. create_key_pair demo_env ''us-west-2'' ''winaws-demo'' stale_world = (Some demo_key_path, w') \<and>
         path_exists demo_key_path w' \<and> (''us-west-2'', ''winaws-demo'') \<in> key_pairs w' \<and>
         files w' demo_key_path = Some \<lparr>content = ''PEM:k2:'', mode = 384\<rparr> \<and>
         trace w' = [DescribeKeyPairs ''us-west-2'' ''winaws-demo'', Unlink demo_key_path,
                     DeleteKeyPair ''us-west-2'' ''winaws-demo'', CreateKeyPair ''us-west-2'' ''winaws-demo'',
                     WriteText demo_key_path, Chmod demo_key_path])"
proof -
  have pre: "path_exists demo_key_path stale_world"
    "(''us-west-2'', ''winaws-demo'') \<notin> key_pairs stale_world"
    by (simp_all add: path_exists_def demo_defs)
  have "fst (create_key_pair demo_env ''us-west-2'' ''winaws-demo'' stale_world) = Some demo_key_path"
    by (simp add: Let_def create_key_pair_def create_fresh_def get_key_path_def key_call_defs print_defs
          demo_defs)
  then obtain w' where run:
    "create_key_pair demo_env ''us-west-2'' ''winaws-demo'' stale_world = (Some demo_key_path, w')"
    by (metis prod.collapse)
  from create_key_pair_returns_consistent_pair [OF run] pre run show ?thesis
    by (auto simp: demo_defs)
qed

subsection \<open>Instances and commands\<close>

lemma get_instance_info_effect:
  assumes "get_instance_info E region iid w = (x, w1)"
  shows "trace w1 = trace w @ [DescribeInstances region [iid] []]"
    "files w1 = files w" "reservations w1 = reservations w" "key_pairs w1 = key_pairs w"
    "clock w1 = clock w" "pw_polls w1 = pw_polls w"
    "x \<noteq> None \<Longrightarrow> console w1 = console w"
  using assms
  by (auto simp: get_instance_info_def ec2_describe_instances_def record_call_def print_defs
           split: prod.splits sum.splits list.splits option.splits if_splits)

lemma get_instance_info_same_reservations:
  "reservations w1 = reservations w \<Longrightarrow>
     fst (get_instance_info E region iid w1) = fst (get_instance_info E region iid w)"
  by (auto simp: get_instance_info_def ec2_describe_instances_def Let_def
           split: prod.splits sum.splits list.splits option.splits if_splits)


lemma get_instance_info_found:
  assumes "fst (get_instance_info E region iid w) = Some info" "reservations w1 = reservations w"
  shows "get_instance_info E region iid w1 =
           (Some info, record_call (DescribeInstances region [iid] []) w1)"
proof -
  have "fst (get_instance_info E region iid w1) = Some info"
    using assms get_instance_info_same_reservations [of w1 w E region iid] by simp
  then show ?thesis
    by (auto simp: get_instance_info_def ec2_describe_instances_def
             split: prod.splits sum.splits list.splits option.splits if_splits)
qed

lemma probe_regions_result:
  assumes "reservations w1 = reservations w"
  shows "fst (probe_regions E rs iid w1) = find (knows E w iid) rs \<and>
         trace (snd (probe_regions E rs iid w1)) =
           trace w1 @ map (\<lambda>r. DescribeInstances r [iid] []) (probed (knows E w iid) rs) \<and>
         reservations (snd (probe_regions E rs iid w1)) = reservations w \<and>
         files (snd (probe_regions E rs iid w1)) = files w1"
  using assms
proof (induction rs arbitrary: w1)
  case Nil
  then show ?case by (simp add: probed_def)
next
  case (Cons r rs)
  obtain x w2 where g: "get_instance_info E r iid w1 = (x, w2)" by force
  note ge = get_instance_info_effect [OF g]
  have x: "x = fst (get_instance_info E r iid w)"
    using g get_instance_info_same_reservations [OF Cons.prems, of E r iid] by simp
  show ?case
  proof (cases x)
    case None
    then have nk: "\<not> knows E w iid r" using x by (simp add: knows_def)
    have "reservations w2 = reservations w" using ge Cons.prems by simp
    from Cons.IH [OF this] g None nk ge show ?thesis
      by (simp add: probed_def)
  next
    case (Some info)
    then have k: "knows E w iid r" using x by (simp add: knows_def)
    from g Some k ge Cons.prems show ?thesis by (simp add: probed_def)
  qed
qed

lemma selected_managed:
  assumes "selected [] managed_filters inst"
  shows "(''ManagedBy'', ''winaws'') \<in> set (Tags inst)"
    and "StateName inst \<in> {''pending'', ''running'', ''stopping'', ''stopped''}"
  using assms by (auto simp: selected_def managed_filters_def matches_filter_def)

lemma listed_from_selected:
  assumes "s \<in> set (fst (list_managed_instances E region w))"
  shows "\<exists>inst \<in> set (concat (reservations w region)).
           s = summary inst \<and> selected [] managed_filters inst"
proof -
  from assms obtain rs where
    rs: "rs = filter (\<lambda>r. r \<noteq> []) (map (filter (selected [] managed_filters)) (reservations w region))"
    and s: "s \<in> summary ` set (concat rs)"
    by (auto simp: list_managed_instances_def ec2_describe_instances_def Let_def
             split: option.splits)
  then obtain inst where "inst \<in> set (concat rs)" "s = summary inst" by blast
  moreover from this rs have "inst \<in> set (concat (reservations w region))"
    "selected [] managed_filters inst"
    by auto
  ultimately show ?thesis by blast
qed

text \<open>
  C10. Every entry that \<open>list_managed_instances\<close> returns is the summary of an instance of
  the region that carries the tag \<open>ManagedBy = winaws\<close> and is in one of the states
  \<open>pending\<close>, \<open>running\<close>, \<open>stopping\<close>, \<open>stopped\<close>; so an entry is never in the state
  \<open>shutting-down\<close> or \<open>terminated\<close>. (On a failed query the list is empty.)
\<close>

theorem listed_instances_are_managed_and_alive:
  "\<forall>s \<in> set (fst (list_managed_instances E region w)).
     \<exists>inst \<in> set (concat (reservations w region)).
       s = summary inst \<and> (''ManagedBy'', ''winaws'') \<in> set (Tags inst) \<and>
       StateName inst \<in> {''pending'', ''running'', ''stopping'', ''stopped''} \<and>
       s_state s \<noteq> ''shutting-down'' \<and> s_state s \<noteq> ''terminated''"
proof
  fix s assume "s \<in> set (fst (list_managed_instances E region w))"
  from listed_from_selected [OF this] obtain inst where
    i: "inst \<in> set (concat (reservations w region))" "s = summary inst"
      "selected [] managed_filters inst" by blast
  note m = selected_managed [OF i(3)]
  have "s_state s = StateName inst" using i(2) by (simp add: summary_def)
  with m(2) have "s_state s \<noteq> ''shutting-down'' \<and> s_state s \<noteq> ''terminated''" by auto
  with i m show "\<exists>inst \<in> set (concat (reservations w region)).
       s = summary inst \<and> (''ManagedBy'', ''winaws'') \<in> set (Tags inst) \<and>
       StateName inst \<in> {''pending'', ''running'', ''stopping'', ''stopped''} \<and>
       s_state s \<noteq> ''shutting-down'' \<and> s_state s \<noteq> ''terminated''" by blast
qed

theorem listed_instances_are_managed_and_alive_witness:
  "fst (list_managed_instances demo_env ''us-west-2'' demo_world) = [summary i_running, summary i_stopped] \<and>
   (\<exists>inst \<in> set (concat (reservations demo_world ''us-west-2'')).
       summary i_running = summary inst \<and> (''ManagedBy'', ''winaws'') \<in> set (Tags inst) \<and>
       StateName inst \<in> {''pending'', ''running'', ''stopping'', ''stopped''}) \<and>
   i_dying \<in> set (concat (reservations demo_world ''us-west-2'')) \<and>
   StateName i_dying = ''shutting-down'' \<and> (''ManagedBy'', ''winaws'') \<in> set (Tags i_dying)"
proof -
  have l: "fst (list_managed_instances demo_env ''us-west-2'' demo_world)
             = [summary i_running, summary i_stopped]"
    by (simp add: list_managed_instances_def ec2_describe_instances_def Let_def selected_def
          managed_filters_def matches_filter_def demo_defs i_running_def i_stopped_def
          i_dying_def i_foreign_def record_call_def)
  then have "summary i_running \<in> set (fst (list_managed_instances demo_env ''us-west-2'' demo_world))"
    by simp
  with listed_instances_are_managed_and_alive [of demo_env "''us-west-2''" demo_world]
  have "\<exists>inst \<in> set (concat (reservations demo_world ''us-west-2'')).
       summary i_running = summary inst \<and> (''ManagedBy'', ''winaws'') \<in> set (Tags inst) \<and>
       StateName inst \<in> {''pending'', ''running'', ''stopping'', ''stopped''}"
    by blast
  moreover have "i_dying \<in> set (concat (reservations demo_world ''us-west-2''))"
    "StateName i_dying = ''shutting-down''" "(''ManagedBy'', ''winaws'') \<in> set (Tags i_dying)"
    by (simp_all add: demo_defs i_dying_def i_running_def)
  ultimately show ?thesis using l by blast
qed


lemma probed_none: "find P rs = None \<Longrightarrow> probed P rs = rs"
  by (induction rs) (auto simp: probed_def split: if_splits)

lemma default_region_not_empty:
  "find P default_regions = Some r \<Longrightarrow> r \<noteq> []"
  by (auto simp: default_regions_def split: if_splits)

lemma resolve_region_result:
  assumes "reservations w1 = reservations w"
  shows "fst (resolve_region E iid region0 w1) =
           (case resolved E w iid region0 of None \<Rightarrow> Inl 1 | Some r \<Rightarrow> Inr r)"
    and "trace (snd (resolve_region E iid region0 w1)) =
           trace w1 @ map (\<lambda>r. DescribeInstances r [iid] []) (asked E w iid region0)"
    and "reservations (snd (resolve_region E iid region0 w1)) = reservations w"
    and "files (snd (resolve_region E iid region0 w1)) = files w1"
proof -
  note p = probe_regions_result [OF assms, of E default_regions iid]
  obtain x w2 where pr: "probe_regions E default_regions iid w1 = (x, w2)" by force
  with p have x: "x = find (knows E w iid) default_regions"
    and t: "trace w2 = trace w1 @ map (\<lambda>r. DescribeInstances r [iid] [])
                                   (probed (knows E w iid) default_regions)"
    and r: "reservations w2 = reservations w" and f: "files w2 = files w1"
    by simp_all
  have res: "resolve_region E iid region0 w1 =
      (if truthy region0 then (Inr (the region0), w1)
       else (case find (knows E w iid) default_regions of
               None \<Rightarrow> (Inl 1, print_error
                 ''Could not determine instance region. Please specify with --region'' w2)
             | Some r \<Rightarrow> (Inr r, w2)))"
  proof (cases "find (knows E w iid) default_regions")
    case None
    with pr x show ?thesis by (simp add: resolve_region_def)
  next
    case (Some r)
    with pr x default_region_not_empty [OF Some] show ?thesis by (simp add: resolve_region_def)
  qed
  have given: "region0 = Some (the region0)" if "truthy region0"
    using that by (auto simp: truthy_def)
  show "fst (resolve_region E iid region0 w1) =
           (case resolved E w iid region0 of None \<Rightarrow> Inl 1 | Some r \<Rightarrow> Inr r)"
    unfolding res resolved_def using given by (auto split: option.splits)
  show "trace (snd (resolve_region E iid region0 w1)) =
           trace w1 @ map (\<lambda>r. DescribeInstances r [iid] []) (asked E w iid region0)"
    unfolding res asked_def using t by (simp split: option.splits add: print_defs)
  show "reservations (snd (resolve_region E iid region0 w1)) = reservations w"
    unfolding res using r assms by (simp split: option.splits add: print_defs)
  show "files (snd (resolve_region E iid region0 w1)) = files w1"
    unfolding res using f by (simp split: option.splits add: print_defs)
qed

text \<open>
  What a command does once it has an instance id: resolve the region, read the instance,
  and go on from the world \<open>w3\<close> in which these calls are on the trace.
\<close>

lemma command_reads_instance:
  assumes res: "resolved E w iid region0 = Some region"
    and info: "fst (get_instance_info E region iid w) = Some info"
    and same: "reservations w1 = reservations w"
  shows "\<exists>w2 w3. resolve_region E iid region0 w1 = (Inr region, w2) \<and>
           get_instance_info E region iid w2 = (Some info, w3) \<and>
           trace w3 = trace w1 @ map (\<lambda>r. DescribeInstances r [iid] []) (asked E w iid region0)
                        @ [DescribeInstances region [iid] []] \<and>
           files w3 = files w1"
proof -
  note r = resolve_region_result [OF same, of E iid region0]
  obtain x w2 where rr: "resolve_region E iid region0 w1 = (x, w2)" by force
  with r res have x: "x = Inr region"
    and t2: "trace w2 = trace w1 @ map (\<lambda>r. DescribeInstances r [iid] []) (asked E w iid region0)"
    and r2: "reservations w2 = reservations w" and f2: "files w2 = files w1"
    by simp_all
  let ?w3 = "record_call (DescribeInstances region [iid] []) w2"
  have g: "get_instance_info E region iid w2 = (Some info, ?w3)"
    by (rule get_instance_info_found [OF info r2])
  have "trace ?w3 = trace w1 @ map (\<lambda>r. DescribeInstances r [iid] []) (asked E w iid region0)
                        @ [DescribeInstances region [iid] []]"
    "files ?w3 = files w1"
    using t2 f2 by (simp_all add: record_call_def)
  with rr x g show ?thesis by blast
qed

lemma start_with_id:
  assumes "iid \<noteq> []" and res: "resolved E w iid region0 = Some region"
    and info: "fst (get_instance_info E region iid w) = Some info"
  shows "fst (start E (Some iid) region0 w) =
           (if i_state info = ''running'' then 0
            else if i_state info \<notin> set [''stopped'', ''stopping''] then 1
            else if fault E (StartInstances region iid) = None then 0 else 1)"
    and "trace (snd (start E (Some iid) region0 w)) =
           trace w @ map (\<lambda>r. DescribeInstances r [iid] []) (asked E w iid region0)
             @ [DescribeInstances region [iid] []]
             @ (if i_state info \<in> set [''stopped'', ''stopping'']
                then [StartInstances region iid] else [])"
proof -
  let ?h = "print_header ''WinAWS - Start Instance'' w"
  have "reservations ?h = reservations w" by (simp add: print_defs)
  from command_reads_instance [OF res info this] obtain w2 w3 where
    rr: "resolve_region E iid region0 ?h = (Inr region, w2)"
    and g: "get_instance_info E region iid w2 = (Some info, w3)"
    and t: "trace w3 = trace w @ map (\<lambda>r. DescribeInstances r [iid] []) (asked E w iid region0)
                        @ [DescribeInstances region [iid] []]"
    by (auto simp: print_defs)
  have st: "start E (Some iid) region0 w =
     (if i_state info = ''running'' then
        (0, print_success (''Instance '' @ iid @ '' is already running'') w3)
      else if i_state info \<notin> set [''stopped'', ''stopping''] then
        (1, print_error (''Cannot start instance in state: '' @ i_state info) w3)
      else
        (case start_instance E region iid w3 of
           (True, w4) \<Rightarrow>
             (0, print_plain (''Check status with: winaws status '' @ iid
                                @ '' --region '' @ region)
                   (print_success (''Instance '' @ i_name info
                                     @ '' will be running shortly'') w4))
         | (False, w4) \<Rightarrow> (1, w4)))"
    using assms(1) rr g by (simp add: start_def choose_instance_def truthy_def)
  show "fst (start E (Some iid) region0 w) =
           (if i_state info = ''running'' then 0
            else if i_state info \<notin> set [''stopped'', ''stopping''] then 1
            else if fault E (StartInstances region iid) = None then 0 else 1)"
    unfolding st by (simp add: start_instance_def split: option.splits)
  show "trace (snd (start E (Some iid) region0 w)) =
           trace w @ map (\<lambda>r. DescribeInstances r [iid] []) (asked E w iid region0)
             @ [DescribeInstances region [iid] []]
             @ (if i_state info \<in> set [''stopped'', ''stopping'']
                then [StartInstances region iid] else [])"
    unfolding st using t
    by (auto simp: start_instance_def print_defs record_call_def split: option.splits)
qed

lemma stop_with_id:
  assumes "iid \<noteq> []" and res: "resolved E w iid region0 = Some region"
    and info: "fst (get_instance_info E region iid w) = Some info"
  shows "fst (stop E (Some iid) region0 w) =
           (if i_state info = ''stopped'' then 0
            else if i_state info \<notin> set [''running'', ''pending''] then 1
            else if fault E (StopInstances region iid) = None then 0 else 1)"
    and "trace (snd (stop E (Some iid) region0 w)) =
           trace w @ map (\<lambda>r. DescribeInstances r [iid] []) (asked E w iid region0)
             @ [DescribeInstances region [iid] []]
             @ (if i_state info \<in> set [''running'', ''pending'']
                then [StopInstances region iid] else [])"
proof -
  let ?h = "print_header ''WinAWS - Stop Instance'' w"
  have "reservations ?h = reservations w" by (simp add: print_defs)
  from command_reads_instance [OF res info this] obtain w2 w3 where
    rr: "resolve_region E iid region0 ?h = (Inr region, w2)"
    and g: "get_instance_info E region iid w2 = (Some info, w3)"
    and t: "trace w3 = trace w @ map (\<lambda>r. DescribeInstances r [iid] []) (asked E w iid region0)
                        @ [DescribeInstances region [iid] []]"
    by (auto simp: print_defs)
  have st: "stop E (Some iid) region0 w =
     (if i_state info = ''stopped'' then
        (0, print_success (''Instance '' @ iid @ '' is already stopped'') w3)
      else if i_state info \<notin> set [''running'', ''pending''] then
        (1, print_error (''Cannot stop instance in state: '' @ i_state info) w3)
      else
        (case stop_instance E region iid
                (print_warning ''Stopping instance will shut down Windows gracefully'' w3) of
           (True, w4) \<Rightarrow>
             (0, print_plain (''Check status with: winaws status '' @ iid
                                @ '' --region '' @ region)
                   (print_success (''Instance '' @ i_name info @ '' is stopping'') w4))
         | (False, w4) \<Rightarrow> (1, w4)))"
    using assms(1) rr g by (simp add: stop_def choose_instance_def truthy_def)
  show "fst (stop E (Some iid) region0 w) =
           (if i_state info = ''stopped'' then 0
            else if i_state info \<notin> set [''running'', ''pending''] then 1
            else if fault E (StopInstances region iid) = None then 0 else 1)"
    unfolding st by (simp add: stop_instance_def split: option.splits)
  show "trace (snd (stop E (Some iid) region0 w)) =
           trace w @ map (\<lambda>r. DescribeInstances r [iid] []) (asked E w iid region0)
             @ [DescribeInstances region [iid] []]
             @ (if i_state info \<in> set [''running'', ''pending'']
                then [StopInstances region iid] else [])"
    unfolding st using t
    by (auto simp: stop_instance_def print_defs record_call_def split: option.splits)
qed

lemma password_without_key_file:
  assumes "iid \<noteq> []" and res: "resolved E w iid region0 = Some region"
    and info: "fst (get_instance_info E region iid w) = Some info"
    and nofile: "\<not> path_exists (get_key_path E (''winaws-'' @ i_name info)) w"
      "\<not> path_exists (get_key_path E (i_key_name info)) w"
  shows "\<exists>w'. password E (Some iid) region0 w = Some (1, w') \<and>
           trace w' = trace w @ map (\<lambda>r. DescribeInstances r [iid] []) (asked E w iid region0)
                        @ [DescribeInstances region [iid] []]"
proof -
  let ?h = "print_header ''WinAWS - Get Instance Password'' w"
  have "reservations ?h = reservations w" by (simp add: print_defs)
  from command_reads_instance [OF res info this] obtain w2 w3 where
    rr: "resolve_region E iid region0 ?h = (Inr region, w2)"
    and g: "get_instance_info E region iid w2 = (Some info, w3)"
    and t: "trace w3 = trace w @ map (\<lambda>r. DescribeInstances r [iid] []) (asked E w iid region0)
                        @ [DescribeInstances region [iid] []]"
    and f: "files w3 = files w"
    by (auto simp: print_defs)
  have "\<not> path_exists (get_key_path E (''winaws-'' @ i_name info)) w3"
    "\<not> path_exists (get_key_path E (i_key_name info)) w3"
    using nofile f by (simp_all add: path_exists_def)
  then have "password E (Some iid) region0 w =
      Some (1, print_error (''Expected key file: '' @ get_key_path E (i_key_name info))
                 (print_error (''Private key not found for instance '' @ iid) w3))"
    using assms(1) rr g
    by (simp add: password_def choose_instance_def truthy_def find_key_file_def)
  then show ?thesis using t by (simp add: print_defs)
qed

text \<open>
  C7. \<open>start\<close> and \<open>stop\<close> with an instance id, on an instance that the region (the one
  given, or else the first default region that knows the instance) knows: \<open>start\<close> on a
  running instance and \<open>stop\<close> on a stopped one exit with status 0, and the calls they
  issue are the \<open>describe_instances\<close> that found the region and read the state, no start
  or stop call; in a state the command cannot act on (for \<open>start\<close> any state but
  \<open>running\<close>, \<open>stopped\<close>, \<open>stopping\<close>; for \<open>stop\<close> any state but \<open>stopped\<close>, \<open>running\<close>,
  \<open>pending\<close>, so also \<open>shutting-down\<close>) they exit with status 1, again without a start or
  stop call.
\<close>

theorem start_and_stop_short_circuit:
  assumes "iid \<noteq> []" and "resolved E w iid region0 = Some region"
    and "fst (get_instance_info E region iid w) = Some info"
  shows "(i_state info = ''running'' \<longrightarrow>
            fst (start E (Some iid) region0 w) = 0 \<and>
            trace (snd (start E (Some iid) region0 w))
              = trace w @ map (\<lambda>r. DescribeInstances r [iid] []) (asked E w iid region0)
                  @ [DescribeInstances region [iid] []]) \<and>
         (i_state info = ''stopped'' \<longrightarrow>
            fst (stop E (Some iid) region0 w) = 0 \<and>
            trace (snd (stop E (Some iid) region0 w))
              = trace w @ map (\<lambda>r. DescribeInstances r [iid] []) (asked E w iid region0)
                  @ [DescribeInstances region [iid] []]) \<and>
         (i_state info \<notin> {''running'', ''stopped'', ''stopping''} \<longrightarrow>
            fst (start E (Some iid) region0 w) = 1 \<and>
            trace (snd (start E (Some iid) region0 w))
              = trace w @ map (\<lambda>r. DescribeInstances r [iid] []) (asked E w iid region0)
                  @ [DescribeInstances region [iid] []]) \<and>
         (i_state info \<notin> {''stopped'', ''running'', ''pending''} \<longrightarrow>
            fst (stop E (Some iid) region0 w) = 1 \<and>
            trace (snd (stop E (Some iid) region0 w))
              = trace w @ map (\<lambda>r. DescribeInstances r [iid] []) (asked E w iid region0)
                  @ [DescribeInstances region [iid] []])"
  unfolding start_with_id [OF assms] stop_with_id [OF assms] by simp

theorem start_and_stop_short_circuit_witness:
  "fst (start demo_env (Some ''i-0a'') (Some ''us-west-2'') demo_world) = 0 \<and>
   trace (snd (start demo_env (Some ''i-0a'') (Some ''us-west-2'') demo_world))
     = [DescribeInstances ''us-west-2'' [''i-0a''] []] \<and>
   fst (stop demo_env (Some ''i-0b'') (Some ''us-west-2'') demo_world) = 0 \<and>
   trace (snd (stop demo_env (Some ''i-0b'') (Some ''us-west-2'') demo_world))
     = [DescribeInstances ''us-west-2'' [''i-0b''] []] \<and>
   fst (stop demo_env (Some ''i-0c'') (Some ''us-west-2'') demo_world) = 1 \<and>
   fst (start demo_env (Some ''i-0c'') (Some ''us-west-2'') demo_world) = 1 \<and>
   trace (snd (stop demo_env (Some ''i-0c'') (Some ''us-west-2'') demo_world))
     = [DescribeInstances ''us-west-2'' [''i-0c''] []]"
proof -
  let ?a = "the (fst (get_instance_info demo_env ''us-west-2'' ''i-0a'' demo_world))"
  let ?b = "the (fst (get_instance_info demo_env ''us-west-2'' ''i-0b'' demo_world))"
  let ?c = "the (fst (get_instance_info demo_env ''us-west-2'' ''i-0c'' demo_world))"
  have a: "fst (get_instance_info demo_env ''us-west-2'' ''i-0a'' demo_world) = Some ?a"
    "i_state ?a = ''running''"
    by (simp_all add: describe_defs demo_defs instance_defs)
  have b: "fst (get_instance_info demo_env ''us-west-2'' ''i-0b'' demo_world) = Some ?b"
    "i_state ?b = ''stopped''"
    by (simp_all add: describe_defs demo_defs instance_defs)
  have c: "fst (get_instance_info demo_env ''us-west-2'' ''i-0c'' demo_world) = Some ?c"
    "i_state ?c = ''shutting-down''"
    by (simp_all add: describe_defs demo_defs instance_defs)
  have ne: "''i-0a'' \<noteq> []" "''i-0b'' \<noteq> []" "''i-0c'' \<noteq> []" by simp_all
  have r: "resolved demo_env demo_world iid (Some ''us-west-2'') = Some ''us-west-2''"
    "asked demo_env demo_world iid (Some ''us-west-2'') = []" for iid
    by (simp_all add: resolved_def asked_def truthy_def)
  have tr: "trace demo_world = []" by (simp add: demo_defs)
  from start_and_stop_short_circuit [OF ne(1) r(1) a(1)]
       start_and_stop_short_circuit [OF ne(2) r(1) b(1)]
       start_and_stop_short_circuit [OF ne(3) r(1) c(1)]
  show ?thesis unfolding a(2) b(2) c(2) tr r(2) by simp
qed

subsection \<open>What a command has logged does not change what it does\<close>

lemma relog_fields:
  "clock (relog T C w) = clock w" "files (relog T C w) = files w"
  "key_pairs (relog T C w) = key_pairs w" "reservations (relog T C w) = reservations w"
  "pw_polls (relog T C w) = pw_polls w" "stack_polls (relog T C w) = stack_polls w"
  "trace (relog T C w) = T @ trace w" "console (relog T C w) = C @ console w"
  by (simp_all add: relog_def)

lemma print_relog:
  "emit l m (relog T C w) = relog T C (emit l m w)"
  "print_success m (relog T C w) = relog T C (print_success m w)"
  "print_error m (relog T C w) = relog T C (print_error m w)"
  "print_warning m (relog T C w) = relog T C (print_warning m w)"
  "print_info m (relog T C w) = relog T C (print_info m w)"
  "print_header m (relog T C w) = relog T C (print_header m w)"
  "print_plain m (relog T C w) = relog T C (print_plain m w)"
  by (simp_all add: print_defs relog_def)

lemma record_call_relog: "record_call r (relog T C w) = relog T C (record_call r w)"
  by (simp add: record_call_def relog_def)

lemma sleep_relog: "sleep E k d (relog T C w) = map_sum id (relog T C) (sleep E k d w)"
  by (simp add: sleep_def record_call_def relog_def)

lemma ec2_get_password_data_relog:
  "ec2_get_password_data E region i (relog T C w) =
     apsnd (relog T C) (ec2_get_password_data E region i w)"
  by (simp add: ec2_get_password_data_def record_call_def relog_def)

lemma read_bytes_relog: "read_bytes E p (relog T C w) = apsnd (relog T C) (read_bytes E p w)"
  by (simp add: read_bytes_def record_call_relog relog_fields split: option.splits)

lemma decrypt_password_relog:
  "decrypt_password E c p (relog T C w) = apsnd (relog T C) (decrypt_password E c p w)"
  by (cases "read_bytes E p w")
     (simp add: decrypt_password_def read_bytes_relog print_relog split: sum.splits)

lemma case_prod_apsnd: "case_prod h (apsnd f p) = case_prod (\<lambda>a b. h a (f b)) p"
  by (cases p) simp

lemma case_sum_map_sum_id: "case_sum l r (map_sum id g x) = case_sum l (\<lambda>b. r (g b)) x"
  by (cases x) simp_all

lemma case_option_map_option: "case_option n s (map_option f x) = case_option n (\<lambda>a. s (f a)) x"
  by (cases x) simp_all

lemmas relog_calls = relog_fields print_relog record_call_relog sleep_relog
  ec2_get_password_data_relog read_bytes_relog decrypt_password_relog
  case_prod_apsnd case_sum_map_sum_id case_option_map_option

lemma password_round_relog:
  "password_round E region i p mw poll t0 (relog T C w) =
     map_sum (apsnd (relog T C)) (relog T C) (password_round E region i p mw poll t0 w)"
  by (simp add: password_round_def relog_calls
           split: prod.splits sum.splits option.splits)

lemma password_loop_round:
  "password_loop E region i p mw poll t0 w =
     (case password_round E region i p mw poll t0 w of
        Inl y \<Rightarrow> Some y
      | Inr w2 \<Rightarrow> password_loop E region i p mw poll t0 w2)"
  by (subst password_loop.simps)
     (auto simp: password_round_def split: prod.splits sum.splits option.splits)

lemma password_loop_relog_some:
  assumes "password_loop E region i p mw poll t0 w = Some y"
  shows "password_loop E region i p mw poll t0 (relog T C w) = Some (apsnd (relog T C) y)"
proof (rule password_loop.raw_induct
    [where P = "\<lambda>E region i p mw poll t0 w y.
       password_loop E region i p mw poll t0 (relog T C w) = Some (apsnd (relog T C) y)",
     OF _ assms], goal_cases)
  case (1 loop E region i p mw poll t0 w y)
  have step: "(case password_round E region i p mw poll t0 w of
                 Inl y' \<Rightarrow> Some y'
               | Inr w2 \<Rightarrow> loop E region i p mw poll t0 w2) = Some y"
    using 1(2) by (auto simp: password_round_def split: prod.splits sum.splits option.splits if_splits)
  show ?case
  proof (cases "password_round E region i p mw poll t0 w")
    case (Inl y')
    with step show ?thesis
      by (subst password_loop_round) (simp add: password_round_relog)
  next
    case (Inr w2)
    with step have "loop E region i p mw poll t0 w2 = Some y" by simp
    from 1(1) [OF this] Inr show ?thesis
      by (subst password_loop_round) (simp add: password_round_relog)
  qed
qed

lemma password_loop_relog_only:
  assumes "password_loop E region i p mw poll t0 v = Some y"
  shows "\<forall>w. v = relog T C w \<longrightarrow>
           (\<exists>y0. password_loop E region i p mw poll t0 w = Some y0 \<and> y = apsnd (relog T C) y0)"
proof (rule password_loop.raw_induct
    [where P = "\<lambda>E region i p mw poll t0 v y. \<forall>w. v = relog T C w \<longrightarrow>
           (\<exists>y0. password_loop E region i p mw poll t0 w = Some y0 \<and> y = apsnd (relog T C) y0)",
     OF _ assms], goal_cases)
  case (1 loop E region i p mw poll t0 v y)
  have step: "(case password_round E region i p mw poll t0 v of
                 Inl y' \<Rightarrow> Some y'
               | Inr w2 \<Rightarrow> loop E region i p mw poll t0 w2) = Some y"
    using 1(2) by (auto simp: password_round_def split: prod.splits sum.splits option.splits if_splits)
  show ?case
  proof (intro allI impI)
    fix w :: world
    assume v: "v = relog T C w"
    show "\<exists>y0. password_loop E region i p mw poll t0 w = Some y0 \<and> y = apsnd (relog T C) y0"
    proof (cases "password_round E region i p mw poll t0 w")
      case (Inl y')
      with step v show ?thesis
        by (subst password_loop_round) (simp add: password_round_relog)
    next
      case (Inr w2)
      with step v have "loop E region i p mw poll t0 (relog T C w2) = Some y"
        by (simp add: password_round_relog)
      from 1(1) [OF this, rule_format, of w2] Inr show ?thesis
        by (subst password_loop_round) simp
    qed
  qed
qed

lemma password_loop_relog:
  "password_loop E region i p mw poll t0 (relog T C w) =
     map_option (apsnd (relog T C)) (password_loop E region i p mw poll t0 w)"
proof (cases "password_loop E region i p mw poll t0 w")
  case (Some y)
  then show ?thesis by (simp add: password_loop_relog_some)
next
  case None
  show ?thesis
  proof (cases "password_loop E region i p mw poll t0 (relog T C w)")
    case n: None
    with None show ?thesis by simp
  next
    case (Some y)
    from password_loop_relog_only [OF this, of T C] None show ?thesis by auto
  qed
qed

lemma get_instance_password_relog:
  "get_instance_password E region i p mw poll (relog T C w) =
     map_option (apsnd (relog T C)) (get_instance_password E region i p mw poll w)"
  by (simp add: get_instance_password_def print_relog relog_fields password_loop_relog)

lemma path_exists_relog: "path_exists p (relog T C w) = path_exists p w"
  by (simp add: path_exists_def relog_fields)

lemma find_key_file_relog:
  "find_key_file E iid info (relog T C w) = apsnd (relog T C) (find_key_file E iid info w)"
  by (simp add: find_key_file_def path_exists_relog print_relog)

lemma show_password_relog:
  "show_password iid info pwd (relog T C w) = relog T C (show_password iid info pwd w)"
  by (simp add: show_password_def print_relog)

lemma password_for_relog:
  "password_for E iid region info (relog T C w) =
     map_option (apsnd (relog T C)) (password_for E iid region info w)"
  by (simp add: password_for_def find_key_file_relog get_instance_password_relog
        show_password_relog print_relog case_prod_apsnd case_option_map_option
      split: prod.splits sum.splits option.splits)

lemma cfn_describe_stacks_relog:
  "cfn_describe_stacks E region sn (relog T C w) =
     apsnd (relog T C) (cfn_describe_stacks E region sn w)"
  by (simp add: cfn_describe_stacks_def record_call_def relog_def)

lemma cfn_describe_stack_events_relog:
  "cfn_describe_stack_events E region sn (relog T C w) =
     apsnd (relog T C) (cfn_describe_stack_events E region sn w)"
  by (simp add: cfn_describe_stack_events_def record_call_relog)

lemma print_event_relog: "print_event e (relog T C w) = relog T C (print_event e w)"
  by (simp add: print_event_def print_relog)

lemma print_events_relog:
  "foldl (\<lambda>w' event. print_event event w') (relog T C w) es =
     relog T C (foldl (\<lambda>w' event. print_event event w') w es)"
  by (induction es arbitrary: w) (simp_all add: print_event_relog)

lemma print_stack_events_relog:
  "print_stack_events E region sn limit (relog T C w) =
     relog T C (print_stack_events E region sn limit w)"
  by (simp add: print_stack_events_def cfn_describe_stack_events_relog print_events_relog
        print_relog case_prod_apsnd split: prod.splits sum.splits)

lemma deletion_round_relog:
  "deletion_round E region sn timeout t0 (relog T C w) =
     map_sum (apsnd (relog T C)) (relog T C) (deletion_round E region sn timeout t0 w)"
  by (simp add: deletion_round_def relog_fields cfn_describe_stacks_relog print_relog
        print_stack_events_relog sleep_relog case_prod_apsnd case_sum_map_sum_id
      split: prod.splits sum.splits exn.splits list.splits)

lemma deletion_loop_round:
  "deletion_loop E region sn timeout t0 w =
     (case deletion_round E region sn timeout t0 w of
        Inl y \<Rightarrow> Some y
      | Inr w2 \<Rightarrow> deletion_loop E region sn timeout t0 w2)"
  by (subst deletion_loop.simps)
     (auto simp: deletion_round_def split: prod.splits sum.splits exn.splits list.splits)

lemma deletion_loop_relog_some:
  assumes "deletion_loop E region sn timeout t0 w = Some y"
  shows "deletion_loop E region sn timeout t0 (relog T C w) = Some (apsnd (relog T C) y)"
proof (rule deletion_loop.raw_induct
    [where P = "\<lambda>E region sn timeout t0 w y.
       deletion_loop E region sn timeout t0 (relog T C w) = Some (apsnd (relog T C) y)",
     OF _ assms], goal_cases)
  case (1 loop E region sn timeout t0 w y)
  have step: "(case deletion_round E region sn timeout t0 w of
                 Inl y' \<Rightarrow> Some y'
               | Inr w2 \<Rightarrow> loop E region sn timeout t0 w2) = Some y"
    using 1(2)
    by (auto simp: deletion_round_def split: prod.splits sum.splits exn.splits list.splits if_splits)
  show ?case
  proof (cases "deletion_round E region sn timeout t0 w")
    case (Inl y')
    with step show ?thesis
      by (subst deletion_loop_round) (simp add: deletion_round_relog)
  next
    case (Inr w2)
    with step have "loop E region sn timeout t0 w2 = Some y" by simp
    from 1(1) [OF this] Inr show ?thesis
      by (subst deletion_loop_round) (simp add: deletion_round_relog)
  qed
qed

lemma deletion_loop_relog_only:
  assumes "deletion_loop E region sn timeout t0 v = Some y"
  shows "\<forall>w. v = relog T C w \<longrightarrow>
           (\<exists>y0. deletion_loop E region sn timeout t0 w = Some y0 \<and> y = apsnd (relog T C) y0)"
proof (rule deletion_loop.raw_induct
    [where P = "\<lambda>E region sn timeout t0 v y. \<forall>w. v = relog T C w \<longrightarrow>
           (\<exists>y0. deletion_loop E region sn timeout t0 w = Some y0 \<and> y = apsnd (relog T C) y0)",
     OF _ assms], goal_cases)
  case (1 loop E region sn timeout t0 v y)
  have step: "(case deletion_round E region sn timeout t0 v of
                 Inl y' \<Rightarrow> Some y'
               | Inr w2 \<Rightarrow> loop E region sn timeout t0 w2) = Some y"
    using 1(2)
    by (auto simp: deletion_round_def split: prod.splits sum.splits exn.splits list.splits if_splits)
  show ?case
  proof (intro allI impI)
    fix w :: world
    assume v: "v = relog T C w"
    show "\<exists>y0. deletion_loop E region sn timeout t0 w = Some y0 \<and> y = apsnd (relog T C) y0"
    proof (cases "deletion_round E region sn timeout t0 w")
      case (Inl y')
      with step v show ?thesis
        by (subst deletion_loop_round) (simp add: deletion_round_relog)
    next
      case (Inr w2)
      with step v have "loop E region sn timeout t0 (relog T C w2) = Some y"
        by (simp add: deletion_round_relog)
      from 1(1) [OF this, rule_format, of w2] Inr show ?thesis
        by (subst deletion_loop_round) simp
    qed
  qed
qed

lemma deletion_loop_relog:
  "deletion_loop E region sn timeout t0 (relog T C w) =
     map_option (apsnd (relog T C)) (deletion_loop E region sn timeout t0 w)"
proof (cases "deletion_loop E region sn timeout t0 w")
  case (Some y)
  then show ?thesis by (simp add: deletion_loop_relog_some)
next
  case None
  show ?thesis
  proof (cases "deletion_loop E region sn timeout t0 (relog T C w)")
    case n: None
    with None show ?thesis by simp
  next
    case (Some y)
    from deletion_loop_relog_only [OF this, of T C] None show ?thesis by auto
  qed
qed

lemma wait_for_stack_deletion_relog:
  "wait_for_stack_deletion E region sn timeout (relog T C w) =
     map_option (apsnd (relog T C)) (wait_for_stack_deletion E region sn timeout w)"
  by (simp add: wait_for_stack_deletion_def print_relog relog_fields deletion_loop_relog)

lemma cfn_delete_stack_relog:
  "cfn_delete_stack E region sn (relog T C w) = apsnd (relog T C) (cfn_delete_stack E region sn w)"
  by (simp add: cfn_delete_stack_def record_call_relog)

lemma delete_stack_relog:
  "delete_stack E region sn wait (relog T C w) =
     map_option (apsnd (relog T C)) (delete_stack E region sn wait w)"
  by (simp add: delete_stack_def cfn_delete_stack_relog wait_for_stack_deletion_relog
        print_relog case_prod_apsnd case_option_map_option
      split: prod.splits sum.splits option.splits)

lemma stack_exists_relog:
  "stack_exists E region sn (relog T C w) = apsnd (relog T C) (stack_exists E region sn w)"
  by (simp add: stack_exists_def cfn_describe_stacks_relog case_prod_apsnd
      split: prod.splits sum.splits exn.splits)

lemma ec2_delete_key_pair_relog:
  "ec2_delete_key_pair E region kn (relog T C w) =
     apsnd (relog T C) (ec2_delete_key_pair E region kn w)"
  by (simp add: ec2_delete_key_pair_def record_call_def relog_def split: option.splits)

lemma unlink_relog: "unlink E p (relog T C w) = apsnd (relog T C) (unlink E p w)"
  by (simp add: unlink_def path_exists_def record_call_def relog_def split: option.splits)

lemma delete_key_pair_relog:
  "delete_key_pair E region kn (relog T C w) = apsnd (relog T C) (delete_key_pair E region kn w)"
  by (simp add: delete_key_pair_def Let_def ec2_delete_key_pair_relog unlink_relog
        path_exists_relog print_relog case_prod_apsnd
      split: prod.splits sum.splits)

lemma remove_key_pair_relog:
  "remove_key_pair E region info (relog T C w) = relog T C (remove_key_pair E region info w)"
  by (simp add: remove_key_pair_def delete_key_pair_relog print_relog)

lemma remove_resources_relog:
  "remove_resources E region info (relog T C w) =
     map_option (apsnd (relog T C)) (remove_resources E region info w)"
  by (simp add: remove_resources_def stack_exists_relog delete_stack_relog
        remove_key_pair_relog print_relog case_prod_apsnd case_option_map_option
      split: prod.splits sum.splits option.splits bool.splits)

lemma warn_termination_relog:
  "warn_termination iid info (relog T C w) = relog T C (warn_termination iid info w)"
  by (simp add: warn_termination_def print_relog)

lemma terminate_for_relog:
  "terminate_for E iid region info yes (relog T C w) =
     map_option (apsnd (relog T C)) (terminate_for E iid region info yes w)"
  by (simp add: terminate_for_def remove_resources_relog warn_termination_relog print_relog)

lemma relog_unlog: "relog (trace w) (console w) (unlog w) = w"
  by (simp add: relog_def unlog_def)

lemma unlog_relog: "unlog (relog T C w) = unlog w"
  by (simp add: relog_def unlog_def)

lemma same_from_unlog:
  assumes comm: "\<And>T C w. g (relog T C w) = map_option (apsnd (relog T C)) (g w)"
    and same: "unlog wa = unlog wb"
  shows "rel_option (\<lambda>a b. fst a = fst b \<and> unlog (snd a) = unlog (snd b) \<and>
            (\<exists>ts. trace (snd a) = trace wa @ ts \<and> trace (snd b) = trace wb @ ts))
           (g wa) (g wb)"
proof -
  have a: "g wa = map_option (apsnd (relog (trace wa) (console wa))) (g (unlog wa))"
    using comm [of "trace wa" "console wa" "unlog wa"] by (simp add: relog_unlog)
  have b: "g wb = map_option (apsnd (relog (trace wb) (console wb))) (g (unlog wa))"
    using comm [of "trace wb" "console wb" "unlog wb"] same by (simp add: relog_unlog)
  show ?thesis
    unfolding a b by (cases "g (unlog wa)") (auto simp: unlog_relog relog_fields)
qed

lemma same_after_probing:
  assumes comm: "\<And>T C w. g (relog T C w) = map_option (apsnd (relog T C)) (g w)"
    and ua: "unlog wa = unlog w" and ub: "unlog wb = unlog w"
    and ta: "trace wa = trace w @ ps @ [c]" and tb: "trace wb = trace w @ [c]"
  shows "rel_option (\<lambda>a b. fst a = fst b \<and>
            trace (snd a) = trace w @ ps @ drop (length (trace w)) (trace (snd b)) \<and>
            unlog (snd a) = unlog (snd b)) (g wa) (g wb)"
proof -
  have "unlog wa = unlog wb" using ua ub by simp
  from same_from_unlog [of g, OF comm this] show ?thesis
    by (rule option.rel_mono_strong) (auto simp: ta tb)
qed

lemma unlog_print:
  "unlog (emit l m w) = unlog w"
  "unlog (print_success m w) = unlog w" "unlog (print_error m w) = unlog w"
  "unlog (print_warning m w) = unlog w" "unlog (print_info m w) = unlog w"
  "unlog (print_header m w) = unlog w" "unlog (print_plain m w) = unlog w"
  by (simp_all add: print_defs unlog_def)

lemma unlog_get_instance_info: "unlog (snd (get_instance_info E region iid w)) = unlog w"
  by (auto simp: get_instance_info_def ec2_describe_instances_def record_call_def print_defs
        unlog_def split: prod.splits sum.splits list.splits option.splits)

lemma unlog_probe_regions: "unlog (snd (probe_regions E rs iid w)) = unlog w"
proof (induction rs arbitrary: w)
  case Nil
  show ?case by simp
next
  case (Cons r rs)
  obtain x w1 where g: "get_instance_info E r iid w = (x, w1)" by force
  with unlog_get_instance_info [of E r iid w] have "unlog w1 = unlog w" by simp
  with Cons [of w1] g show ?case by (cases x) simp_all
qed

lemma unlog_resolve_region: "unlog (snd (resolve_region E iid region0 w)) = unlog w"
  using unlog_probe_regions [of E default_regions iid w]
  by (auto simp: resolve_region_def unlog_print split: prod.splits option.splits)

lemma instance_read_keeps_world:
  assumes "resolve_region E iid region0 (print_header h w) = (x, w2)"
    and "get_instance_info E region iid w2 = (y, w3)"
  shows "unlog w3 = unlog w"
  using assms unlog_resolve_region [of E iid region0 "print_header h w"]
    unlog_get_instance_info [of E region iid w2]
  by (simp add: unlog_print)

lemma password_with_id:
  assumes "iid \<noteq> []" and res: "resolved E w iid region0 = Some region"
    and info: "fst (get_instance_info E region iid w) = Some info"
  shows "\<exists>w3. password E (Some iid) region0 w = password_for E iid region info w3 \<and>
           trace w3 = trace w @ map (\<lambda>r. DescribeInstances r [iid] []) (asked E w iid region0)
                        @ [DescribeInstances region [iid] []] \<and>
           unlog w3 = unlog w"
proof -
  let ?h = "print_header ''WinAWS - Get Instance Password'' w"
  have "reservations ?h = reservations w" by (simp add: print_defs)
  from command_reads_instance [OF res info this] obtain w2 w3 where
    rr: "resolve_region E iid region0 ?h = (Inr region, w2)"
    and g: "get_instance_info E region iid w2 = (Some info, w3)"
    and t: "trace w3 = trace w @ map (\<lambda>r. DescribeInstances r [iid] []) (asked E w iid region0)
                        @ [DescribeInstances region [iid] []]"
    by (auto simp: print_defs)
  have "password E (Some iid) region0 w = password_for E iid region info w3"
    using assms(1) rr g by (simp add: password_def password_for_def choose_instance_def truthy_def)
  with t instance_read_keeps_world [OF rr g] show ?thesis by blast
qed

lemma terminate_with_id:
  assumes "iid \<noteq> []" and res: "resolved E w iid region0 = Some region"
    and info: "fst (get_instance_info E region iid w) = Some info"
  shows "\<exists>w3. terminate E (Some iid) region0 yes w = terminate_for E iid region info yes w3 \<and>
           trace w3 = trace w @ map (\<lambda>r. DescribeInstances r [iid] []) (asked E w iid region0)
                        @ [DescribeInstances region [iid] []] \<and>
           unlog w3 = unlog w"
proof -
  let ?h = "print_header ''WinAWS - Terminate Instance'' w"
  have "reservations ?h = reservations w" by (simp add: print_defs)
  from command_reads_instance [OF res info this] obtain w2 w3 where
    rr: "resolve_region E iid region0 ?h = (Inr region, w2)"
    and g: "get_instance_info E region iid w2 = (Some info, w3)"
    and t: "trace w3 = trace w @ map (\<lambda>r. DescribeInstances r [iid] []) (asked E w iid region0)
                        @ [DescribeInstances region [iid] []]"
    by (auto simp: print_defs)
  have "terminate E (Some iid) region0 yes w = terminate_for E iid region info yes w3"
    using assms(1) rr g
    by (simp add: terminate_def terminate_for_def choose_instance_def truthy_def)
  with t instance_read_keeps_world [OF rr g] show ?thesis by blast
qed

lemma print_summary_trace: "trace (print_summary items w) = trace w"
  unfolding print_summary_def
  by (induction items arbitrary: w) (simp_all add: print_defs)

lemma show_status_trace: "trace (show_status iid region info w) = trace w"
  by (simp add: show_status_def Let_def print_summary_trace print_defs)

lemma status_with_id:
  assumes "iid \<noteq> []" and res: "resolved E w iid region0 = Some region"
    and info: "fst (get_instance_info E region iid w) = Some info"
  shows "fst (status E (Some iid) region0 w) = 0"
    and "trace (snd (status E (Some iid) region0 w)) =
           trace w @ map (\<lambda>r. DescribeInstances r [iid] []) (asked E w iid region0)
             @ [DescribeInstances region [iid] []]"
proof -
  let ?h = "print_header ''WinAWS - Instance Status'' w"
  have "reservations ?h = reservations w" by (simp add: print_defs)
  from command_reads_instance [OF res info this] obtain w2 w3 where
    rr: "resolve_region E iid region0 ?h = (Inr region, w2)"
    and g: "get_instance_info E region iid w2 = (Some info, w3)"
    and t: "trace w3 = trace w @ map (\<lambda>r. DescribeInstances r [iid] []) (asked E w iid region0)
                        @ [DescribeInstances region [iid] []]"
    by (auto simp: print_defs)
  have st: "status E (Some iid) region0 w = (0, show_status iid region info w3)"
    using assms(1) rr g by (simp add: status_def choose_instance_def truthy_def)
  show "fst (status E (Some iid) region0 w) = 0" unfolding st by simp
  show "trace (snd (status E (Some iid) region0 w)) =
           trace w @ map (\<lambda>r. DescribeInstances r [iid] []) (asked E w iid region0)
             @ [DescribeInstances region [iid] []]"
    unfolding st using t by (simp add: show_status_trace)
qed

lemma probe_found:
  assumes f: "find (knows E w iid) default_regions = Some r"
  shows "\<exists>info. fst (get_instance_info E r iid w) = Some info"
    and "resolved E w iid None = Some r"
    and "resolved E w iid (Some r) = Some r"
    and "asked E w iid None = probed (knows E w iid) default_regions"
    and "asked E w iid (Some r) = []"
proof -
  from f have "knows E w iid r" by (auto simp: find_Some_iff)
  then show "\<exists>info. fst (get_instance_info E r iid w) = Some info" by (auto simp: knows_def)
  have tr: "truthy (Some r)" using default_region_not_empty [OF f] by (simp add: truthy_def)
  show "resolved E w iid None = Some r" using f by (simp add: resolved_def truthy_def)
  show "resolved E w iid (Some r) = Some r" using tr by (simp add: resolved_def)
  show "asked E w iid None = probed (knows E w iid) default_regions"
    by (simp add: asked_def truthy_def)
  show "asked E w iid (Some r) = []" using tr by (simp add: asked_def)
qed

lemma password_after_probing:
  assumes "iid \<noteq> []" and f: "find (knows E w iid) default_regions = Some r"
  shows "rel_option (\<lambda>a b. fst a = fst b \<and>
            trace (snd a) = trace w @ map (\<lambda>r. DescribeInstances r [iid] [])
                                         (probed (knows E w iid) default_regions)
                              @ drop (length (trace w)) (trace (snd b)) \<and>
            unlog (snd a) = unlog (snd b))
           (password E (Some iid) None w) (password E (Some iid) (Some r) w)"
proof -
  note p = probe_found [OF f]
  from p(1) obtain info where info: "fst (get_instance_info E r iid w) = Some info" by blast
  from password_with_id [OF assms(1) p(2) info] obtain wa where
    a: "password E (Some iid) None w = password_for E iid r info wa"
    and ta: "trace wa = trace w @ map (\<lambda>r. DescribeInstances r [iid] [])
                                    (probed (knows E w iid) default_regions)
                         @ [DescribeInstances r [iid] []]"
    and ua: "unlog wa = unlog w"
    unfolding p(4) by blast
  from password_with_id [OF assms(1) p(3) info] obtain wb where
    b: "password E (Some iid) (Some r) w = password_for E iid r info wb"
    and tb: "trace wb = trace w @ [DescribeInstances r [iid] []]"
    and ub: "unlog wb = unlog w"
    unfolding p(5) by auto
  show ?thesis
    unfolding a b
    by (rule same_after_probing [of "password_for E iid r info", OF password_for_relog ua ub ta tb])
qed

lemma terminate_after_probing:
  assumes "iid \<noteq> []" and f: "find (knows E w iid) default_regions = Some r"
  shows "rel_option (\<lambda>a b. fst a = fst b \<and>
            trace (snd a) = trace w @ map (\<lambda>r. DescribeInstances r [iid] [])
                                         (probed (knows E w iid) default_regions)
                              @ drop (length (trace w)) (trace (snd b)) \<and>
            unlog (snd a) = unlog (snd b))
           (terminate E (Some iid) None yes w) (terminate E (Some iid) (Some r) yes w)"
proof -
  note p = probe_found [OF f]
  from p(1) obtain info where info: "fst (get_instance_info E r iid w) = Some info" by blast
  from terminate_with_id [OF assms(1) p(2) info, of yes] obtain wa where
    a: "terminate E (Some iid) None yes w = terminate_for E iid r info yes wa"
    and ta: "trace wa = trace w @ map (\<lambda>r. DescribeInstances r [iid] [])
                                    (probed (knows E w iid) default_regions)
                         @ [DescribeInstances r [iid] []]"
    and ua: "unlog wa = unlog w"
    unfolding p(4) by blast
  from terminate_with_id [OF assms(1) p(3) info, of yes] obtain wb where
    b: "terminate E (Some iid) (Some r) yes w = terminate_for E iid r info yes wb"
    and tb: "trace wb = trace w @ [DescribeInstances r [iid] []]"
    and ub: "unlog wb = unlog w"
    unfolding p(5) by auto
  show ?thesis
    unfolding a b
    by (rule same_after_probing [of "terminate_for E iid r info yes",
          OF terminate_for_relog ua ub ta tb])
qed

lemma start_after_probing:
  assumes "iid \<noteq> []" and f: "find (knows E w iid) default_regions = Some r"
  shows "fst (start E (Some iid) None w) = fst (start E (Some iid) (Some r) w)"
    and "trace (snd (start E (Some iid) None w)) =
           trace w @ map (\<lambda>r. DescribeInstances r [iid] []) (probed (knows E w iid) default_regions)
             @ drop (length (trace w)) (trace (snd (start E (Some iid) (Some r) w)))"
proof -
  note p = probe_found [OF f]
  from p(1) obtain info where info: "fst (get_instance_info E r iid w) = Some info" by blast
  show "fst (start E (Some iid) None w) = fst (start E (Some iid) (Some r) w)"
    unfolding start_with_id [OF assms(1) p(2) info] start_with_id [OF assms(1) p(3) info]
    by simp
  show "trace (snd (start E (Some iid) None w)) =
           trace w @ map (\<lambda>r. DescribeInstances r [iid] []) (probed (knows E w iid) default_regions)
             @ drop (length (trace w)) (trace (snd (start E (Some iid) (Some r) w)))"
    unfolding start_with_id [OF assms(1) p(2) info] start_with_id [OF assms(1) p(3) info]
      p(4) p(5)
    by simp
qed

lemma stop_after_probing:
  assumes "iid \<noteq> []" and f: "find (knows E w iid) default_regions = Some r"
  shows "fst (stop E (Some iid) None w) = fst (stop E (Some iid) (Some r) w)"
    and "trace (snd (stop E (Some iid) None w)) =
           trace w @ map (\<lambda>r. DescribeInstances r [iid] []) (probed (knows E w iid) default_regions)
             @ drop (length (trace w)) (trace (snd (stop E (Some iid) (Some r) w)))"
proof -
  note p = probe_found [OF f]
  from p(1) obtain info where info: "fst (get_instance_info E r iid w) = Some info" by blast
  show "fst (stop E (Some iid) None w) = fst (stop E (Some iid) (Some r) w)"
    unfolding stop_with_id [OF assms(1) p(2) info] stop_with_id [OF assms(1) p(3) info]
    by simp
  show "trace (snd (stop E (Some iid) None w)) =
           trace w @ map (\<lambda>r. DescribeInstances r [iid] []) (probed (knows E w iid) default_regions)
             @ drop (length (trace w)) (trace (snd (stop E (Some iid) (Some r) w)))"
    unfolding stop_with_id [OF assms(1) p(2) info] stop_with_id [OF assms(1) p(3) info]
      p(4) p(5)
    by simp
qed

lemma status_after_probing:
  assumes "iid \<noteq> []" and f: "find (knows E w iid) default_regions = Some r"
  shows "fst (status E (Some iid) None w) = fst (status E (Some iid) (Some r) w)"
    and "trace (snd (status E (Some iid) None w)) =
           trace w @ map (\<lambda>r. DescribeInstances r [iid] []) (probed (knows E w iid) default_regions)
             @ drop (length (trace w)) (trace (snd (status E (Some iid) (Some r) w)))"
proof -
  note p = probe_found [OF f]
  from p(1) obtain info where info: "fst (get_instance_info E r iid w) = Some info" by blast
  show "fst (status E (Some iid) None w) = fst (status E (Some iid) (Some r) w)"
    unfolding status_with_id [OF assms(1) p(2) info] status_with_id [OF assms(1) p(3) info]
    by simp
  show "trace (snd (status E (Some iid) None w)) =
           trace w @ map (\<lambda>r. DescribeInstances r [iid] []) (probed (knows E w iid) default_regions)
             @ drop (length (trace w)) (trace (snd (status E (Some iid) (Some r) w)))"
    unfolding status_with_id [OF assms(1) p(2) info] status_with_id [OF assms(1) p(3) info]
      p(4) p(5)
    by simp
qed

lemma resolve_region_fails:
  assumes nf: "find (knows E w iid) default_regions = None"
  shows "\<exists>w2. resolve_region E iid None (print_header h w) = (Inl 1, w2) \<and>
           trace w2 = trace w @ map (\<lambda>r. DescribeInstances r [iid] []) default_regions"
proof -
  have same: "reservations (print_header h w) = reservations w" by (simp add: print_defs)
  have "resolved E w iid None = None" "asked E w iid None = default_regions"
    using nf by (simp_all add: resolved_def asked_def truthy_def probed_none)
  with resolve_region_result(1,2) [OF same, of E iid None]
  have "fst (resolve_region E iid None (print_header h w)) = Inl 1"
    "trace (snd (resolve_region E iid None (print_header h w))) =
       trace w @ map (\<lambda>r. DescribeInstances r [iid] []) default_regions"
    by (simp_all add: print_defs)
  then show ?thesis by (cases "resolve_region E iid None (print_header h w)") simp
qed

lemma commands_without_region_found:
  assumes "iid \<noteq> []" and nf: "find (knows E w iid) default_regions = None"
  shows "fst (start E (Some iid) None w) = 1"
    and "trace (snd (start E (Some iid) None w)) =
           trace w @ map (\<lambda>r. DescribeInstances r [iid] []) default_regions"
    and "fst (stop E (Some iid) None w) = 1"
    and "trace (snd (stop E (Some iid) None w)) =
           trace w @ map (\<lambda>r. DescribeInstances r [iid] []) default_regions"
    and "fst (status E (Some iid) None w) = 1"
    and "trace (snd (status E (Some iid) None w)) =
           trace w @ map (\<lambda>r. DescribeInstances r [iid] []) default_regions"
    and "map_option fst (password E (Some iid) None w) = Some 1"
    and "map_option (trace \<circ> snd) (password E (Some iid) None w) =
           Some (trace w @ map (\<lambda>r. DescribeInstances r [iid] []) default_regions)"
    and "map_option fst (terminate E (Some iid) None yes w) = Some 1"
    and "map_option (trace \<circ> snd) (terminate E (Some iid) None yes w) =
           Some (trace w @ map (\<lambda>r. DescribeInstances r [iid] []) default_regions)"
proof -
  from resolve_region_fails [OF nf, of "''WinAWS - Start Instance''"]
       resolve_region_fails [OF nf, of "''WinAWS - Stop Instance''"]
       resolve_region_fails [OF nf, of "''WinAWS - Instance Status''"]
       resolve_region_fails [OF nf, of "''WinAWS - Get Instance Password''"]
       resolve_region_fails [OF nf, of "''WinAWS - Terminate Instance''"]
  obtain ws wt wu wp wx where
    "resolve_region E iid None (print_header ''WinAWS - Start Instance'' w) = (Inl 1, ws)"
    "trace ws = trace w @ map (\<lambda>r. DescribeInstances r [iid] []) default_regions"
    "resolve_region E iid None (print_header ''WinAWS - Stop Instance'' w) = (Inl 1, wt)"
    "trace wt = trace w @ map (\<lambda>r. DescribeInstances r [iid] []) default_regions"
    "resolve_region E iid None (print_header ''WinAWS - Instance Status'' w) = (Inl 1, wu)"
    "trace wu = trace w @ map (\<lambda>r. DescribeInstances r [iid] []) default_regions"
    "resolve_region E iid None (print_header ''WinAWS - Get Instance Password'' w) = (Inl 1, wp)"
    "trace wp = trace w @ map (\<lambda>r. DescribeInstances r [iid] []) default_regions"
    "resolve_region E iid None (print_header ''WinAWS - Terminate Instance'' w) = (Inl 1, wx)"
    "trace wx = trace w @ map (\<lambda>r. DescribeInstances r [iid] []) default_regions"
    by blast
  then show "fst (start E (Some iid) None w) = 1"
    and "trace (snd (start E (Some iid) None w)) =
           trace w @ map (\<lambda>r. DescribeInstances r [iid] []) default_regions"
    and "fst (stop E (Some iid) None w) = 1"
    and "trace (snd (stop E (Some iid) None w)) =
           trace w @ map (\<lambda>r. DescribeInstances r [iid] []) default_regions"
    and "fst (status E (Some iid) None w) = 1"
    and "trace (snd (status E (Some iid) None w)) =
           trace w @ map (\<lambda>r. DescribeInstances r [iid] []) default_regions"
    and "map_option fst (password E (Some iid) None w) = Some 1"
    and "map_option (trace \<circ> snd) (password E (Some iid) None w) =
           Some (trace w @ map (\<lambda>r. DescribeInstances r [iid] []) default_regions)"
    and "map_option fst (terminate E (Some iid) None yes w) = Some 1"
    and "map_option (trace \<circ> snd) (terminate E (Some iid) None yes w) =
           Some (trace w @ map (\<lambda>r. DescribeInstances r [iid] []) default_regions)"
    using assms(1)
    by (simp_all add: start_def stop_def status_def password_def terminate_def
          choose_instance_def truthy_def)
qed

lemma commands_without_instance:
  assumes "\<not> truthy iid0"
  shows "fst (start E iid0 None w) = 1" and "trace (snd (start E iid0 None w)) = trace w"
    and "fst (stop E iid0 None w) = 1" and "trace (snd (stop E iid0 None w)) = trace w"
    and "fst (status E iid0 None w) = 1" and "trace (snd (status E iid0 None w)) = trace w"
    and "map_option fst (password E iid0 None w) = Some 1"
    and "map_option (trace \<circ> snd) (password E iid0 None w) = Some (trace w)"
    and "map_option fst (terminate E iid0 None yes w) = Some 1"
    and "map_option (trace \<circ> snd) (terminate E iid0 None yes w) = Some (trace w)"
proof -
  have nt: "\<not> truthy None" by (simp add: truthy_def)
  with assms show "fst (start E iid0 None w) = 1" and "trace (snd (start E iid0 None w)) = trace w"
    and "fst (stop E iid0 None w) = 1" and "trace (snd (stop E iid0 None w)) = trace w"
    and "fst (status E iid0 None w) = 1" and "trace (snd (status E iid0 None w)) = trace w"
    and "map_option fst (password E iid0 None w) = Some 1"
    and "map_option (trace \<circ> snd) (password E iid0 None w) = Some (trace w)"
    and "map_option fst (terminate E iid0 None yes w) = Some 1"
    and "map_option (trace \<circ> snd) (terminate E iid0 None yes w) = Some (trace w)"
    by (simp_all add: start_def stop_def status_def password_def terminate_def
          choose_instance_def print_defs)
qed

lemmas command_run_defs = choose_instance_def resolve_region_def truthy_def describe_defs
  demo_defs instance_defs find_key_file_def get_key_path_def path_exists_def run_defs
  show_password_def tag_or_def or_na_def default_regions_def

lemmas terminate_run_defs = terminate_def terminate_for_def remove_resources_def
  remove_key_pair_def stack_exists_def delete_stack_def cfn_delete_stack_def
  wait_for_stack_deletion_def cfn_describe_stacks_def delete_key_pair_def
  ec2_delete_key_pair_def unlink_def quoted_def confirm_action_def warn_termination_def

subsection \<open>Resolving the region\<close>

text \<open>
  C8, as stated, fails for an invocation that gives no region and no instance id either:
  \<open>start\<close> exits with status 1 (\<open>Region required when selecting from list\<close>) and probes
  nothing, although a default region knows a managed instance.
\<close>

theorem no_region_and_no_instance_is_not_probed:
  "fst (start demo_env None None demo_world) = 1 \<and>
   trace (snd (start demo_env None None demo_world)) = [] \<and>
   knows demo_env demo_world ''i-0a'' ''us-west-2''"
  by (simp add: start_def choose_instance_def truthy_def print_defs knows_def
        describe_defs demo_defs instance_defs)

text \<open>
  C8, amended. For an invocation of a command that takes an instance id (\<open>start\<close>,
  \<open>stop\<close>, \<open>status\<close>, \<open>terminate\<close>, \<open>password\<close>) that gives an instance id and no region,
  the region is resolved by asking the fixed list \<open>us-east-1\<close>, \<open>us-west-2\<close>, \<open>eu-west-1\<close>,
  \<open>ap-southeast-1\<close> in this order for the instance: the region is the first that knows
  it, the regions after it are not asked, and the command then does what it does when
  given that region: it exits with the same status, after the probes it issues the same
  calls, and (\<open>password\<close>, \<open>terminate\<close>) it returns exactly when the other returns and
  leaves the same world apart from the logs. When none of the four knows the instance the
  command exits with status 1 after asking all four. An invocation that gives neither a
  region nor an instance id exits with status 1 without any call.
\<close>

theorem region_is_probed_in_fixed_order:
  assumes "iid \<noteq> []"
  shows "fst (resolve_region E iid None w) =
           (case find (knows E w iid) default_regions of None \<Rightarrow> Inl 1 | Some r \<Rightarrow> Inr r) \<and>
         trace (snd (resolve_region E iid None w)) =
           trace w @ map (\<lambda>r. DescribeInstances r [iid] []) (probed (knows E w iid) default_regions) \<and>
         (\<forall>r. find (knows E w iid) default_regions = Some r \<longrightarrow>
            fst (start E (Some iid) None w) = fst (start E (Some iid) (Some r) w) \<and>
            trace (snd (start E (Some iid) None w)) =
              trace w @ map (\<lambda>r. DescribeInstances r [iid] []) (probed (knows E w iid) default_regions)
                @ drop (length (trace w)) (trace (snd (start E (Some iid) (Some r) w))) \<and>
            fst (stop E (Some iid) None w) = fst (stop E (Some iid) (Some r) w) \<and>
            trace (snd (stop E (Some iid) None w)) =
              trace w @ map (\<lambda>r. DescribeInstances r [iid] []) (probed (knows E w iid) default_regions)
                @ drop (length (trace w)) (trace (snd (stop E (Some iid) (Some r) w))) \<and>
            fst (status E (Some iid) None w) = fst (status E (Some iid) (Some r) w) \<and>
            trace (snd (status E (Some iid) None w)) =
              trace w @ map (\<lambda>r. DescribeInstances r [iid] []) (probed (knows E w iid) default_regions)
                @ drop (length (trace w)) (trace (snd (status E (Some iid) (Some r) w))) \<and>
            rel_option (\<lambda>a b. fst a = fst b \<and>
                trace (snd a) = trace w @ map (\<lambda>r. DescribeInstances r [iid] [])
                                             (probed (knows E w iid) default_regions)
                                  @ drop (length (trace w)) (trace (snd b)) \<and>
                unlog (snd a) = unlog (snd b))
              (password E (Some iid) None w) (password E (Some iid) (Some r) w) \<and>
            (\<forall>yes. rel_option (\<lambda>a b. fst a = fst b \<and>
                trace (snd a) = trace w @ map (\<lambda>r. DescribeInstances r [iid] [])
                                             (probed (knows E w iid) default_regions)
                                  @ drop (length (trace w)) (trace (snd b)) \<and>
                unlog (snd a) = unlog (snd b))
              (terminate E (Some iid) None yes w) (terminate E (Some iid) (Some r) yes w))) \<and>
         (find (knows E w iid) default_regions = None \<longrightarrow>
            fst (start E (Some iid) None w) = 1 \<and>
            trace (snd (start E (Some iid) None w)) =
              trace w @ map (\<lambda>r. DescribeInstances r [iid] []) default_regions \<and>
            fst (stop E (Some iid) None w) = 1 \<and>
            trace (snd (stop E (Some iid) None w)) =
              trace w @ map (\<lambda>r. DescribeInstances r [iid] []) default_regions \<and>
            fst (status E (Some iid) None w) = 1 \<and>
            trace (snd (status E (Some iid) None w)) =
              trace w @ map (\<lambda>r. DescribeInstances r [iid] []) default_regions \<and>
            map_option fst (password E (Some iid) None w) = Some 1 \<and>
            map_option (trace \<circ> snd) (password E (Some iid) None w) =
              Some (trace w @ map (\<lambda>r. DescribeInstances r [iid] []) default_regions) \<and>
            (\<forall>yes. map_option fst (terminate E (Some iid) None yes w) = Some 1 \<and>
               map_option (trace \<circ> snd) (terminate E (Some iid) None yes w) =
                 Some (trace w @ map (\<lambda>r. DescribeInstances r [iid] []) default_regions))) \<and>
         (\<forall>iid0. \<not> truthy iid0 \<longrightarrow>
            fst (start E iid0 None w) = 1 \<and> trace (snd (start E iid0 None w)) = trace w \<and>
            fst (stop E iid0 None w) = 1 \<and> trace (snd (stop E iid0 None w)) = trace w \<and>
            fst (status E iid0 None w) = 1 \<and> trace (snd (status E iid0 None w)) = trace w \<and>
            map_option fst (password E iid0 None w) = Some 1 \<and>
            map_option (trace \<circ> snd) (password E iid0 None w) = Some (trace w) \<and>
            (\<forall>yes. map_option fst (terminate E iid0 None yes w) = Some 1 \<and>
               map_option (trace \<circ> snd) (terminate E iid0 None yes w) = Some (trace w)))"
proof -
  have nt: "\<not> truthy None" by (simp add: truthy_def)
  have rn: "resolved E w iid None = find (knows E w iid) default_regions"
    and an: "asked E w iid None = probed (knows E w iid) default_regions"
    by (simp_all add: resolved_def asked_def nt)
  note r = resolve_region_result(1,2) [of w w E iid None, OF refl, unfolded rn an]
  note found = start_after_probing [OF assms] stop_after_probing [OF assms]
    status_after_probing [OF assms] password_after_probing [OF assms]
    terminate_after_probing [OF assms]
  note none = commands_without_region_found [OF assms]
  note noid = commands_without_instance
  show ?thesis
    by (intro conjI allI impI)
       (rule r | (rule found, assumption) | (rule none, assumption) | (rule noid, assumption))+
qed

theorem region_is_probed_in_fixed_order_witness:
  "''i-0a'' \<noteq> [] \<and>
   fst (resolve_region demo_env ''i-0a'' None demo_world) = Inr ''us-west-2'' \<and>
   trace (snd (resolve_region demo_env ''i-0a'' None demo_world)) =
     [DescribeInstances ''us-east-1'' [''i-0a''] [], DescribeInstances ''us-west-2'' [''i-0a''] []] \<and>
   fst (start demo_env (Some ''i-0a'') None demo_world)
     = fst (start demo_env (Some ''i-0a'') (Some ''us-west-2'') demo_world) \<and>
   fst (start demo_env (Some ''i-zz'') None demo_world) = 1 \<and>
   trace (snd (start demo_env (Some ''i-zz'') None demo_world)) =
     [DescribeInstances ''us-east-1'' [''i-zz''] [], DescribeInstances ''us-west-2'' [''i-zz''] [],
      DescribeInstances ''eu-west-1'' [''i-zz''] [],
      DescribeInstances ''ap-southeast-1'' [''i-zz''] []] \<and>
   fst (status demo_env (Some ''i-0a'') None demo_world) = 0 \<and>
   trace (snd (status demo_env (Some ''i-0a'') None demo_world)) =
     [DescribeInstances ''us-east-1'' [''i-0a''] [], DescribeInstances ''us-west-2'' [''i-0a''] [],
      DescribeInstances ''us-west-2'' [''i-0a''] []] \<and>
   map_option fst (password demo_env (Some ''i-0a'') None demo_world) = Some 0 \<and>
   map_option (trace \<circ> snd) (password demo_env (Some ''i-0a'') None demo_world) =
     Some [DescribeInstances ''us-east-1'' [''i-0a''] [], DescribeInstances ''us-west-2'' [''i-0a''] [],
           DescribeInstances ''us-west-2'' [''i-0a''] [],
           GetPasswordData ''us-west-2'' ''i-0a'', Sleep 10,
           GetPasswordData ''us-west-2'' ''i-0a'', Sleep 10,
           GetPasswordData ''us-west-2'' ''i-0a'', ReadBytes demo_key_path] \<and>
   map_option fst (terminate demo_env (Some ''i-0a'') None True demo_world) = Some 0 \<and>
   map_option (trace \<circ> snd) (terminate demo_env (Some ''i-0a'') None True demo_world) =
     Some [DescribeInstances ''us-east-1'' [''i-0a''] [], DescribeInstances ''us-west-2'' [''i-0a''] [],
           DescribeInstances ''us-west-2'' [''i-0a''] [],
           DescribeStacks ''us-west-2'' ''winaws-demo'', DeleteStack ''us-west-2'' ''winaws-demo'',
           DescribeStacks ''us-west-2'' ''winaws-demo'',
           DeleteKeyPair ''us-west-2'' ''winaws-demo'', Unlink demo_key_path] \<and>
   \<not> truthy (Some []) \<and>
   fst (status demo_env (Some []) None demo_world) = 1 \<and>
   trace (snd (status demo_env (Some []) None demo_world)) = [] \<and>
   map_option fst (terminate demo_env (Some []) None True demo_world) = Some 1 \<and>
   map_option (trace \<circ> snd) (terminate demo_env (Some []) None True demo_world) = Some []"
proof -
  have k: "knows demo_env demo_world ''i-0a'' r \<longleftrightarrow> r = ''us-west-2''" for r
    by (simp add: knows_def describe_defs demo_defs instance_defs)
  have z: "\<not> knows demo_env demo_world ''i-zz'' r" for r
    by (simp add: knows_def describe_defs demo_defs instance_defs)
  have fa: "find (knows demo_env demo_world ''i-0a'') default_regions = Some ''us-west-2''"
    and pa: "probed (knows demo_env demo_world ''i-0a'') default_regions = [''us-east-1'', ''us-west-2'']"
    and fz: "find (knows demo_env demo_world ''i-zz'') default_regions = None"
    by (simp_all add: k z default_regions_def probed_def)
  have tr: "trace demo_world = []" by (simp add: demo_defs)
  have ne: "''i-0a'' \<noteq> []" "''i-zz'' \<noteq> []" by simp_all
  have st: "fst (status demo_env (Some ''i-0a'') (Some ''us-west-2'') demo_world) = 0"
    "trace (snd (status demo_env (Some ''i-0a'') (Some ''us-west-2'') demo_world)) =
       [DescribeInstances ''us-west-2'' [''i-0a''] []]"
    by (simp_all add: status_def command_run_defs show_status_trace)
  obtain wp where pw: "password demo_env (Some ''i-0a'') (Some ''us-west-2'') demo_world = Some (0, wp)"
    and pt: "trace wp = [DescribeInstances ''us-west-2'' [''i-0a''] [],
           GetPasswordData ''us-west-2'' ''i-0a'', Sleep 10,
           GetPasswordData ''us-west-2'' ''i-0a'', Sleep 10,
           GetPasswordData ''us-west-2'' ''i-0a'', ReadBytes demo_key_path]"
    by (simp add: password_def password_loop.simps command_run_defs)
  obtain wt where tm: "terminate demo_env (Some ''i-0a'') (Some ''us-west-2'') True demo_world = Some (0, wt)"
    and tt: "trace wt = [DescribeInstances ''us-west-2'' [''i-0a''] [],
           DescribeStacks ''us-west-2'' ''winaws-demo'', DeleteStack ''us-west-2'' ''winaws-demo'',
           DescribeStacks ''us-west-2'' ''winaws-demo'',
           DeleteKeyPair ''us-west-2'' ''winaws-demo'', Unlink demo_key_path]"
    by (simp add: terminate_run_defs deletion_loop.simps command_run_defs)
  note a = region_is_probed_in_fixed_order [OF ne(1), of demo_env demo_world, unfolded fa pa tr]
  note b = region_is_probed_in_fixed_order [OF ne(2), of demo_env demo_world, unfolded fz tr]
  from a have p: "rel_option (\<lambda>a b. fst a = fst b \<and>
       trace (snd a) = [] @ map (\<lambda>r. DescribeInstances r [''i-0a''] []) [''us-east-1'', ''us-west-2'']
                         @ drop (length ([]::request list)) (trace (snd b)) \<and>
       unlog (snd a) = unlog (snd b))
     (password demo_env (Some ''i-0a'') None demo_world)
     (password demo_env (Some ''i-0a'') (Some ''us-west-2'') demo_world)"
    by simp
  from a have t: "rel_option (\<lambda>a b. fst a = fst b \<and>
       trace (snd a) = [] @ map (\<lambda>r. DescribeInstances r [''i-0a''] []) [''us-east-1'', ''us-west-2'']
                         @ drop (length ([]::request list)) (trace (snd b)) \<and>
       unlog (snd a) = unlog (snd b))
     (terminate demo_env (Some ''i-0a'') None True demo_world)
     (terminate demo_env (Some ''i-0a'') (Some ''us-west-2'') True demo_world)"
    by simp
  have p': "map_option fst (password demo_env (Some ''i-0a'') None demo_world) = Some 0 \<and>
     map_option (trace \<circ> snd) (password demo_env (Some ''i-0a'') None demo_world) =
     Some [DescribeInstances ''us-east-1'' [''i-0a''] [], DescribeInstances ''us-west-2'' [''i-0a''] [],
           DescribeInstances ''us-west-2'' [''i-0a''] [],
           GetPasswordData ''us-west-2'' ''i-0a'', Sleep 10,
           GetPasswordData ''us-west-2'' ''i-0a'', Sleep 10,
           GetPasswordData ''us-west-2'' ''i-0a'', ReadBytes demo_key_path]"
    using p unfolding pw by (cases "password demo_env (Some ''i-0a'') None demo_world") (auto simp: pt)
  have t': "map_option fst (terminate demo_env (Some ''i-0a'') None True demo_world) = Some 0 \<and>
     map_option (trace \<circ> snd) (terminate demo_env (Some ''i-0a'') None True demo_world) =
     Some [DescribeInstances ''us-east-1'' [''i-0a''] [], DescribeInstances ''us-west-2'' [''i-0a''] [],
           DescribeInstances ''us-west-2'' [''i-0a''] [],
           DescribeStacks ''us-west-2'' ''winaws-demo'', DeleteStack ''us-west-2'' ''winaws-demo'',
           DescribeStacks ''us-west-2'' ''winaws-demo'',
           DeleteKeyPair ''us-west-2'' ''winaws-demo'', Unlink demo_key_path]"
    using t unfolding tm by (cases "terminate demo_env (Some ''i-0a'') None True demo_world") (auto simp: tt)
  have nt: "\<not> truthy (Some [])" by (simp add: truthy_def)
  from a nt have c: "fst (status demo_env (Some []) None demo_world) = 1 \<and>
     trace (snd (status demo_env (Some []) None demo_world)) = [] \<and>
     map_option fst (terminate demo_env (Some []) None True demo_world) = Some 1 \<and>
     map_option (trace \<circ> snd) (terminate demo_env (Some []) None True demo_world) = Some []"
    by blast
  from a b st p' t' ne(1) nt c show ?thesis by (simp add: default_regions_def)
qed

subsection \<open>A registered key pair without its file\<close>

text \<open>
  C5, as stated, fails: with the name registered at the provider and no local file,
  \<open>create_key_pair\<close> does not fail, it returns the path.
\<close>

theorem create_key_pair_replaces_registration_without_file:
  "(''us-west-2'', ''winaws-demo'') \<in> key_pairs keyless_world \<and>
   \<not> path_exists (get_key_path demo_env ''winaws-demo'') keyless_world \<and>
   fst (create_key_pair demo_env ''us-west-2'' ''winaws-demo'' keyless_world) = Some demo_key_path"
  by (simp add: Let_def create_key_pair_def create_fresh_def get_key_path_def key_call_defs print_defs
        demo_defs)

text \<open>
  C5, amended. Without a local key file, whether or not the provider has the name
  registered, \<open>create_key_pair\<close> deletes the provider's registration, creates a fresh
  pair under the name, stores the new private key and returns its path (when none of these
  four calls fails). The explicit failure that requires the file is in the \<open>password\<close>
  command: for an instance it has found, when neither the file named after the instance
  nor the file named after the instance's key pair exists, the command exits with status 1
  and has issued no call but the \<open>describe_instances\<close> that found the instance.
\<close>

theorem missing_key_file_fails_in_password_only:
  assumes nofile: "\<not> path_exists (get_key_path E k) w"
    and ok: "fault E (DeleteKeyPair region k) = None" "fault E (CreateKeyPair region k) = None"
      "fault E (WriteText (get_key_path E k)) = None" "fault E (Chmod (get_key_path E k)) = None"
  shows "(\<exists>w'. create_key_pair E region k w = (Some (get_key_path E k), w') \<and>
               trace w' = trace w @ [DeleteKeyPair region k, CreateKeyPair region k,
                                     WriteText (get_key_path E k), Chmod (get_key_path E k)] \<and>
               files w' (get_key_path E k) = Some \<lparr>content = key_material E, mode = 384\<rparr> \<and>
               (region, k) \<in> key_pairs w') \<and>
         (\<forall>iid region0 info.
               iid \<noteq> [] \<and> resolved E w iid region0 = Some region \<and>
               fst (get_instance_info E region iid w) = Some info \<and> i_key_name info = k \<and>
               \<not> path_exists (get_key_path E (''winaws-'' @ i_name info)) w \<longrightarrow>
               (\<exists>w'. password E (Some iid) region0 w = Some (1, w') \<and>
                     trace w' = trace w
                       @ map (\<lambda>r. DescribeInstances r [iid] []) (asked E w iid region0)
                       @ [DescribeInstances region [iid] []]))"
proof -
  have "fst (create_key_pair E region k w) = Some (get_key_path E k)"
    using nofile create_fresh_no_fault [OF ok, of w] by (simp add: create_key_pair_def)
  then obtain w' where run: "create_key_pair E region k w = (Some (get_key_path E k), w')"
    by (metis prod.collapse)
  then have cf: "create_fresh E region k (get_key_path E k) w = (Some (get_key_path E k), w')"
    using nofile by (simp add: create_key_pair_def)
  from create_fresh_success [OF cf] run
  have a: "\<exists>w'. create_key_pair E region k w = (Some (get_key_path E k), w') \<and>
               trace w' = trace w @ [DeleteKeyPair region k, CreateKeyPair region k,
                                     WriteText (get_key_path E k), Chmod (get_key_path E k)] \<and>
               files w' (get_key_path E k) = Some \<lparr>content = key_material E, mode = 384\<rparr> \<and>
               (region, k) \<in> key_pairs w'"
    by simp
  have b: "\<forall>iid region0 info.
               iid \<noteq> [] \<and> resolved E w iid region0 = Some region \<and>
               fst (get_instance_info E region iid w) = Some info \<and> i_key_name info = k \<and>
               \<not> path_exists (get_key_path E (''winaws-'' @ i_name info)) w \<longrightarrow>
               (\<exists>w'. password E (Some iid) region0 w = Some (1, w') \<and>
                     trace w' = trace w
                       @ map (\<lambda>r. DescribeInstances r [iid] []) (asked E w iid region0)
                       @ [DescribeInstances region [iid] []])"
  proof (intro allI impI)
    fix iid region0 info
    assume h: "iid \<noteq> [] \<and> resolved E w iid region0 = Some region \<and>
               fst (get_instance_info E region iid w) = Some info \<and> i_key_name info = k \<and>
               \<not> path_exists (get_key_path E (''winaws-'' @ i_name info)) w"
    then have h1: "iid \<noteq> []" and h2: "resolved E w iid region0 = Some region"
      and h3: "fst (get_instance_info E region iid w) = Some info"
      and h4: "i_key_name info = k"
      and h5: "\<not> path_exists (get_key_path E (''winaws-'' @ i_name info)) w"
      by blast+
    have h6: "\<not> path_exists (get_key_path E (i_key_name info)) w" using nofile h4 by simp
    show "\<exists>w'. password E (Some iid) region0 w = Some (1, w') \<and>
                     trace w' = trace w
                       @ map (\<lambda>r. DescribeInstances r [iid] []) (asked E w iid region0)
                       @ [DescribeInstances region [iid] []]"
      by (rule password_without_key_file [OF h1 h2 h3 h5 h6])
  qed
  show ?thesis by (rule conjI [OF a b])
qed

theorem missing_key_file_fails_in_password_only_witness:
  "\<not> path_exists (get_key_path demo_env ''winaws-demo'') keyless_world \<and>
   (''us-west-2'', ''winaws-demo'') \<in> key_pairs keyless_world \<and>
   (\<exists>w'. create_key_pair demo_env ''us-west-2'' ''winaws-demo'' keyless_world
            = (Some demo_key_path, w') \<and>
         trace w' = [DeleteKeyPair ''us-west-2'' ''winaws-demo'',
                     CreateKeyPair ''us-west-2'' ''winaws-demo'',
                     WriteText demo_key_path, Chmod demo_key_path]) \<and>
   (\<exists>w'. password demo_env (Some ''i-0a'') (Some ''us-west-2'') keyless_world = Some (1, w') \<and>
         trace w' = [DescribeInstances ''us-west-2'' [''i-0a''] []])"
proof -
  have pre: "\<not> path_exists (get_key_path demo_env ''winaws-demo'') keyless_world"
    "fault demo_env (DeleteKeyPair ''us-west-2'' ''winaws-demo'') = None"
    "fault demo_env (CreateKeyPair ''us-west-2'' ''winaws-demo'') = None"
    "fault demo_env (WriteText (get_key_path demo_env ''winaws-demo'')) = None"
    "fault demo_env (Chmod (get_key_path demo_env ''winaws-demo'')) = None"
    by (simp_all add: path_exists_def get_key_path_def demo_defs)
  have reg: "(''us-west-2'', ''winaws-demo'') \<in> key_pairs keyless_world"
    by (simp add: demo_defs)
  have kp: "get_key_path demo_env ''winaws-demo'' = demo_key_path"
    by (simp add: get_key_path_def demo_defs)
  let ?info = "the (fst (get_instance_info demo_env ''us-west-2'' ''i-0a'' keyless_world))"
  have info: "''i-0a'' \<noteq> [] \<and>
      resolved demo_env keyless_world ''i-0a'' (Some ''us-west-2'') = Some ''us-west-2'' \<and>
      fst (get_instance_info demo_env ''us-west-2'' ''i-0a'' keyless_world) = Some ?info \<and>
      i_key_name ?info = ''winaws-demo'' \<and>
      \<not> path_exists (get_key_path demo_env (''winaws-'' @ i_name ?info)) keyless_world"
    by (simp add: describe_defs path_exists_def get_key_path_def or_na_def tag_or_def
          resolved_def truthy_def demo_defs instance_defs)
  have as: "asked demo_env keyless_world ''i-0a'' (Some ''us-west-2'') = []"
    by (simp add: asked_def truthy_def)
  have tr: "trace keyless_world = []" by (simp add: demo_defs)
  from missing_key_file_fails_in_password_only [OF pre] info
  have "(\<exists>w'. create_key_pair demo_env ''us-west-2'' ''winaws-demo'' keyless_world
            = (Some (get_key_path demo_env ''winaws-demo''), w') \<and>
         trace w' = trace keyless_world @ [DeleteKeyPair ''us-west-2'' ''winaws-demo'',
                     CreateKeyPair ''us-west-2'' ''winaws-demo'',
                     WriteText (get_key_path demo_env ''winaws-demo''),
                     Chmod (get_key_path demo_env ''winaws-demo'')])"
    and "\<exists>w'. password demo_env (Some ''i-0a'') (Some ''us-west-2'') keyless_world = Some (1, w') \<and>
         trace w' = trace keyless_world
           @ map (\<lambda>r. DescribeInstances r [''i-0a''] [])
               (asked demo_env keyless_world ''i-0a'' (Some ''us-west-2''))
           @ [DescribeInstances ''us-west-2'' [''i-0a''] []]"
    by blast+
  with pre(1) reg show ?thesis unfolding kp as tr by simp
qed

subsection \<open>Stack deletion\<close>

lemma print_events_console:
  "console (foldl (\<lambda>w' event. print_event event w') w evs) = console w @ map event_line evs"
  by (induction evs arbitrary: w) (simp_all add: print_event_def event_line_def print_defs)

lemma print_stack_events_console:
  "console (print_stack_events E region sn limit w) =
     console w @
     (case fault E (DescribeStackEvents region sn) of
        Some e \<Rightarrow> [(Error, ''Failed to get stack events: '' @ str_exn e)]
      | None \<Rightarrow>
          (case stack_events E of
             Inl e \<Rightarrow> [(Error, ''Failed to get stack events: '' @ str_exn e)]
           | Inr evs \<Rightarrow> (Info, ''Recent events for stack '' @ quoted sn @ '':'')
                          # map event_line (take limit evs)))"
  by (simp add: print_stack_events_def cfn_describe_stack_events_def print_events_console
        print_defs record_call_def split: option.splits sum.splits)

lemma deletion_loop_not_found:
  assumes "clock w - t0 < of_int timeout"
    and "stack_status E (stack_polls w) = Inl (ClientError m)" "contains ''does not exist'' m"
  shows "\<exists>w'. deletion_loop E region sn timeout t0 w = Some (Inr True, w') \<and>
           console w' = console w @ [(Success, ''Stack deleted successfully!'')] \<and>
           stack_polls w' = Suc (stack_polls w)"
  using assms
  by (subst deletion_loop.simps) (simp add: cfn_describe_stacks_def record_call_def print_defs)

lemma deletion_loop_continues:
  assumes "clock w - t0 < of_int timeout"
    and "stack_status E (stack_polls w) = Inr (st # rest)" "st \<noteq> ''DELETE_FAILED''"
  shows "deletion_loop E region sn timeout t0 w =
         deletion_loop E region sn timeout t0
           (w\<lparr>stack_polls := Suc (stack_polls w),
              trace := trace w @ [DescribeStacks region sn, Sleep 10],
              clock := clock w + call_duration E (stack_polls w) + 10 + oversleep E (stack_polls w)\<rparr>)"
  using assms
  by (subst deletion_loop.simps) (simp add: cfn_describe_stacks_def sleep_def record_call_def)

lemma deletion_loop_failed:
  assumes "clock w - t0 < of_int timeout"
    and "stack_status E (stack_polls w) = Inr (''DELETE_FAILED'' # rest)"
  shows "\<exists>w'. deletion_loop E region sn timeout t0 w = Some (Inr False, w') \<and>
           console w' = console w @ (Error, ''Stack deletion failed'') #
             (case fault E (DescribeStackEvents region sn) of
                Some e \<Rightarrow> [(Error, ''Failed to get stack events: '' @ str_exn e)]
              | None \<Rightarrow>
                  (case stack_events E of
                     Inl e \<Rightarrow> [(Error, ''Failed to get stack events: '' @ str_exn e)]
                   | Inr evs \<Rightarrow> (Info, ''Recent events for stack '' @ quoted sn @ '':'')
                                  # map event_line (take 10 evs)))"
  using assms
  by (subst deletion_loop.simps)
     (simp add: cfn_describe_stacks_def record_call_def print_stack_events_console print_defs)

lemma deletion_loop_true:
  assumes "deletion_loop E region sn timeout t0 w = Some y"
  shows "fst y = Inr True \<longrightarrow> not_found_seen E w (snd y)"
proof (rule deletion_loop.raw_induct
    [where P = "\<lambda>E region sn timeout t0 w y. fst y = Inr True \<longrightarrow> not_found_seen E w (snd y)",
     OF _ assms], goal_cases)
  case (1 loop E region sn timeout t0 w y)
  note IH = 1(1) and step = 1(2)
  show ?case
  proof (cases "clock w - t0 < of_int timeout")
    case False
    with step show ?thesis by auto
  next
    case guard: True
    obtain w1 where d: "cfn_describe_stacks E region sn w = (stack_status E (stack_polls w), w1)"
      and p1: "stack_polls w1 = Suc (stack_polls w)" and c1: "console w1 = console w"
      by (simp add: cfn_describe_stacks_def record_call_def)
    show ?thesis
    proof (cases "stack_status E (stack_polls w)")
      case (Inl e)
      with step guard d p1 show ?thesis
        by (cases e) (auto simp: not_found_seen_def print_defs split: if_splits)
    next
      case (Inr stacks)
      show ?thesis
      proof (cases stacks)
        case Nil
        with step guard d Inr show ?thesis by auto
      next
        case (Cons st rest)
        show ?thesis
        proof (cases "st = ''DELETE_FAILED''")
          case True
          with step guard d Inr Cons show ?thesis by auto
        next
          case False
          obtain w2 where s: "sleep E (stack_polls w) 10 w1 = Inr w2"
            and p2: "stack_polls w2 = stack_polls w1"
            by (simp add: sleep_def record_call_def)
          from step guard d Inr Cons False s
          have "loop E region sn timeout t0 w2 = Some y" by simp
          from IH [OF this] p1 p2 show ?thesis
            by (auto simp: not_found_seen_def)
        qed
      qed
    qed
  qed
qed


text \<open>
  C6. \<open>wait_for_stack_deletion\<close> returns \<open>True\<close> only when its last \<open>describe_stacks\<close>
  raised a ClientError saying that the stack does not exist; on such an answer within the
  timeout it returns \<open>True\<close> at once. Any status other than \<open>DELETE_FAILED\<close>, so
  \<open>DELETE_IN_PROGRESS\<close> too, is no exit: the loop sleeps ten seconds and asks again. On
  \<open>DELETE_FAILED\<close> it returns \<open>False\<close> after printing \<open>Stack deletion failed\<close> and the first
  ten events \<open>describe_stack_events\<close> returns (the provider lists the newest first), or
  the error of that call.
\<close>

theorem stack_deletion_success_is_not_found:
  "(\<forall>w'. wait_for_stack_deletion E region sn timeout w = Some (Inr True, w') \<longrightarrow>
          not_found_seen E w w') \<and>
   (\<forall>(w1::world) m. clock w1 - t0 < of_int timeout \<and>
           stack_status E (stack_polls w1) = Inl (ClientError m) \<and>
           contains ''does not exist'' m \<longrightarrow>
           (\<exists>w'. deletion_loop E region sn timeout t0 w1 = Some (Inr True, w') \<and>
                 console w' = console w1 @ [(Success, ''Stack deleted successfully!'')])) \<and>
   (\<forall>(w1::world) status rest. clock w1 - t0 < of_int timeout \<and>
           stack_status E (stack_polls w1) = Inr (status # rest) \<and>
           status \<noteq> ''DELETE_FAILED'' \<longrightarrow>
           deletion_loop E region sn timeout t0 w1 =
           deletion_loop E region sn timeout t0
             (w1\<lparr>stack_polls := Suc (stack_polls w1),
                 trace := trace w1 @ [DescribeStacks region sn, Sleep 10],
                 clock := clock w1 + call_duration E (stack_polls w1) + 10
                            + oversleep E (stack_polls w1)\<rparr>)) \<and>
   (\<forall>(w1::world) rest. clock w1 - t0 < of_int timeout \<and>
           stack_status E (stack_polls w1) = Inr (''DELETE_FAILED'' # rest) \<longrightarrow>
           (\<exists>w'. deletion_loop E region sn timeout t0 w1 = Some (Inr False, w') \<and>
                 console w' = console w1 @ (Error, ''Stack deletion failed'') #
                   (case fault E (DescribeStackEvents region sn) of
                      Some e \<Rightarrow> [(Error, ''Failed to get stack events: '' @ str_exn e)]
                    | None \<Rightarrow>
                        (case stack_events E of
                           Inl e \<Rightarrow> [(Error, ''Failed to get stack events: '' @ str_exn e)]
                         | Inr evs \<Rightarrow> (Info, ''Recent events for stack '' @ quoted sn @ '':'')
                                        # map event_line (take 10 evs)))))"
proof (intro conjI allI impI)
  fix w'
  assume "wait_for_stack_deletion E region sn timeout w = Some (Inr True, w')"
  then have "not_found_seen E (print_info ''Waiting for stack deletion to complete...'' w) w'"
    unfolding wait_for_stack_deletion_def using deletion_loop_true by fastforce
  then show "not_found_seen E w w'" by (simp add: not_found_seen_def print_defs)
next
  fix w1 :: world and m
  assume "clock w1 - t0 < of_int timeout \<and>
           stack_status E (stack_polls w1) = Inl (ClientError m) \<and>
           contains ''does not exist'' m"
  then show "\<exists>w'. deletion_loop E region sn timeout t0 w1 = Some (Inr True, w') \<and>
                 console w' = console w1 @ [(Success, ''Stack deleted successfully!'')]"
    using deletion_loop_not_found [of w1 t0 timeout E m region sn] by blast
next
  fix w1 :: world and status rest
  assume "clock w1 - t0 < of_int timeout \<and>
           stack_status E (stack_polls w1) = Inr (status # rest) \<and>
           status \<noteq> ''DELETE_FAILED''"
  then show "deletion_loop E region sn timeout t0 w1 =
           deletion_loop E region sn timeout t0
             (w1\<lparr>stack_polls := Suc (stack_polls w1),
                 trace := trace w1 @ [DescribeStacks region sn, Sleep 10],
                 clock := clock w1 + call_duration E (stack_polls w1) + 10
                            + oversleep E (stack_polls w1)\<rparr>)"
    using deletion_loop_continues [of w1 t0 timeout E status rest region sn] by blast
next
  fix w1 :: world and rest
  assume "clock w1 - t0 < of_int timeout \<and>
           stack_status E (stack_polls w1) = Inr (''DELETE_FAILED'' # rest)"
  then show "\<exists>w'. deletion_loop E region sn timeout t0 w1 = Some (Inr False, w') \<and>
                 console w' = console w1 @ (Error, ''Stack deletion failed'') #
                   (case fault E (DescribeStackEvents region sn) of
                      Some e \<Rightarrow> [(Error, ''Failed to get stack events: '' @ str_exn e)]
                    | None \<Rightarrow>
                        (case stack_events E of
                           Inl e \<Rightarrow> [(Error, ''Failed to get stack events: '' @ str_exn e)]
                         | Inr evs \<Rightarrow> (Info, ''Recent events for stack '' @ quoted sn @ '':'')
                                        # map event_line (take 10 evs)))"
    using deletion_loop_failed [of w1 t0 timeout E rest region sn] by blast
qed

lemmas stack_run_defs = wait_for_stack_deletion_def cfn_describe_stacks_def sleep_def
  record_call_def print_defs

theorem stack_deletion_success_is_not_found_witness:
  "(\<exists>w'. wait_for_stack_deletion demo_env ''us-west-2'' ''winaws-demo'' 600 demo_world
            = Some (Inr True, w') \<and> not_found_seen demo_env demo_world w') \<and>
   stack_status demo_env 0 = Inr [''DELETE_IN_PROGRESS''] \<and>
   (\<exists>w'. deletion_loop failed_delete_env ''us-west-2'' ''winaws-demo'' 600 1000
            (demo_world\<lparr>stack_polls := 1\<rparr>) = Some (Inr False, w') \<and>
         length (console w') = 12 \<and>
         console w' ! 0 = (Error, ''Stack deletion failed'') \<and>
         console w' ! 2 = (Error, ''DELETE_FAILED: VPC - has dependencies''))"
proof -
  note t = stack_deletion_success_is_not_found
    [of demo_env "''us-west-2''" "''winaws-demo''" 600 demo_world 1000]
  note f = stack_deletion_success_is_not_found
    [of failed_delete_env "''us-west-2''" "''winaws-demo''" 600 demo_world 1000]
  have "map_option fst (wait_for_stack_deletion demo_env ''us-west-2'' ''winaws-demo'' 600 demo_world)
          = Some (Inr True)"
    by (simp add: deletion_loop.simps stack_run_defs demo_defs)
  then obtain w' where
    "wait_for_stack_deletion demo_env ''us-west-2'' ''winaws-demo'' 600 demo_world = Some (Inr True, w')"
    by auto
  with t have a: "\<exists>w'. wait_for_stack_deletion demo_env ''us-west-2'' ''winaws-demo'' 600 demo_world
            = Some (Inr True, w') \<and> not_found_seen demo_env demo_world w'"
    by blast
  have b: "stack_status demo_env 0 = Inr [''DELETE_IN_PROGRESS'']" by (simp add: demo_defs)
  have pre: "clock (demo_world\<lparr>stack_polls := 1\<rparr>) - 1000 < of_int 600 \<and>
     stack_status failed_delete_env (stack_polls (demo_world\<lparr>stack_polls := 1\<rparr>))
       = Inr (''DELETE_FAILED'' # [])"
    by (simp add: failed_delete_env_def demo_defs)
  from f pre obtain w' where
    run: "deletion_loop failed_delete_env ''us-west-2'' ''winaws-demo'' 600 1000
            (demo_world\<lparr>stack_polls := 1\<rparr>) = Some (Inr False, w')"
    and con: "console w' = console (demo_world\<lparr>stack_polls := 1\<rparr>) @ (Error, ''Stack deletion failed'') #
                   (case fault failed_delete_env (DescribeStackEvents ''us-west-2'' ''winaws-demo'') of
                      Some e \<Rightarrow> [(Error, ''Failed to get stack events: '' @ str_exn e)]
                    | None \<Rightarrow>
                        (case stack_events failed_delete_env of
                           Inl e \<Rightarrow> [(Error, ''Failed to get stack events: '' @ str_exn e)]
                         | Inr evs \<Rightarrow> (Info, ''Recent events for stack '' @ quoted ''winaws-demo'' @ '':'')
                                        # map event_line (take 10 evs)))"
    by blast
  have "length (console w') = 12 \<and> console w' ! 0 = (Error, ''Stack deletion failed'') \<and>
         console w' ! 2 = (Error, ''DELETE_FAILED: VPC - has dependencies'')"
    unfolding con by (simp add: failed_delete_env_def demo_defs event_line_def)
  with run a b show ?thesis by blast
qed

end
